theory Spec2Isabelle
  imports Complex_Main "HOL-Library.Sublist"
begin

section \<open>JavaScript numbers\<close>

text \<open>
  A JavaScript number is an IEEE double. A finite one is the \<open>real\<close> it denotes, the
  three non-finite ones are constructors of their own, so that every
  \<^verbatim>\<open>Number.isFinite\<close> guard of the source is a branch of the model. Comparisons are
  those of the reals; the arithmetic of doubles, with its rounding, is defined below.
\<close>

datatype jsnum = Num real | NaN | PosInf | NegInf

fun isFinite :: "jsnum \<Rightarrow> bool" where
  "isFinite (Num _) = True"
| "isFinite _ = False"

text \<open>Truthiness of a number: \<open>0\<close> and \<open>NaN\<close> are falsy.\<close>

fun truthy_num :: "jsnum \<Rightarrow> bool" where
  "truthy_num (Num x) = (x \<noteq> 0)"
| "truthy_num NaN = False"
| "truthy_num _ = True"

text \<open>\<^verbatim>\<open>Math.round\<close> rounds half up (towards plus infinity).\<close>

definition Math_round :: "real \<Rightarrow> int" where
  "Math_round x = \<lfloor>x + 1 / 2\<rfloor>"

fun Math_round_num :: "jsnum \<Rightarrow> jsnum" where
  "Math_round_num (Num x) = Num (of_int (Math_round x))"
| "Math_round_num x = x"

text \<open>\<^verbatim>\<open>xs.slice(-n)\<close>: the last \<open>n\<close> elements.\<close>

definition slice_last :: "nat \<Rightarrow> 'a list \<Rightarrow> 'a list" where
  "slice_last n xs = drop (length xs - n) xs"

section \<open>IEEE double arithmetic\<close>

text \<open>
  The arithmetic of the execution engine and of the order gateway is the arithmetic of
  doubles: every \<^verbatim>\<open>+\<close>, \<^verbatim>\<open>-\<close>, \<^verbatim>\<open>*\<close> and \<^verbatim>\<open>/\<close> rounds its exact result to the nearest
  double (ties to the even significand), overflows to an infinity and underflows through
  the subnormal numbers to zero. A finite double is the real number it denotes; the two
  zeros are identified (no modelled computation divides by a zero it has computed).

  \<open>flog2 x\<close> is the binary exponent of \<open>x \<noteq> 0\<close>: \<open>2^(flog2 x) \<le> |x| < 2^(flog2 x + 1)\<close>.
\<close>

definition pow2 :: "int \<Rightarrow> real" where
  "pow2 k = 2 powi k"

function flog2p :: "real \<Rightarrow> nat" where
  "flog2p x = (if x < 2 then 0 else Suc (flog2p (x / 2)))"
  by auto
termination
proof (relation "measure (\<lambda>x. nat \<lfloor>x\<rfloor>)")
  show "wf (measure (\<lambda>x::real. nat \<lfloor>x\<rfloor>))" by simp
next
  fix x :: real
  assume "\<not> x < 2"
  then have "\<lfloor>x / 2\<rfloor> < \<lfloor>x\<rfloor>" "0 < \<lfloor>x\<rfloor>" by linarith+
  then show "(x / 2, x) \<in> measure (\<lambda>x. nat \<lfloor>x\<rfloor>)" by simp
qed

function flog2n :: "real \<Rightarrow> nat" where
  "flog2n x = (if x \<le> 0 \<or> 1 \<le> x then 0 else Suc (flog2n (2 * x)))"
  by auto
termination
proof (relation "measure (\<lambda>x. nat \<lceil>1 / x\<rceil>)")
  show "wf (measure (\<lambda>x::real. nat \<lceil>1 / x\<rceil>))" by simp
next
  fix x :: real
  assume "\<not> (x \<le> 0 \<or> 1 \<le> x)"
  then have x: "0 < x" "x < 1" by simp_all
  then have y: "1 < 1 / x" by simp
  then have c: "2 \<le> \<lceil>1 / x\<rceil>" by linarith
  have "1 / (2 * x) = (1 / x) / 2" by simp
  also have "\<dots> \<le> real_of_int \<lceil>1 / x\<rceil> / 2" by (simp add: divide_right_mono)
  also have "\<dots> \<le> real_of_int (\<lceil>1 / x\<rceil> - 1)" using c by simp
  finally have "\<lceil>1 / (2 * x)\<rceil> \<le> \<lceil>1 / x\<rceil> - 1" by (rule ceiling_le)
  then show "(2 * x, x) \<in> measure (\<lambda>x. nat \<lceil>1 / x\<rceil>)" using c x by simp
qed

declare flog2p.simps [simp del] flog2n.simps [simp del]

definition flog2 :: "real \<Rightarrow> int" where
  "flog2 x = (if 1 \<le> \<bar>x\<bar> then int (flog2p \<bar>x\<bar>) else - int (flog2n \<bar>x\<bar>))"

text \<open>Rounding to the nearest integer, a tie going to the even one.\<close>

definition rne :: "real \<Rightarrow> int" where
  "rne y = (let f = \<lfloor>y\<rfloor> in
            if y - of_int f < 1 / 2 then f
            else if 1 / 2 < y - of_int f then f + 1
            else if even f then f else f + 1)"

text \<open>
  \<open>fl x\<close> is the double an exact result \<open>x\<close> is rounded to: 53 significant bits, the last
  place never below \<open>2^-1074\<close>, and an infinity when the rounded magnitude reaches \<open>2^1024\<close>.
\<close>

definition fl :: "real \<Rightarrow> jsnum" where
  "fl x = (if x = 0 then Num 0
           else let e = max (flog2 x - 52) (- 1074);
                    r = of_int (rne (x / pow2 e)) * pow2 e
                in if pow2 1024 \<le> \<bar>r\<bar> then (if 0 < x then PosInf else NegInf) else Num r)"

text \<open>The four operations and the comparisons on numbers, \<open>NaN\<close> and the infinities included.\<close>

fun fneg :: "jsnum \<Rightarrow> jsnum" where
  "fneg (Num a) = Num (- a)"
| "fneg NaN = NaN"
| "fneg PosInf = NegInf"
| "fneg NegInf = PosInf"

fun fadd :: "jsnum \<Rightarrow> jsnum \<Rightarrow> jsnum" where
  "fadd (Num a) (Num b) = fl (a + b)"
| "fadd NaN _ = NaN"
| "fadd _ NaN = NaN"
| "fadd PosInf NegInf = NaN"
| "fadd NegInf PosInf = NaN"
| "fadd PosInf _ = PosInf"
| "fadd _ PosInf = PosInf"
| "fadd NegInf _ = NegInf"
| "fadd _ NegInf = NegInf"

definition fsub :: "jsnum \<Rightarrow> jsnum \<Rightarrow> jsnum" where
  "fsub a b = fadd a (fneg b)"

fun fmul :: "jsnum \<Rightarrow> jsnum \<Rightarrow> jsnum" where
  "fmul (Num a) (Num b) = fl (a * b)"
| "fmul NaN _ = NaN"
| "fmul _ NaN = NaN"
| "fmul PosInf (Num b) = (if b = 0 then NaN else if 0 < b then PosInf else NegInf)"
| "fmul NegInf (Num b) = (if b = 0 then NaN else if 0 < b then NegInf else PosInf)"
| "fmul (Num a) PosInf = (if a = 0 then NaN else if 0 < a then PosInf else NegInf)"
| "fmul (Num a) NegInf = (if a = 0 then NaN else if 0 < a then NegInf else PosInf)"
| "fmul PosInf PosInf = PosInf"
| "fmul PosInf NegInf = NegInf"
| "fmul NegInf PosInf = NegInf"
| "fmul NegInf NegInf = PosInf"

fun fdiv :: "jsnum \<Rightarrow> jsnum \<Rightarrow> jsnum" where
  "fdiv (Num a) (Num b) =
     (if b = 0 then (if a = 0 then NaN else if 0 < a then PosInf else NegInf) else fl (a / b))"
| "fdiv NaN _ = NaN"
| "fdiv _ NaN = NaN"
| "fdiv (Num a) _ = Num 0"
| "fdiv PosInf (Num b) = (if 0 \<le> b then PosInf else NegInf)"
| "fdiv NegInf (Num b) = (if 0 \<le> b then NegInf else PosInf)"
| "fdiv _ _ = NaN"

fun js_lt :: "jsnum \<Rightarrow> jsnum \<Rightarrow> bool" where
  "js_lt (Num a) (Num b) = (a < b)"
| "js_lt NaN _ = False"
| "js_lt _ NaN = False"
| "js_lt _ NegInf = False"
| "js_lt PosInf _ = False"
| "js_lt _ _ = True"

fun js_le :: "jsnum \<Rightarrow> jsnum \<Rightarrow> bool" where
  "js_le (Num a) (Num b) = (a \<le> b)"
| "js_le NaN _ = False"
| "js_le _ NaN = False"
| "js_le NegInf _ = True"
| "js_le _ PosInf = True"
| "js_le _ _ = False"

text \<open>\<^verbatim>\<open>Math.min\<close> and \<^verbatim>\<open>Math.max\<close> of two numbers: \<open>NaN\<close> when either is.\<close>

fun Math_min :: "jsnum \<Rightarrow> jsnum \<Rightarrow> jsnum" where
  "Math_min NaN _ = NaN"
| "Math_min _ NaN = NaN"
| "Math_min a b = (if js_le a b then a else b)"

fun Math_max :: "jsnum \<Rightarrow> jsnum \<Rightarrow> jsnum" where
  "Math_max NaN _ = NaN"
| "Math_max _ NaN = NaN"
| "Math_max a b = (if js_le a b then b else a)"

text \<open>The exponent of the last place of \<open>fl x\<close>, and the rounded value before the overflow test.\<close>

definition ulp_exp :: "real \<Rightarrow> int" where
  "ulp_exp x = max (flog2 x - 52) (- 1074)"

definition fl_value :: "real \<Rightarrow> real" where
  "fl_value x = of_int (rne (x / pow2 (ulp_exp x))) * pow2 (ulp_exp x)"

section \<open>Execution engine: the position and risk ledger (ExecutionEngine.js)\<close>

text \<open>
  The ledger's numbers are doubles: a size, an average price, the realised PnL and the
  pause deadline are results of double arithmetic and may be an infinity or \<open>NaN\<close>. The
  risk settings, the balances and the clock readings are finite.
\<close>

datatype pos_side = FLAT | LONG

record position =
  side :: pos_side
  size_pos :: jsnum
  averagePrice :: jsnum
  openedAt :: "real option"
  unrealizedR :: real
  barsOpen5m :: real

record riskConfig =
  maxTradeRiskPct :: real
  maxTotalRiskPct :: real
  defaultSizePct :: real
  minNotional :: real
  pauseAfterLosses :: real
  pauseMinutes :: real

record balances =
  quote :: real
  base :: real

record engine =
  riskCfg :: riskConfig
  pos :: position
  realizedPnlQuote :: jsnum
  dailyStartingBalance :: "real option"
  dailyPnlPct :: jsnum
  lossCountWindow :: "bool list"
  pauseUntil :: jsnum
  lastBalances :: "balances option"
  lastBalanceTs :: real

text \<open>
  The constructor's defaults (\<^verbatim>\<open>risk.x ?? default\<close>) and initial ledger. The literals
  \<^verbatim>\<open>0.75\<close> and \<^verbatim>\<open>1.5\<close> are doubles.
\<close>

definition default_riskConfig :: riskConfig where
  "default_riskConfig =
     \<lparr>maxTradeRiskPct = 3 / 4, maxTotalRiskPct = 3 / 2, defaultSizePct = 25,
      minNotional = 20, pauseAfterLosses = 2, pauseMinutes = 30\<rparr>"

definition initial_position :: position where
  "initial_position =
     \<lparr>side = FLAT, size_pos = Num 0, averagePrice = Num 0, openedAt = None,
      unrealizedR = 0, barsOpen5m = 0\<rparr>"

definition ExecutionEngine_new :: "riskConfig \<Rightarrow> engine" where
  "ExecutionEngine_new cfg =
     \<lparr>riskCfg = cfg, pos = initial_position, realizedPnlQuote = Num 0,
      dailyStartingBalance = None, dailyPnlPct = Num 0, lossCountWindow = [],
      pauseUntil = Num 0, lastBalances = None, lastBalanceTs = 0\<rparr>"

text \<open>\<^verbatim>\<open>isPaused()\<close>, with the clock reading passed in.\<close>

definition isPaused :: "real \<Rightarrow> engine \<Rightarrow> bool" where
  "isPaused now e = js_lt (Num now) (pauseUntil e)"

text \<open>
  \<^verbatim>\<open>#recalculateDailyPnL\<close>: nothing happens while the starting balance is
  falsy (null or 0) or not positive.
\<close>

definition recalculateDailyPnL :: "engine \<Rightarrow> engine" where
  "recalculateDailyPnL e =
     (case dailyStartingBalance e of
        None \<Rightarrow> e
      | Some b \<Rightarrow>
          if b = 0 then e
          else let current = fadd (Num b) (realizedPnlQuote e)
               in if b > 0
                  then e\<lparr>dailyPnlPct := fmul (fdiv (fsub current (Num b)) (Num b)) (Num 100)\<rparr>
                  else e)"

text \<open>\<^verbatim>\<open>#maybeApplyPause\<close>: the count of \<open>true\<close> entries against the threshold.\<close>

definition maybeApplyPause :: "real \<Rightarrow> engine \<Rightarrow> engine" where
  "maybeApplyPause now e =
     (let losses = length (filter (\<lambda>b. b) (lossCountWindow e))
      in if real losses \<ge> pauseAfterLosses (riskCfg e)
         then e\<lparr>pauseUntil := fadd (Num now) (fmul (Num (pauseMinutes (riskCfg e))) (Num 60000)),
                lossCountWindow := []\<rparr>
         else e)"

text \<open>The two branches of \<^verbatim>\<open>#applyFill\<close>, for a finite positive quantity and price.\<close>

definition fill_buy :: "real \<Rightarrow> real \<Rightarrow> bool \<Rightarrow> real \<Rightarrow> engine \<Rightarrow> engine" where
  "fill_buy q p assumeFill now e =
     (let v = fmul (Num q) (Num p);
          newSize = fadd (size_pos (pos e)) (Num q);
          newAverage = fdiv (fadd (fmul (averagePrice (pos e)) (size_pos (pos e))) v) newSize;
          e1 = e\<lparr>pos := (pos e)\<lparr>size_pos := newSize, averagePrice := newAverage, side := LONG\<rparr>\<rparr>;
          e2 = (if \<not> assumeFill then e1\<lparr>lastBalanceTs := 0\<rparr> else e1)
      in if openedAt (pos e2) = None \<or> openedAt (pos e2) = Some 0
         then e2\<lparr>pos := (pos e2)\<lparr>openedAt := Some now\<rparr>\<rparr>
         else e2)"

definition realized_of :: "real \<Rightarrow> real \<Rightarrow> engine \<Rightarrow> jsnum" where
  "realized_of q p e =
     fmul (fsub (Num p) (averagePrice (pos e))) (Math_min (Num q) (size_pos (pos e)))"

definition fill_sell :: "real \<Rightarrow> real \<Rightarrow> real \<Rightarrow> engine \<Rightarrow> engine" where
  "fill_sell q p now e =
     (let remaining = Math_max (Num 0) (fsub (size_pos (pos e)) (Num q));
          realized = realized_of q p e;
          e1 = e\<lparr>realizedPnlQuote := fadd (realizedPnlQuote e) realized,
                 pos := (pos e)\<lparr>size_pos := remaining\<rparr>\<rparr>;
          e2 = (if remaining = Num 0
                then e1\<lparr>pos := (pos e1)\<lparr>side := FLAT, averagePrice := Num 0, openedAt := None,
                                          unrealizedR := 0, barsOpen5m := 0\<rparr>\<rparr>
                else e1);
          e3 = e2\<lparr>lossCountWindow :=
                    slice_last 5 (lossCountWindow e2 @ [js_lt realized (Num 0)])\<rparr>
      in maybeApplyPause now e3)"

text \<open>
  \<^verbatim>\<open>#applyFill(side, quantity, price, options)\<close>. A quantity or price that is not
  finite and positive returns at once; a side other than buy or sell only recomputes the
  daily PnL. \<open>now\<close> is the reading of \<^verbatim>\<open>Date.now()\<close>.
\<close>

definition applyFill :: "string \<Rightarrow> jsnum \<Rightarrow> jsnum \<Rightarrow> bool \<Rightarrow> real \<Rightarrow> engine \<Rightarrow> engine" where
  "applyFill sd quantity price assumeFill now e =
     (case (quantity, price) of
        (Num q, Num p) \<Rightarrow>
          if q \<le> 0 \<or> p \<le> 0 then e
          else recalculateDailyPnL
                 (if sd = ''buy'' then fill_buy q p assumeFill now e
                  else if sd = ''sell'' then fill_sell q p now e
                  else e)
      | _ \<Rightarrow> e)"

text \<open>A fill as \<^verbatim>\<open>#applyFill\<close> receives it, with the clock reading at that call.\<close>

record fill =
  f_side :: string
  f_quantity :: jsnum
  f_price :: jsnum
  f_assumeFill :: bool
  f_now :: real

definition apply1 :: "fill \<Rightarrow> engine \<Rightarrow> engine" where
  "apply1 f e = applyFill (f_side f) (f_quantity f) (f_price f) (f_assumeFill f) (f_now f) e"

fun applyFills :: "fill list \<Rightarrow> engine \<Rightarrow> engine" where
  "applyFills [] e = e"
| "applyFills (f # fs) e = applyFills fs (apply1 f e)"

text \<open>The ledger invariant of the data model, as the specification words it.\<close>

definition position_invariant :: "position \<Rightarrow> bool" where
  "position_invariant p =
     ((side p = FLAT) = (size_pos p = Num 0) \<and> (size_pos p = Num 0) = (averagePrice p = Num 0))"

text \<open>
  Two buys as \<^verbatim>\<open>handleFill\<close> passes them on. The first has a quantity and a price of
  \<open>2^-540\<close>, whose product is below the smallest double. The second and third have a
  quantity of \<open>2^1023\<close>, the sum of two of which is above the largest.
\<close>

definition tiny_buy :: fill where
  "tiny_buy =
     \<lparr>f_side = ''buy'', f_quantity = Num (pow2 (- 540)), f_price = Num (pow2 (- 540)),
      f_assumeFill = False, f_now = 1000\<rparr>"

definition huge_buy :: fill where
  "huge_buy =
     \<lparr>f_side = ''buy'', f_quantity = Num (pow2 1023), f_price = Num (pow2 (- 1000)),
      f_assumeFill = False, f_now = 1000\<rparr>"

text \<open>Whether a fill is a sell with a finite positive quantity and price that realises a loss.\<close>

definition is_losing_sell :: "fill \<Rightarrow> engine \<Rightarrow> bool" where
  "is_losing_sell f e =
     (case (f_quantity f, f_price f) of
        (Num q, Num p) \<Rightarrow>
          q > 0 \<and> p > 0 \<and> f_side f = ''sell'' \<and> js_lt (realized_of q p e) (Num 0)
      | _ \<Rightarrow> False)"

fun losing_sells :: "fill list \<Rightarrow> engine \<Rightarrow> nat" where
  "losing_sells [] e = 0"
| "losing_sells (f # fs) e = (if is_losing_sell f e then 1 else 0) + losing_sells fs (apply1 f e)"

definition count_true :: "bool list \<Rightarrow> nat" where
  "count_true w = length (filter (\<lambda>b. b) w)"

definition valid_sell :: "fill \<Rightarrow> real \<Rightarrow> real \<Rightarrow> bool" where
  "valid_sell f q p =
     (f_quantity f = Num q \<and> f_price f = Num p \<and> q > 0 \<and> p > 0 \<and> f_side f = ''sell'')"

text \<open>
  A loss streak: buy 100 at 4, sell 100 at 3, buy 100 at 3 (the ledger is then long 100
  with one loss in the window), then sell 100 at 2.
\<close>

definition scenario_open :: engine where
  "scenario_open = applyFills
     [\<lparr>f_side = ''buy'', f_quantity = Num 100, f_price = Num 4, f_assumeFill = True, f_now = 1000\<rparr>,
      \<lparr>f_side = ''sell'', f_quantity = Num 100, f_price = Num 3, f_assumeFill = True, f_now = 2000\<rparr>,
      \<lparr>f_side = ''buy'', f_quantity = Num 100, f_price = Num 3, f_assumeFill = True, f_now = 3000\<rparr>]
     (ExecutionEngine_new default_riskConfig)"

definition scenario_paused :: engine where
  "scenario_paused = applyFill ''sell'' (Num 100) (Num 2) True 4000 scenario_open"

text \<open>One more round trip after the pause: buy 100 at 3, sell 100 at 2.\<close>

definition scenario_next :: "fill list" where
  "scenario_next =
     [\<lparr>f_side = ''buy'', f_quantity = Num 100, f_price = Num 3, f_assumeFill = True, f_now = 5000\<rparr>,
      \<lparr>f_side = ''sell'', f_quantity = Num 100, f_price = Num 2, f_assumeFill = True, f_now = 6000\<rparr>]"

section \<open>Feature builder: the confluence score (GPT5.js, class FeatureBuilder)\<close>

text \<open>
  The fields of a timeframe's features that \<^verbatim>\<open>#computeConfluence\<close> reads. A numeric
  field is \<open>None\<close> when it is null or undefined.
\<close>

record tf_features =
  maStack :: string
  macdHistogram :: "jsnum option"
  rsi :: "jsnum option"
  priceZ20 :: "jsnum option"
  volumeZScore :: "jsnum option"

record confluence =
  score :: int
  components :: "string list"

text \<open>\<^verbatim>\<open>Number.isFinite(x) && x > k\<close> and \<^verbatim>\<open>Number.isFinite(x) && x < k\<close>.\<close>

fun finite_gt :: "jsnum option \<Rightarrow> real \<Rightarrow> bool" where
  "finite_gt (Some (Num x)) k = (x > k)"
| "finite_gt _ k = False"

fun finite_lt :: "jsnum option \<Rightarrow> real \<Rightarrow> bool" where
  "finite_lt (Some (Num x)) k = (x < k)"
| "finite_lt _ k = False"

text \<open>\<^verbatim>\<open>score += d; components.push(tag)\<close>.\<close>

definition add_term :: "int \<Rightarrow> string \<Rightarrow> confluence \<Rightarrow> confluence" where
  "add_term d tag c = \<lparr>score = score c + d, components = components c @ [tag]\<rparr>"

definition confluence15 :: "tf_features \<Rightarrow> confluence \<Rightarrow> confluence" where
  "confluence15 tf15 c0 =
     (let c1 = (if maStack tf15 = ''bull'' then add_term 2 ''TrendBull(15m)'' c0
                else if maStack tf15 = ''bear'' then add_term (- 2) ''TrendBear(15m)'' c0
                else c0);
          c2 = (if finite_gt (macdHistogram tf15) 0 then add_term 1 ''MACD>0(15m)'' c1 else c1)
      in if finite_gt (rsi tf15) 55 then add_term 1 ''RSI>55(15m)'' c2
         else if finite_lt (rsi tf15) 45 then add_term (- 1) ''RSI<45(15m)'' c2
         else c2)"

definition confluence5 :: "tf_features \<Rightarrow> confluence \<Rightarrow> confluence" where
  "confluence5 tf5 c0 =
     (let c1 = (if finite_gt (priceZ20 tf5) (12 / 10) then add_term 1 ''PriceZ>1(5m)'' c0
                else if finite_lt (priceZ20 tf5) (- (12 / 10)) then add_term (- 1) ''PriceZ<-1(5m)'' c0
                else c0)
      in if finite_gt (volumeZScore tf5) (15 / 10) then add_term 1 ''VolumeSpike(5m)'' c1 else c1)"

definition confluence1h :: "tf_features \<Rightarrow> confluence \<Rightarrow> confluence" where
  "confluence1h tf1h c0 =
     (if maStack tf1h = ''bull'' then add_term 1 ''TrendBull(1h)'' c0
      else if maStack tf1h = ''bear'' then add_term (- 1) ''TrendBear(1h)'' c0
      else c0)"

text \<open>
  \<^verbatim>\<open>#computeConfluence(timeframes)\<close>: the 15m block, then the 5m block, then the 1h
  block, each skipped when its timeframe is missing.
\<close>

definition computeConfluence :: "(string \<rightharpoonup> tf_features) \<Rightarrow> confluence" where
  "computeConfluence timeframes =
     (let c0 = \<lparr>score = 0, components = []\<rparr>;
          tf5 = timeframes ''5m'';
          tf15 = timeframes ''15m'';
          tf1h = timeframes ''1h'';
          c1 = (case tf15 of None \<Rightarrow> c0 | Some t \<Rightarrow> confluence15 t c0);
          c2 = (case tf5 of None \<Rightarrow> c1 | Some t \<Rightarrow> confluence5 t c1)
      in case tf1h of None \<Rightarrow> c2 | Some t \<Rightarrow> confluence1h t c2)"

text \<open>
  The score as the specification words it, with a term of \<open>-1\<close> for a negative 15m MACD
  histogram.
\<close>

definition spec_sign_term :: "jsnum option \<Rightarrow> int" where
  "spec_sign_term h = (if finite_gt h 0 then 1 else if finite_lt h 0 then - 1 else 0)"

definition ma_term :: "int \<Rightarrow> string \<Rightarrow> int" where
  "ma_term w s = (if s = ''bull'' then w else if s = ''bear'' then - w else 0)"

definition band_term :: "jsnum option \<Rightarrow> real \<Rightarrow> real \<Rightarrow> int" where
  "band_term x hi lo = (if finite_gt x hi then 1 else if finite_lt x lo then - 1 else 0)"

definition above_term :: "jsnum option \<Rightarrow> real \<Rightarrow> int" where
  "above_term x k = (if finite_gt x k then 1 else 0)"

definition spec_confluence_score :: "(string \<rightharpoonup> tf_features) \<Rightarrow> int" where
  "spec_confluence_score timeframes =
     (case timeframes ''15m'' of None \<Rightarrow> 0
      | Some t \<Rightarrow> ma_term 2 (maStack t) + spec_sign_term (macdHistogram t)
                  + band_term (rsi t) 55 45)
   + (case timeframes ''5m'' of None \<Rightarrow> 0
      | Some t \<Rightarrow> band_term (priceZ20 t) (12 / 10) (- (12 / 10)) + above_term (volumeZScore t) (15 / 10))
   + (case timeframes ''1h'' of None \<Rightarrow> 0 | Some t \<Rightarrow> ma_term 1 (maStack t))"

text \<open>The term each component tag stands for.\<close>

definition tag_weight :: "string \<Rightarrow> int" where
  "tag_weight tag =
     (if tag = ''TrendBull(15m)'' then 2
      else if tag = ''TrendBear(15m)'' then - 2
      else if tag = ''MACD>0(15m)'' then 1
      else if tag = ''RSI>55(15m)'' then 1
      else if tag = ''RSI<45(15m)'' then - 1
      else if tag = ''PriceZ>1(5m)'' then 1
      else if tag = ''PriceZ<-1(5m)'' then - 1
      else if tag = ''VolumeSpike(5m)'' then 1
      else if tag = ''TrendBull(1h)'' then 1
      else if tag = ''TrendBear(1h)'' then - 1
      else 0)"

definition bearish_macd_only :: "string \<rightharpoonup> tf_features" where
  "bearish_macd_only =
     [''15m'' \<mapsto> \<lparr>maStack = ''neutral'', macdHistogram = Some (Num (- 1)), rsi = Some (Num 50),
                  priceZ20 = None, volumeZScore = None\<rparr>]"

text \<open>A component list agrees with a score when the score is the sum of its tags' terms.\<close>

definition tags_ok :: "confluence \<Rightarrow> bool" where
  "tags_ok c = (score c = sum_list (map tag_weight (components c)))"

text \<open>Whether a term contributes (is not zero), as a count.\<close>

definition contributes :: "int \<Rightarrow> nat" where
  "contributes x = (if x = 0 then 0 else 1)"

definition bullish_example :: "string \<rightharpoonup> tf_features" where
  "bullish_example =
     [''15m'' \<mapsto> \<lparr>maStack = ''bull'', macdHistogram = Some (Num (7 / 10000)), rsi = Some (Num 58),
                  priceZ20 = None, volumeZScore = None\<rparr>,
      ''5m'' \<mapsto> \<lparr>maStack = ''neutral'', macdHistogram = None, rsi = None,
                 priceZ20 = Some (Num (- 2)), volumeZScore = Some (Num (21 / 10))\<rparr>]"

section \<open>REST client: the retry policy (class Data)\<close>

text \<open>
  What awaiting a promise gives: a result, a rejection with an \<^verbatim>\<open>Error\<close> (its
  message), or \<^verbatim>\<open>undefined\<close> when a function falls off its end.
\<close>

datatype 'r outcome = Resolved 'r | Rejected string | ReturnedUndefined

text \<open>
  The network is the outcome of each \<^verbatim>\<open>executeRequest()\<close> in the order the calls are
  made: \<open>Inr\<close> the parsed \<^verbatim>\<open>response.result\<close>, \<open>Inl\<close> the message of the rejection
  (the joined error array, a transport error or a JSON parse error). The client's state
  counts those calls and the calls of \<^verbatim>\<open>makeRequest\<close>, and logs every
  \<^verbatim>\<open>setTimeout\<close> wait in milliseconds.
\<close>

record client_state =
  n_attempts :: nat
  n_requests :: nat
  sleeps :: "nat list"

definition maxRetries :: nat where "maxRetries = 3"
definition backoffMs :: nat where "backoffMs = 250"

function makeRequest_from ::
  "(nat \<Rightarrow> string + 'r) \<Rightarrow> nat \<Rightarrow> client_state \<Rightarrow> 'r outcome \<times> client_state" where
  "makeRequest_from net attempt st =
     (if attempt \<le> maxRetries then
        (let st1 = st\<lparr>n_attempts := n_attempts st + 1\<rparr>
         in case net (n_attempts st) of
              Inr r \<Rightarrow> (Resolved r, st1)
            | Inl err \<Rightarrow>
                if attempt = maxRetries then (Rejected err, st1)
                else makeRequest_from net (attempt + 1)
                       (st1\<lparr>sleeps := sleeps st1 @ [backoffMs * attempt]\<rparr>))
      else (ReturnedUndefined, st))"
  by pat_completeness auto
termination
  by (relation "measure (\<lambda>(net, attempt, st). maxRetries + 1 - attempt)") auto

declare makeRequest_from.simps [simp del]

definition makeRequest :: "(nat \<Rightarrow> string + 'r) \<Rightarrow> client_state \<Rightarrow> 'r outcome \<times> client_state" where
  "makeRequest net st = makeRequest_from net 1 (st\<lparr>n_requests := n_requests st + 1\<rparr>)"

text \<open>\<^verbatim>\<open>s.includes(sub)\<close>: \<open>sub\<close> occurs in \<open>s\<close> as a contiguous substring.\<close>

fun includes_str :: "string \<Rightarrow> string \<Rightarrow> bool" where
  "includes_str [] sub = (sub = [])"
| "includes_str (c # cs) sub = (prefix sub (c # cs) \<or> includes_str cs sub)"

definition retryable :: "string \<Rightarrow> bool" where
  "retryable message = (includes_str message ''Invalid nonce'' \<or> includes_str message ''timeout'')"

definition maxAttempts :: nat where "maxAttempts = 5"
definition baseDelay :: nat where "baseDelay = 250"

function getOpenOrders_from ::
  "(nat \<Rightarrow> string + 'r) \<Rightarrow> nat \<Rightarrow> client_state \<Rightarrow> 'r outcome \<times> client_state" where
  "getOpenOrders_from net attempt st =
     (if attempt \<le> maxAttempts then
        (case makeRequest net st of
           (Resolved r, st1) \<Rightarrow> (Resolved r, st1)
         | (ReturnedUndefined, st1) \<Rightarrow> (ReturnedUndefined, st1)
         | (Rejected message, st1) \<Rightarrow>
             if attempt = maxAttempts \<or> \<not> retryable message
             then (Rejected (''Failed to fetch open orders: '' @ message), st1)
             else getOpenOrders_from net (attempt + 1)
                    (st1\<lparr>sleeps := sleeps st1 @ [baseDelay * attempt]\<rparr>))
      else (Rejected ''Failed to fetch open orders: exceeded retry attempts'', st))"
  by pat_completeness auto
termination
  by (relation "measure (\<lambda>(net, attempt, st). maxAttempts + 1 - attempt)") auto

declare getOpenOrders_from.simps [simp del]

definition getOpenOrders :: "(nat \<Rightarrow> string + 'r) \<Rightarrow> client_state \<Rightarrow> 'r outcome \<times> client_state" where
  "getOpenOrders net st = getOpenOrders_from net 1 st"

text \<open>Every other endpoint method is one call of \<^verbatim>\<open>makeRequest\<close> whose rejection is re-thrown with a prefix.\<close>

definition rethrow :: "string \<Rightarrow> 'r outcome \<Rightarrow> 'r outcome" where
  "rethrow pre out = (case out of Rejected message \<Rightarrow> Rejected (pre @ message) | _ \<Rightarrow> out)"

definition addOrder_request :: "(nat \<Rightarrow> string + 'r) \<Rightarrow> client_state \<Rightarrow> 'r outcome \<times> client_state" where
  "addOrder_request net st =
     (case makeRequest net st of (out, st1) \<Rightarrow> (rethrow ''Failed to add order: '' out, st1))"

definition initial_client :: client_state where
  "initial_client = \<lparr>n_attempts = 0, n_requests = 0, sleeps = []\<rparr>"

text \<open>A network whose first three requests fail with a nonce error and whose fourth succeeds.\<close>

definition nonce_then_ok :: "nat \<Rightarrow> string + nat" where
  "nonce_then_ok k = (if k < 3 then Inl ''EAPI:Invalid nonce'' else Inr 7)"

definition always_denied :: "nat \<Rightarrow> string + nat" where
  "always_denied k = Inl ''EGeneral:Permission denied''"

section \<open>Decimal rendering of numbers\<close>

text \<open>The decimal digits of a natural number, as \<^verbatim>\<open>toFixed\<close> and \<^verbatim>\<open>String\<close> print them.\<close>

definition digit_char :: "nat \<Rightarrow> char" where
  "digit_char d = ''0123456789'' ! d"

fun digits :: "nat \<Rightarrow> string" where
  "digits n = (if n < 10 then [digit_char n] else digits (n div 10) @ [digit_char (n mod 10)])"

declare digits.simps [simp del]

text \<open>
  \<^verbatim>\<open>x.toFixed(f)\<close> for a finite \<open>x\<close>: a sign for \<open>x < 0\<close>, then the integer \<open>n\<close> nearest
  to \<open>|x| * 10^f\<close> (the larger one on a tie), left-padded with zeros to \<open>f + 1\<close> digits,
  with a point before the last \<open>f\<close> digits. (From \<open>10^21\<close> on JavaScript prints exponent
  notation instead; magnitudes that large are outside the model.)
\<close>

definition toFixed :: "real \<Rightarrow> nat \<Rightarrow> string" where
  "toFixed x f =
     (let n = nat \<lfloor>\<bar>x\<bar> * 10 ^ f + 1 / 2\<rfloor>;
          m = digits n;
          m' = (if f \<noteq> 0 \<and> length m \<le> f then replicate (f + 1 - length m) (CHR ''0'') @ m else m);
          k = length m'
      in (if x < 0 then ''-'' else '''')
         @ (if f = 0 then m' else take (k - f) m' @ ''.'' @ drop (k - f) m'))"

text \<open>\<^verbatim>\<open>x.toFixed(f)\<close> for a number that may not be finite.\<close>

definition toFixed_num :: "jsnum \<Rightarrow> nat \<Rightarrow> string" where
  "toFixed_num x f =
     (case x of Num r \<Rightarrow> toFixed r f | NaN \<Rightarrow> ''NaN'' | PosInf \<Rightarrow> ''Infinity''
      | NegInf \<Rightarrow> ''-Infinity'')"

section \<open>Level-2 logger: the order book state (Level2Logger)\<close>

text \<open>
  A stored level and a level as an event carries it, its two fields already passed
  through \<^verbatim>\<open>Number(...)\<close>. A list entry is \<open>None\<close> when it is falsy, a level list is
  \<open>None\<close> when it is not an array.
\<close>

record level =
  lv_price :: real
  lv_qty :: real

record raw_level =
  raw_price :: jsnum
  raw_qty :: jsnum

type_synonym book_side = "string \<rightharpoonup> level"

record book_event =
  ev_type :: string
  ev_bids :: "raw_level option list option"
  ev_asks :: "raw_level option list option"

text \<open>
  The book of one symbol. The flush bookkeeping of \<^verbatim>\<open>_recordSnapshot\<close> (the SQLite
  writes and their timer) never touches these fields and is left out.
\<close>

record book_state =
  bids :: book_side
  asks :: book_side
  last_price :: "real option"

text \<open>The body of the \<^verbatim>\<open>forEach\<close> in \<^verbatim>\<open>_applyLevels\<close>: one level applied to a side.\<close>

definition applyLevel :: "book_side \<Rightarrow> raw_level option \<Rightarrow> book_side" where
  "applyLevel m lv =
     (case lv of
        None \<Rightarrow> m
      | Some l \<Rightarrow>
          (case raw_price l of
             Num p \<Rightarrow>
               (let key = toFixed p 12 in
                case raw_qty l of
                  Num q \<Rightarrow> if q \<le> 0 then m(key := None) else m(key \<mapsto> \<lparr>lv_price = p, lv_qty = q\<rparr>)
                | _ \<Rightarrow> m(key := None))
           | _ \<Rightarrow> m))"

definition applyLevels :: "book_side \<Rightarrow> raw_level option list option \<Rightarrow> book_side" where
  "applyLevels m levels = (case levels of None \<Rightarrow> m | Some ls \<Rightarrow> foldl applyLevel m ls)"

text \<open>\<^verbatim>\<open>_onBookEvent(symbol, event)\<close> on the map of book states.\<close>

definition onBookEvent ::
  "string \<Rightarrow> book_event \<Rightarrow> (string \<rightharpoonup> book_state) \<Rightarrow> (string \<rightharpoonup> book_state)" where
  "onBookEvent symbol event bookStates =
     (case bookStates symbol of
        None \<Rightarrow> bookStates
      | Some state \<Rightarrow>
          (let s1 = (if ev_type event = ''snapshot''
                     then state\<lparr>bids := Map.empty, asks := Map.empty\<rparr> else state);
               s2 = s1\<lparr>bids := applyLevels (bids s1) (ev_bids event)\<rparr>;
               s3 = s2\<lparr>asks := applyLevels (asks s2) (ev_asks event)\<rparr>
           in bookStates(symbol \<mapsto> s3)))"

fun onBookEvents ::
  "string \<Rightarrow> book_event list \<Rightarrow> (string \<rightharpoonup> book_state) \<Rightarrow> (string \<rightharpoonup> book_state)" where
  "onBookEvents symbol [] bookStates = bookStates"
| "onBookEvents symbol (e # es) bookStates = onBookEvents symbol es (onBookEvent symbol e bookStates)"

text \<open>The key a level writes to, when it has one (a level with a finite price).\<close>

definition level_key :: "raw_level option \<Rightarrow> string option" where
  "level_key lv =
     (case lv of None \<Rightarrow> None
      | Some l \<Rightarrow> (case raw_price l of Num p \<Rightarrow> Some (toFixed p 12) | _ \<Rightarrow> None))"

text \<open>What a level leaves at its key: the level when its quantity is finite and positive, nothing otherwise.\<close>

definition level_entry :: "raw_level \<Rightarrow> level option" where
  "level_entry l =
     (case (raw_price l, raw_qty l) of
        (Num p, Num q) \<Rightarrow> if q > 0 then Some \<lparr>lv_price = p, lv_qty = q\<rparr> else None
      | _ \<Rightarrow> None)"

text \<open>A two-sided book with one bid, and a snapshot and an update for it.\<close>

definition example_books :: "string \<rightharpoonup> book_state" where
  "example_books =
     [''DOGE/USD'' \<mapsto> \<lparr>bids = [toFixed (1 / 10) 12 \<mapsto> \<lparr>lv_price = 1 / 10, lv_qty = 500\<rparr>],
                        asks = Map.empty, last_price = None\<rparr>]"

definition example_snapshot :: book_event where
  "example_snapshot =
     \<lparr>ev_type = ''snapshot'',
      ev_bids = Some [Some \<lparr>raw_price = Num (9 / 100), raw_qty = Num 40\<rparr>],
      ev_asks = Some [Some \<lparr>raw_price = Num (13 / 100), raw_qty = Num 25\<rparr>]\<rparr>"

definition example_update :: book_event where
  "example_update =
     \<lparr>ev_type = ''update'',
      ev_bids = Some [Some \<lparr>raw_price = Num (9 / 100), raw_qty = Num 0\<rparr>,
                      Some \<lparr>raw_price = Num (11 / 100), raw_qty = Num 70\<rparr>],
      ev_asks = Some []\<rparr>"

section \<open>Event engine (EventEngine.js)\<close>

text \<open>Subtraction and \<^verbatim>\<open>>=\<close> on JavaScript numbers, as IEEE arithmetic defines them.\<close>

fun js_sub :: "jsnum \<Rightarrow> jsnum \<Rightarrow> jsnum" where
  "js_sub (Num a) (Num b) = Num (a - b)"
| "js_sub NaN _ = NaN"
| "js_sub _ NaN = NaN"
| "js_sub PosInf PosInf = NaN"
| "js_sub NegInf NegInf = NaN"
| "js_sub PosInf _ = PosInf"
| "js_sub NegInf _ = NegInf"
| "js_sub (Num a) PosInf = NegInf"
| "js_sub (Num a) NegInf = PosInf"

fun js_ge :: "jsnum \<Rightarrow> real \<Rightarrow> bool" where
  "js_ge (Num a) d = (a \<ge> d)"
| "js_ge PosInf d = True"
| "js_ge _ d = False"

text \<open>
  A reason is the string the source builds; the three templates that print a number
  carry it (two numbers print alike only when they are equal).
  \<open>DrawdownGuardrail\<close> carries the text of \<^verbatim>\<open>drawdown.toFixed(2)\<close>.
\<close>

datatype reason =
    TrendFlipUp | TrendFlipDown | TrendFlipNeutral
  | VolatilityRegimeHigh | VolatilityRegimeLow | VolatilityRegimeNormal
  | ConfluenceDelta real real
  | LiquiditySweepLow | LiquiditySweepHigh | BreakAndHoldHigh | BreakAndHoldLow
  | DrawdownGuardrail string
  | TimeStop real
  | MomentumSpike

record thresholds =
  volHigh :: real
  volLow :: real
  confluenceDelta :: real
  drawdownGuard :: real
  positionAgeBars :: real

record liquidity_flags =
  sweepLow :: bool
  sweepHigh :: bool
  breakAndHoldHigh :: bool
  breakAndHoldLow :: bool

record event_engine =
  debounceMs :: real
  thr :: thresholds
  lastBucket5m :: "int option"
  lastBucket15m :: "int option"
  lastBucket60m :: "int option"
  lastTrendState :: "string option"
  lastVolState :: "string option"
  lastConfluence :: "real option"
  lastLiquidity :: liquidity_flags
  lastDrawdownAlert :: "string option"
  pendingReasonSet :: "reason list"
  lastEmitTs :: jsnum

definition default_thresholds :: thresholds where
  "default_thresholds =
     \<lparr>volHigh = 70, volLow = 30, confluenceDelta = 2, drawdownGuard = 2, positionAgeBars = 36\<rparr>"

definition no_liquidity :: liquidity_flags where
  "no_liquidity =
     \<lparr>sweepLow = False, sweepHigh = False, breakAndHoldHigh = False, breakAndHoldLow = False\<rparr>"

text \<open>
  The constructor; \<open>dms\<close> is \<^verbatim>\<open>options.debounceMs\<close> (used when finite, else 60000) and
  \<open>th\<close> the thresholds after the spread of \<^verbatim>\<open>options.thresholds\<close>.
\<close>

definition EventEngine_new :: "jsnum option \<Rightarrow> thresholds \<Rightarrow> event_engine" where
  "EventEngine_new dms th =
     \<lparr>debounceMs = (case dms of Some (Num d) \<Rightarrow> d | _ \<Rightarrow> 60000),
      thr = th,
      lastBucket5m = None, lastBucket15m = None, lastBucket60m = None,
      lastTrendState = None, lastVolState = None, lastConfluence = None,
      lastLiquidity = no_liquidity, lastDrawdownAlert = None,
      pendingReasonSet = [], lastEmitTs = Num 0\<rparr>"

text \<open>The timestamp fields of a price update; \<open>None\<close> is null or undefined.\<close>

record price_data =
  channelTimestampUnix :: "jsnum option"
  timestampUnix :: "jsnum option"
  intervalBeginUnix :: "jsnum option"

text \<open>\<^verbatim>\<open>a || b\<close> on nullable numbers: the first operand when it is truthy.\<close>

definition or_else :: "jsnum option \<Rightarrow> jsnum \<Rightarrow> jsnum" where
  "or_else a b = (case a of Some x \<Rightarrow> if truthy_num x then x else b | None \<Rightarrow> b)"

definition extractTimestamp :: "price_data \<Rightarrow> real \<Rightarrow> jsnum" where
  "extractTimestamp priceData now =
     or_else (channelTimestampUnix priceData)
       (or_else (timestampUnix priceData)
          (or_else (intervalBeginUnix priceData) (Num now)))"

text \<open>
  \<^verbatim>\<open>#updateBucket\<close> on one bucket slot: the new slot and whether the bucket changed.
\<close>

definition updateBucket :: "int option \<Rightarrow> jsnum \<Rightarrow> real \<Rightarrow> int option \<times> bool" where
  "updateBucket lastB timestamp minutes =
     (case timestamp of
        Num t \<Rightarrow>
          (let bucket = \<lfloor>t / (minutes * 60000)\<rfloor> in
           case lastB of
             None \<Rightarrow> (Some bucket, True)
           | Some b \<Rightarrow> if b \<noteq> bucket then (Some bucket, True) else (lastB, False))
      | _ \<Rightarrow> (lastB, False))"

text \<open>\<^verbatim>\<open>shouldEvaluate(priceData, meta)\<close>; \<open>triggered\<close> is the truthiness of \<^verbatim>\<open>meta.thresholdTriggered\<close>.\<close>

definition shouldEvaluate :: "price_data \<Rightarrow> bool \<Rightarrow> real \<Rightarrow> event_engine \<Rightarrow> bool \<times> event_engine" where
  "shouldEvaluate priceData triggered now st =
     (let timestamp = extractTimestamp priceData now;
          (b5, c5) = updateBucket (lastBucket5m st) timestamp 5;
          (b15, c15) = updateBucket (lastBucket15m st) timestamp 15;
          (b60, c60) = updateBucket (lastBucket60m st) timestamp 60;
          st' = st\<lparr>lastBucket5m := b5, lastBucket15m := b15, lastBucket60m := b60\<rparr>;
          release = (pendingReasonSet st \<noteq> []
                     \<and> js_ge (js_sub timestamp (lastEmitTs st)) (debounceMs st))
      in (c5 \<or> c15 \<or> c60 \<or> triggered \<or> release, st'))"

text \<open>The fields of a feature snapshot that \<^verbatim>\<open>detect\<close> reads.\<close>

record risk_state =
  risk_dailyPnlPct :: "jsnum option"
  risk_positionAgeBars5m :: "jsnum option"
  risk_unrealizedR :: "jsnum option"

record snapshot =
  snap_timestamp :: "jsnum option"
  regime_trend :: "string option"
  regime_volatility :: "string option"
  confluence_score :: "jsnum option"
  liquidity :: liquidity_flags
  risk :: "risk_state option"

text \<open>\<^verbatim>\<open>s || null\<close> on a nullable string: the empty string is falsy.\<close>

definition truthy_str :: "string option \<Rightarrow> string option" where
  "truthy_str s = (case s of Some x \<Rightarrow> if x = [] then None else Some x | None \<Rightarrow> None)"

text \<open>
  The five \<^verbatim>\<open>#evaluate...\<close> methods: each takes the reasons collected so far and
  the state, and returns both updated.
\<close>

definition evaluateTrend :: "snapshot \<Rightarrow> reason list \<times> event_engine \<Rightarrow> reason list \<times> event_engine" where
  "evaluateTrend snap = (\<lambda>(reasons, st).
     case truthy_str (regime_trend snap) of
       None \<Rightarrow> (reasons, st)
     | Some trendState \<Rightarrow>
         (let label = (if trendState = ''bull'' then TrendFlipUp
                       else if trendState = ''bear'' then TrendFlipDown else TrendFlipNeutral);
              reasons' = (case lastTrendState st of
                            Some l \<Rightarrow> if l \<noteq> trendState then reasons @ [label] else reasons
                          | None \<Rightarrow> reasons)
          in (reasons', st\<lparr>lastTrendState := Some trendState\<rparr>)))"

definition evaluateVolatility :: "snapshot \<Rightarrow> reason list \<times> event_engine \<Rightarrow> reason list \<times> event_engine" where
  "evaluateVolatility snap = (\<lambda>(reasons, st).
     case truthy_str (regime_volatility snap) of
       None \<Rightarrow> (reasons, st)
     | Some volState \<Rightarrow>
         (let reasons' =
                (case lastVolState st of
                   Some l \<Rightarrow>
                     if l \<noteq> volState
                     then reasons @ [if volState = ''high'' then VolatilityRegimeHigh
                                     else if volState = ''low'' then VolatilityRegimeLow
                                     else VolatilityRegimeNormal]
                     else reasons
                 | None \<Rightarrow>
                     if volState = ''high'' \<or> volState = ''low''
                     then reasons @ [if volState = ''high'' then VolatilityRegimeHigh
                                     else VolatilityRegimeLow]
                     else reasons)
          in (reasons', st\<lparr>lastVolState := Some volState\<rparr>)))"

definition evaluateConfluence :: "snapshot \<Rightarrow> reason list \<times> event_engine \<Rightarrow> reason list \<times> event_engine" where
  "evaluateConfluence snap = (\<lambda>(reasons, st).
     case confluence_score snap of
       Some (Num sc) \<Rightarrow>
         (let reasons' =
                (case lastConfluence st of
                   Some l \<Rightarrow>
                     if \<bar>sc - l\<bar> \<ge> confluenceDelta (thr st)
                     then reasons @ [ConfluenceDelta l sc] else reasons
                 | None \<Rightarrow> reasons)
          in (reasons', st\<lparr>lastConfluence := Some sc\<rparr>))
     | _ \<Rightarrow> (reasons, st))"

definition evaluateLiquidity :: "snapshot \<Rightarrow> reason list \<times> event_engine \<Rightarrow> reason list \<times> event_engine" where
  "evaluateLiquidity snap = (\<lambda>(reasons, st).
     (let lq = liquidity snap; lastL = lastLiquidity st;
          r1 = (if sweepLow lq \<and> \<not> sweepLow lastL then reasons @ [LiquiditySweepLow] else reasons);
          r2 = (if sweepHigh lq \<and> \<not> sweepHigh lastL then r1 @ [LiquiditySweepHigh] else r1);
          r3 = (if breakAndHoldHigh lq \<and> \<not> breakAndHoldHigh lastL then r2 @ [BreakAndHoldHigh] else r2);
          r4 = (if breakAndHoldLow lq \<and> \<not> breakAndHoldLow lastL then r3 @ [BreakAndHoldLow] else r3)
      in (r4, st\<lparr>lastLiquidity := lq\<rparr>)))"

text \<open>\<^verbatim>\<open>Number.isFinite(x) ? x : null\<close>.\<close>

definition finite_or_null :: "jsnum option \<Rightarrow> real option" where
  "finite_or_null x = (case x of Some (Num v) \<Rightarrow> Some v | _ \<Rightarrow> None)"

definition evaluateRisk :: "snapshot \<Rightarrow> reason list \<times> event_engine \<Rightarrow> reason list \<times> event_engine" where
  "evaluateRisk snap = (\<lambda>(reasons, st).
     case risk snap of
       None \<Rightarrow> (reasons, st)
     | Some rk \<Rightarrow>
         (let guard = \<bar>drawdownGuard (thr st)\<bar>;
              (r1, st1) =
                (case finite_or_null (risk_dailyPnlPct rk) of
                   Some drawdown \<Rightarrow>
                     if drawdown \<le> - guard
                     then (let key = toFixed drawdown 2 in
                           if lastDrawdownAlert st \<noteq> Some key
                           then (reasons @ [DrawdownGuardrail key], st\<lparr>lastDrawdownAlert := Some key\<rparr>)
                           else (reasons, st))
                     else (reasons, st\<lparr>lastDrawdownAlert := None\<rparr>)
                 | None \<Rightarrow> (reasons, st));
              unrealized = (case finite_or_null (risk_unrealizedR rk) of Some u \<Rightarrow> u | None \<Rightarrow> 0)
          in case finite_or_null (risk_positionAgeBars5m rk) of
               Some positionAge \<Rightarrow>
                 if positionAge \<ge> positionAgeBars (thr st1) \<and> \<bar>unrealized\<bar> < 1 / 2
                 then (r1 @ [TimeStop positionAge], st1) else (r1, st1)
             | None \<Rightarrow> (r1, st1)))"

text \<open>\<^verbatim>\<open>Set.prototype.add\<close> on the insertion-ordered set, and adding a list in order.\<close>

definition set_add :: "'a list \<Rightarrow> 'a \<Rightarrow> 'a list" where
  "set_add s x = (if x \<in> set s then s else s @ [x])"

definition add_all :: "'a list \<Rightarrow> 'a list \<Rightarrow> 'a list" where
  "add_all s xs = foldl set_add s xs"

text \<open>\<^verbatim>\<open>#maybeEmit(timestamp)\<close>.\<close>

definition maybeEmit :: "jsnum \<Rightarrow> event_engine \<Rightarrow> reason list \<times> event_engine" where
  "maybeEmit timestamp st =
     (if pendingReasonSet st = [] then ([], st)
      else if \<not> truthy_num (lastEmitTs st) \<or> js_ge (js_sub timestamp (lastEmitTs st)) (debounceMs st)
      then (pendingReasonSet st, st\<lparr>pendingReasonSet := [], lastEmitTs := timestamp\<rparr>)
      else ([], st))"

text \<open>The reasons one \<^verbatim>\<open>detect\<close> call collects, with the remembered state updated.\<close>

definition collect_reasons :: "snapshot \<Rightarrow> bool \<Rightarrow> event_engine \<Rightarrow> reason list \<times> event_engine" where
  "collect_reasons snap triggered st =
     (let (r, st') = evaluateRisk snap (evaluateLiquidity snap (evaluateConfluence snap
                       (evaluateVolatility snap (evaluateTrend snap ([], st)))))
      in (if triggered then r @ [MomentumSpike] else r, st'))"

text \<open>
  \<^verbatim>\<open>detect(snapshot, meta)\<close>. \<open>None\<close> is a snapshot that is not an object.
  \<open>now\<close> is the reading of \<^verbatim>\<open>Date.now()\<close>.
\<close>

definition detect_timestamp :: "snapshot \<Rightarrow> real \<Rightarrow> jsnum" where
  "detect_timestamp snap now = or_else (snap_timestamp snap) (Num now)"

definition detect :: "snapshot option \<Rightarrow> bool \<Rightarrow> real \<Rightarrow> event_engine \<Rightarrow> reason list \<times> event_engine" where
  "detect snapshot triggered now st =
     (case snapshot of
        None \<Rightarrow> ([], st)
      | Some snap \<Rightarrow>
          (let timestamp = detect_timestamp snap now;
               (reasons, st1) = collect_reasons snap triggered st;
               st2 = st1\<lparr>pendingReasonSet := add_all (pendingReasonSet st1) reasons\<rparr>
           in maybeEmit timestamp st2))"

text \<open>A sequence of \<^verbatim>\<open>detect\<close> calls, and the log of its non-empty emissions with their timestamps.\<close>

record detect_call =
  dc_snapshot :: "snapshot option"
  dc_triggered :: bool
  dc_now :: real

fun detect_all :: "detect_call list \<Rightarrow> event_engine \<Rightarrow> (jsnum \<times> reason list) list \<times> event_engine" where
  "detect_all [] st = ([], st)"
| "detect_all (c # cs) st =
     (let (emitted, st1) = detect (dc_snapshot c) (dc_triggered c) (dc_now c) st;
          (log, st2) = detect_all cs st1
      in ((case dc_snapshot c of
             Some snap \<Rightarrow> if emitted \<noteq> [] then [(detect_timestamp snap (dc_now c), emitted)] else []
           | None \<Rightarrow>  []) @ log, st2))"

text \<open>Two emissions are a debounce interval apart when the later minus the earlier is at least \<open>d\<close>.\<close>

definition apart :: "real \<Rightarrow> jsnum \<times> reason list \<Rightarrow> jsnum \<times> reason list \<Rightarrow> bool" where
  "apart d a b = js_ge (js_sub (fst b) (fst a)) d"

text \<open>A timestamp field that cannot make the extracted timestamp non-finite: absent, falsy or finite.\<close>

definition finite_or_falsy :: "jsnum option \<Rightarrow> bool" where
  "finite_or_falsy x = (case x of None \<Rightarrow> True | Some v \<Rightarrow> isFinite v \<or> \<not> truthy_num v)"

text \<open>Three snapshots thirty seconds apart: a high-volatility start, then a liquidity sweep that stays on.\<close>

definition quiet_snapshot :: "real \<Rightarrow> snapshot" where
  "quiet_snapshot t =
     \<lparr>snap_timestamp = Some (Num t), regime_trend = Some ''bull'', regime_volatility = Some ''high'',
      confluence_score = Some (Num 1), liquidity = no_liquidity, risk = None\<rparr>"

definition example_calls :: "detect_call list" where
  "example_calls =
     [\<lparr>dc_snapshot = Some (quiet_snapshot 1000000), dc_triggered = False, dc_now = 1000001\<rparr>,
      \<lparr>dc_snapshot = Some ((quiet_snapshot 1030000)\<lparr>liquidity := no_liquidity\<lparr>sweepLow := True\<rparr>\<rparr>),
       dc_triggered = False, dc_now = 1030001\<rparr>,
      \<lparr>dc_snapshot = Some ((quiet_snapshot 1060000)\<lparr>liquidity := no_liquidity\<lparr>sweepLow := True\<rparr>\<rparr>),
       dc_triggered = False, dc_now = 1060001\<rparr>]"

definition no_timestamps :: price_data where
  "no_timestamps = \<lparr>channelTimestampUnix = None, timestampUnix = None, intervalBeginUnix = None\<rparr>"

definition infinite_timestamp :: price_data where
  "infinite_timestamp =
     \<lparr>channelTimestampUnix = Some PosInf, timestampUnix = None, intervalBeginUnix = None\<rparr>"

section \<open>Decision adapter: normalising a raw decision (LLMDecider.js)\<close>

text \<open>
  A JavaScript value as \<^verbatim>\<open>JSON.parse\<close> or a mock decision function can produce it.
  An object is its list of properties; reading a property takes the first binding.
\<close>

datatype jsval =
    JUndefined | JNull | JBool bool | JNumber jsnum | JString string
  | JArray "jsval list" | JObject "(string \<times> jsval) list"

fun truthy :: "jsval \<Rightarrow> bool" where
  "truthy JUndefined = False"
| "truthy JNull = False"
| "truthy (JBool b) = b"
| "truthy (JNumber n) = truthy_num n"
| "truthy (JString s) = (s \<noteq> [])"
| "truthy (JArray _) = True"
| "truthy (JObject _) = True"

text \<open>\<^verbatim>\<open>typeof v === 'object'\<close> for a truthy \<open>v\<close>: arrays and objects.\<close>

fun is_object :: "jsval \<Rightarrow> bool" where
  "is_object (JArray _) = True"
| "is_object (JObject _) = True"
| "is_object _ = False"

text \<open>
  \<^verbatim>\<open>v.key\<close> for one of the decision's property names (none of them is an array index
  or \<^verbatim>\<open>length\<close>, so an array has none of them).
\<close>

fun get_prop :: "jsval \<Rightarrow> string \<Rightarrow> jsval" where
  "get_prop (JObject kvs) key = (case map_of kvs key of Some v \<Rightarrow> v | None \<Rightarrow> JUndefined)"
| "get_prop _ key = JUndefined"

text \<open>
  \<^verbatim>\<open>String(v)\<close> and \<^verbatim>\<open>Number(v)\<close>. Printing a number and parsing a string as a number are
  the language's own algorithms; they are taken as the parameters \<open>numstr\<close> and \<open>strnum\<close>.
\<close>

fun join_comma :: "string list \<Rightarrow> string" where
  "join_comma [] = []"
| "join_comma [s] = s"
| "join_comma (s # t # ss) = s @ '','' @ join_comma (t # ss)"

fun js_String :: "(jsnum \<Rightarrow> string) \<Rightarrow> jsval \<Rightarrow> string" where
  "js_String numstr JUndefined = ''undefined''"
| "js_String numstr JNull = ''null''"
| "js_String numstr (JBool b) = (if b then ''true'' else ''false'')"
| "js_String numstr (JNumber n) = numstr n"
| "js_String numstr (JString s) = s"
| "js_String numstr (JArray xs) =
     join_comma (map (\<lambda>x. if x = JUndefined \<or> x = JNull then [] else js_String numstr x) xs)"
| "js_String numstr (JObject _) = ''[object Object]''"

definition js_Number :: "(jsnum \<Rightarrow> string) \<Rightarrow> (string \<Rightarrow> jsnum) \<Rightarrow> jsval \<Rightarrow> jsnum" where
  "js_Number numstr strnum v =
     (case v of
        JUndefined \<Rightarrow> NaN
      | JNull \<Rightarrow> Num 0
      | JBool b \<Rightarrow> Num (if b then 1 else 0)
      | JNumber n \<Rightarrow> n
      | JString s \<Rightarrow> strnum s
      | _ \<Rightarrow> strnum (js_String numstr v))"

text \<open>\<^verbatim>\<open>toUpperCase\<close> and \<^verbatim>\<open>trim\<close> on ASCII text.\<close>

definition upper_char :: "char \<Rightarrow> char" where
  "upper_char c =
     (case map_of (zip ''abcdefghijklmnopqrstuvwxyz'' ''ABCDEFGHIJKLMNOPQRSTUVWXYZ'') c of
        Some u \<Rightarrow> u
      | None \<Rightarrow> c)"

definition toUpperCase :: "string \<Rightarrow> string" where
  "toUpperCase s = map upper_char s"

definition is_space :: "char \<Rightarrow> bool" where
  "is_space c = (c \<in> set [CHR '' '', CHR 0x09, CHR 0x0A, CHR 0x0B, CHR 0x0C, CHR 0x0D])"

definition trim :: "string \<Rightarrow> string" where
  "trim s = rev (dropWhile is_space (rev (dropWhile is_space s)))"

definition allowed_actions :: "string list" where
  "allowed_actions =
     [''HOLD'', ''OPEN_LONG'', ''ADD'', ''TRIM'', ''CLOSE_PARTIAL'', ''CLOSE_ALL'',
      ''MOVE_STOP'', ''SET_TP'', ''PAUSE'']"

text \<open>The decision object the adapter returns; a field the object lacks is \<open>JUndefined\<close>.\<close>

record decision =
  d_action :: string
  d_size_pct :: jsval
  d_entry :: jsval
  d_stop_atr :: jsval
  d_tp_atr :: jsval
  d_followups :: jsval
  d_comment :: string

definition defaultDecision :: "string \<Rightarrow> decision" where
  "defaultDecision comment =
     \<lparr>d_action = ''HOLD'', d_size_pct = JUndefined, d_entry = JUndefined, d_stop_atr = JUndefined,
      d_tp_atr = JUndefined, d_followups = JUndefined, d_comment = comment\<rparr>"

text \<open>\<^verbatim>\<open>Number.isFinite(Number(v)) ? Number(v) : null\<close>.\<close>

definition finite_number_or_null :: "(jsnum \<Rightarrow> string) \<Rightarrow> (string \<Rightarrow> jsnum) \<Rightarrow> jsval \<Rightarrow> jsval" where
  "finite_number_or_null numstr strnum v =
     (if isFinite (js_Number numstr strnum v) then JNumber (js_Number numstr strnum v) else JNull)"

fun isArray :: "jsval \<Rightarrow> bool" where
  "isArray (JArray _) = True"
| "isArray _ = False"

definition normaliseDecision ::
  "(jsnum \<Rightarrow> string) \<Rightarrow> (string \<Rightarrow> jsnum) \<Rightarrow> jsval \<Rightarrow> string \<Rightarrow> decision" where
  "normaliseDecision numstr strnum dec source =
     (if \<not> truthy dec \<or> \<not> is_object dec then defaultDecision (''Invalid '' @ source)
      else
        let action = toUpperCase (js_String numstr
                       (if truthy (get_prop dec ''action'') then get_prop dec ''action'' else JString ''''))
        in if action \<notin> set allowed_actions
           then defaultDecision (''Unsupported action \"'' @ js_String numstr (get_prop dec ''action'') @ ''\"'')
           else
             \<lparr>d_action = action,
              d_size_pct = finite_number_or_null numstr strnum (get_prop dec ''size_pct''),
              d_entry = (if truthy (get_prop dec ''entry'') then get_prop dec ''entry'' else JNull),
              d_stop_atr = finite_number_or_null numstr strnum (get_prop dec ''stop_atr''),
              d_tp_atr = finite_number_or_null numstr strnum (get_prop dec ''tp_atr''),
              d_followups = (if isArray (get_prop dec ''followups'') then get_prop dec ''followups''
                             else JArray []),
              d_comment = (case get_prop dec ''comment'' of JString c \<Rightarrow> trim c | _ \<Rightarrow> source)\<rparr>)"

text \<open>A finite number or null; a list of strings.\<close>

fun finite_or_null_val :: "jsval \<Rightarrow> bool" where
  "finite_or_null_val JNull = True"
| "finite_or_null_val (JNumber n) = isFinite n"
| "finite_or_null_val _ = False"

fun is_string :: "jsval \<Rightarrow> bool" where
  "is_string (JString _) = True"
| "is_string _ = False"

fun is_string_list :: "jsval \<Rightarrow> bool" where
  "is_string_list (JArray xs) = list_all is_string xs"
| "is_string_list _ = False"

text \<open>The normalised action of a raw decision: its upper-cased string form, the empty string when falsy.\<close>

definition action_of :: "(jsnum \<Rightarrow> string) \<Rightarrow> jsval \<Rightarrow> string" where
  "action_of numstr dec =
     toUpperCase (js_String numstr
       (if truthy (get_prop dec ''action'') then get_prop dec ''action'' else JString ''''))"

text \<open>
  A decision with a stop entry and a numeric follow-up, and one with a lower-case action.
  Neither holds a number to print or a numeric string to parse, so the two parameters
  are never consulted on them; they are given constant functions.
\<close>

definition stop_entry_decision :: jsval where
  "stop_entry_decision =
     JObject [(''action'', JString ''OPEN_LONG''),
              (''entry'', JObject [(''type'', JString ''stop'')]),
              (''followups'', JArray [JNumber (Num 1)])]"

definition lowercase_decision :: jsval where
  "lowercase_decision = JObject [(''action'', JString ''open_long''), (''size_pct'', JNumber (Num 25))]"

text \<open>The mock decision of the repository's test script.\<close>

definition mock_decision :: jsval where
  "mock_decision =
     JObject [(''action'', JString ''OPEN_LONG''), (''size_pct'', JNumber (Num 25)),
              (''entry'', JObject [(''type'', JString ''limit''), (''offset_bps'', JNumber (Num (- 5)))]),
              (''stop_atr'', JNumber (Num (12 / 10))), (''tp_atr'', JNumber (Num (25 / 10))),
              (''followups'', JArray [JString ''MOVE_STOP: breakeven on +1.0R'']),
              (''comment'', JString ''Bull trend with strong confluence.'')]"

section \<open>Bot gateway: order submission (Bot.js)\<close>

text \<open>
  Pair metadata as the exchange lists it. \<open>pair_decimals\<close> and \<open>lot_decimals\<close> are
  \<open>None\<close> when they are not integers (the getters then answer 8); Kraken's digit
  counts are never negative, and the type leaves negative ones out (for those
  \<^verbatim>\<open>formatWithPrecision\<close> would print the number unrounded). \<open>ordermin\<close> is the field
  passed through \<^verbatim>\<open>Number(...)\<close>, \<open>None\<close> when missing.
\<close>

record pair_info =
  altname :: "string option"
  wsname :: "string option"
  pi_base :: "string option"
  pi_quote :: "string option"
  pair_decimals :: "nat option"
  lot_decimals :: "nat option"
  ordermin :: "jsnum option"

text \<open>A payload is the AddOrder object: its properties in insertion order.\<close>

datatype pval = PStr string | PNum real

type_synonym payload = "(string \<times> pval) list"

text \<open>\<^verbatim>\<open>obj[key] = v\<close>: an existing property keeps its place, a new one goes last.\<close>

fun obj_set :: "payload \<Rightarrow> string \<Rightarrow> pval \<Rightarrow> payload" where
  "obj_set [] k v = [(k, v)]"
| "obj_set ((k', v') # kvs) k v = (if k' = k then (k, v) # kvs else (k', v') # obj_set kvs k v)"

definition obj_spread :: "payload \<Rightarrow> payload \<Rightarrow> payload" where
  "obj_spread obj params = foldl (\<lambda>acc (k, v). obj_set acc k v) obj params"

datatype rest_call = GetTradablePairs | GetTicker | GetBalances | AddOrder payload

datatype bot_event = OrderSubmitted payload bool

datatype bot_error =
    OrderTypeRequired | PairNotFound | PositiveVolumeRequired | VolumeBelowMinimum real real
  | PositivePriceRequired | ClientError string

text \<open>
  What the data client answers: \<open>Inl\<close> the message of the error it throws. The ticker
  answer is the \<open>lastTrade\<close> that \<^verbatim>\<open>extractTicker\<close> reads from it (\<open>None\<close> when it finds
  no ticker), the balance answer the quote and base amounts that \<^verbatim>\<open>#loadBalances\<close>
  parses from it.
\<close>

record 'r exchange =
  x_tradablePairs :: "string + (string \<times> pair_info) list"
  x_addOrder :: "payload \<Rightarrow> string + 'r"
  x_ticker :: "string + real option"
  x_balances :: "string + balances"

record bot =
  dryRun :: bool
  enforcePrecision :: bool
  restPair :: string
  wsPair :: string
  pairInfo :: "pair_info option"
  rest_log :: "rest_call list"
  events :: "bot_event list"

definition pricePrecision :: "bot \<Rightarrow> nat" where
  "pricePrecision b =
     (case pairInfo b of Some i \<Rightarrow> (case pair_decimals i of Some d \<Rightarrow> d | None \<Rightarrow> 8) | None \<Rightarrow> 8)"

definition volumePrecision :: "bot \<Rightarrow> nat" where
  "volumePrecision b =
     (case pairInfo b of Some i \<Rightarrow> (case lot_decimals i of Some d \<Rightarrow> d | None \<Rightarrow> 8) | None \<Rightarrow> 8)"

text \<open>\<^verbatim>\<open>safeNumber(this._pairInfo?.ordermin, 0)\<close>.\<close>

definition minimumVolume :: "bot \<Rightarrow> real" where
  "minimumVolume b =
     (case pairInfo b of
        Some i \<Rightarrow> (case ordermin i of Some (Num m) \<Rightarrow> m | _ \<Rightarrow> 0)
      | None \<Rightarrow> 0)"

text \<open>
  \<^verbatim>\<open>s.replace(/\.?0+$/, '')\<close>: the longest suffix made of an optional point and one or
  more zeros is removed.
\<close>

definition strip_zeros :: "string \<Rightarrow> string" where
  "strip_zeros s =
     (let r = dropWhile (\<lambda>c. c = CHR ''0'') (rev s) in
      if length r = length s then s
      else rev (case r of c # r' \<Rightarrow> if c = CHR ''.'' then r' else r | [] \<Rightarrow> r))"

text \<open>
  \<^verbatim>\<open>formatWithPrecision(value, precision)\<close> for a finite value and a precision that is
  a non-negative integer: the product, the quotient and \<^verbatim>\<open>10 ** precision\<close> are doubles
  (the power is exact up to \<open>10^22\<close>). (A precision above 100 makes \<^verbatim>\<open>toFixed\<close> throw
  a RangeError; precisions that large are outside the model.)
\<close>

definition formatWithPrecision :: "real \<Rightarrow> nat \<Rightarrow> string" where
  "formatWithPrecision numeric precision =
     (let factor = fl (10 ^ precision);
          rounded = fdiv (Math_round_num (fmul (Num numeric) factor)) factor
      in strip_zeros (toFixed_num rounded precision))"

definition applyPricePrecision :: "bot \<Rightarrow> real \<Rightarrow> pval" where
  "applyPricePrecision b v =
     (if \<not> enforcePrecision b then PNum v else PStr (formatWithPrecision v (pricePrecision b)))"

definition applyVolumePrecision :: "bot \<Rightarrow> real \<Rightarrow> pval" where
  "applyVolumePrecision b v =
     (if \<not> enforcePrecision b then PNum v else PStr (formatWithPrecision v (volumePrecision b)))"

text \<open>\<^verbatim>\<open>_normaliseVolume\<close> and \<^verbatim>\<open>_normalisePrice\<close>; the argument is \<^verbatim>\<open>Number(volume)\<close>.\<close>

definition normaliseVolume :: "bot \<Rightarrow> jsnum \<Rightarrow> bot_error + pval" where
  "normaliseVolume b volume =
     (case volume of
        Num numeric \<Rightarrow>
          if numeric \<le> 0 then Inl PositiveVolumeRequired
          else if \<not> enforcePrecision b then Inr (PNum numeric)
          else if minimumVolume b > 0 \<and> numeric < minimumVolume b
               then Inl (VolumeBelowMinimum numeric (minimumVolume b))
          else Inr (applyVolumePrecision b numeric)
      | _ \<Rightarrow> Inl PositiveVolumeRequired)"

definition normalisePrice :: "bot \<Rightarrow> jsnum \<Rightarrow> bot_error + pval" where
  "normalisePrice b price =
     (case price of
        Num numeric \<Rightarrow> if numeric \<le> 0 then Inl PositivePriceRequired
                       else Inr (applyPricePrecision b numeric)
      | _ \<Rightarrow> Inl PositivePriceRequired)"

text \<open>\<^verbatim>\<open>s?.toUpperCase()\<close> on an optional string, and \<^verbatim>\<open>s.replace('/', '')\<close>.\<close>

definition upper_opt :: "string option \<Rightarrow> string option" where
  "upper_opt s = map_option toUpperCase s"

fun remove_first :: "char \<Rightarrow> string \<Rightarrow> string" where
  "remove_first c [] = []"
| "remove_first c (x # xs) = (if x = c then xs else x # remove_first c xs)"

definition or_empty :: "string option \<Rightarrow> string" where
  "or_empty s = (case s of Some x \<Rightarrow> x | None \<Rightarrow> [])"

definition combined_name :: "pair_info \<Rightarrow> string" where
  "combined_name info = toUpperCase (or_empty (pi_base info) @ or_empty (pi_quote info))"

definition matchesStoredPairInfo :: "bot \<Rightarrow> pair_info \<Rightarrow> bool" where
  "matchesStoredPairInfo b info =
     (upper_opt (altname info) = Some (restPair b) \<or> upper_opt (wsname info) = Some (wsPair b)
      \<or> combined_name info = restPair b)"

definition matchesTarget :: "bot \<Rightarrow> pair_info \<Rightarrow> bool" where
  "matchesTarget b info =
     (upper_opt (altname info) = Some (restPair b)
      \<or> upper_opt (wsname info) = Some (wsPair b)
      \<or> (case wsname info of
            Some w \<Rightarrow> if w = [] then False else toUpperCase (remove_first (CHR ''/'') w) = restPair b
          | None \<Rightarrow> False)
      \<or> combined_name info = restPair b)"

text \<open>
  \<^verbatim>\<open>ensurePairMetadata(false)\<close>: the cached metadata, or one request for the pair list
  (logged whether or not it succeeds). The result is the error thrown, if any, and the
  bot as it is left.
\<close>

definition ensurePairMetadata :: "'r exchange \<Rightarrow> bot \<Rightarrow> bot_error option \<times> bot" where
  "ensurePairMetadata x b =
     (if (case pairInfo b of Some i \<Rightarrow> matchesStoredPairInfo b i | None \<Rightarrow> False) then (None, b)
      else
        let b0 = b\<lparr>rest_log := rest_log b @ [GetTradablePairs]\<rparr> in
        case x_tradablePairs x of
          Inl message \<Rightarrow> (Some (ClientError message), b0)
        | Inr pairs \<Rightarrow>
            (case find (\<lambda>(k, info). matchesTarget b info) pairs of
               None \<Rightarrow> (Some PairNotFound, b0)
             | Some (k, info) \<Rightarrow> (None, b0\<lparr>pairInfo := Some info\<rparr>)))"

datatype 'r submit_result = DryRunResult payload | Response 'r

text \<open>
  The payload of \<^verbatim>\<open>_submitOrder\<close>: pair, type, ordertype and the spread parameters,
  then the normalised volume and price when they are given. \<open>price\<close> and \<open>volume\<close> are
  \<open>None\<close> when undefined, else the argument passed through \<^verbatim>\<open>Number(...)\<close>.
\<close>

definition initial_payload :: "bot \<Rightarrow> string \<Rightarrow> string \<Rightarrow> payload \<Rightarrow> payload" where
  "initial_payload b ty ordertype params =
     obj_spread
       [(''pair'', PStr (case pairInfo b of
                           Some i \<Rightarrow> (case altname i of Some a \<Rightarrow> if a = [] then restPair b else a
                                       | None \<Rightarrow> restPair b)
                         | None \<Rightarrow> restPair b)),
        (''type'', PStr ty), (''ordertype'', PStr ordertype)]
       params"

definition with_volume :: "bot \<Rightarrow> jsnum option \<Rightarrow> payload \<Rightarrow> bot_error + payload" where
  "with_volume b volume p =
     (case volume of
        None \<Rightarrow> Inr p
      | Some v \<Rightarrow> (case normaliseVolume b v of Inl e \<Rightarrow> Inl e | Inr nv \<Rightarrow> Inr (obj_set p ''volume'' nv)))"

definition with_price :: "bot \<Rightarrow> jsnum option \<Rightarrow> payload \<Rightarrow> bot_error + payload" where
  "with_price b price p =
     (case price of
        None \<Rightarrow> Inr p
      | Some v \<Rightarrow> (case normalisePrice b v of Inl e \<Rightarrow> Inl e | Inr np \<Rightarrow> Inr (obj_set p ''price'' np)))"

definition build_payload ::
  "bot \<Rightarrow> string \<Rightarrow> string \<Rightarrow> jsnum option \<Rightarrow> jsnum option \<Rightarrow> payload \<Rightarrow> bot_error + payload" where
  "build_payload b ty ordertype price volume params =
     (case with_volume b volume (initial_payload b ty ordertype params) of
        Inl e \<Rightarrow> Inl e
      | Inr p1 \<Rightarrow> with_price b price p1)"

text \<open>
  \<^verbatim>\<open>_submitOrder({type, ordertype, price, volume, params})\<close>: the value returned or
  the error thrown, with the bot as it is left.
\<close>

definition submitOrder ::
  "'r exchange \<Rightarrow> string \<Rightarrow> string \<Rightarrow> jsnum option \<Rightarrow> jsnum option \<Rightarrow> payload \<Rightarrow> bot
     \<Rightarrow> (bot_error + 'r submit_result) \<times> bot" where
  "submitOrder x ty ordertype price volume params b =
     (if ty = [] \<or> ordertype = [] then (Inl OrderTypeRequired, b)
      else
        case ensurePairMetadata x b of
          (Some e, b1) \<Rightarrow> (Inl e, b1)
        | (None, b1) \<Rightarrow>
            (case build_payload b1 ty ordertype price volume params of
               Inl e \<Rightarrow> (Inl e, b1)
             | Inr p \<Rightarrow>
                 if dryRun b1
                 then (Inr (DryRunResult p), b1\<lparr>events := events b1 @ [OrderSubmitted p True]\<rparr>)
                 else
                   (let b2 = b1\<lparr>rest_log := rest_log b1 @ [AddOrder p]\<rparr>
                    in case x_addOrder x p of
                         Inl message \<Rightarrow> (Inl (ClientError message), b2)
                       | Inr response \<Rightarrow>
                           (Inr (Response response),
                            b2\<lparr>events := events b2 @ [OrderSubmitted p False]\<rparr>))))"

definition marketBuy :: "'r exchange \<Rightarrow> jsnum option \<Rightarrow> payload \<Rightarrow> bot \<Rightarrow> (bot_error + 'r submit_result) \<times> bot" where
  "marketBuy x volume params = submitOrder x ''buy'' ''market'' None volume params"

definition marketSell :: "'r exchange \<Rightarrow> jsnum option \<Rightarrow> payload \<Rightarrow> bot \<Rightarrow> (bot_error + 'r submit_result) \<times> bot" where
  "marketSell x volume params = submitOrder x ''sell'' ''market'' None volume params"

definition limitBuy ::
  "'r exchange \<Rightarrow> jsnum option \<Rightarrow> jsnum option \<Rightarrow> payload \<Rightarrow> bot \<Rightarrow> (bot_error + 'r submit_result) \<times> bot" where
  "limitBuy x price volume params = submitOrder x ''buy'' ''limit'' price volume params"

definition limitSell ::
  "'r exchange \<Rightarrow> jsnum option \<Rightarrow> jsnum option \<Rightarrow> payload \<Rightarrow> bot \<Rightarrow> (bot_error + 'r submit_result) \<times> bot" where
  "limitSell x price volume params = submitOrder x ''sell'' ''limit'' price volume params"

text \<open>The AddOrder requests sent so far.\<close>

fun is_AddOrder :: "rest_call \<Rightarrow> bool" where
  "is_AddOrder (AddOrder _) = True"
| "is_AddOrder _ = False"

definition addOrder_calls :: "bot \<Rightarrow> rest_call list" where
  "addOrder_calls b = filter is_AddOrder (rest_log b)"

text \<open>A dry-run bot for DOGE/USD with its metadata loaded, and an exchange that would accept any order.\<close>

definition doge_info :: pair_info where
  "doge_info =
     \<lparr>altname = Some ''XDGUSD'', wsname = Some ''XDG/USD'', pi_base = Some ''XXDG'', pi_quote = Some ''ZUSD'',
      pair_decimals = Some 7, lot_decimals = Some 8, ordermin = Some (Num 50)\<rparr>"

definition doge_bot :: bot where
  "doge_bot =
     \<lparr>dryRun = True, enforcePrecision = True, restPair = ''XDGUSD'', wsPair = ''XDG/USD'',
      pairInfo = Some doge_info, rest_log = [], events = []\<rparr>"

definition open_exchange :: "nat exchange" where
  "open_exchange =
     \<lparr>x_tradablePairs = Inr [(''XDGUSD'', doge_info)], x_addOrder = (\<lambda>p. Inr 1),
      x_ticker = Inr (Some (1 / 8)), x_balances = Inr \<lparr>quote = 1000, base = 0\<rparr>\<rparr>"

section \<open>Execution engine: opening a position (ExecutionEngine.js)\<close>

text \<open>
  \<^verbatim>\<open>bot.fetchTicker()\<close>: the pair metadata, one ticker request, and the \<open>lastTrade\<close> read
  from the answer.
\<close>

definition fetchTicker :: "'r exchange \<Rightarrow> bot \<Rightarrow> (bot_error + real) \<times> bot" where
  "fetchTicker x b =
     (case ensurePairMetadata x b of
        (Some e, b1) \<Rightarrow> (Inl e, b1)
      | (None, b1) \<Rightarrow>
          (let b2 = b1\<lparr>rest_log := rest_log b1 @ [GetTicker]\<rparr>
           in case x_ticker x of
                Inl message \<Rightarrow> (Inl (ClientError message), b2)
              | Inr None \<Rightarrow> (Inl (ClientError ''Ticker data not available''), b2)
              | Inr (Some lastTrade) \<Rightarrow> (Inr lastTrade, b2)))"

text \<open>
  \<^verbatim>\<open>#ensureTicker(features)\<close>: \<open>close5m\<close> is \<^verbatim>\<open>features?.timeframes?.['5m']?.close\<close>
  (\<open>None\<close> when any link is missing). The result is the ticker's \<open>lastTrade\<close>, \<open>None\<close> for
  a null ticker.
\<close>

definition ensureTicker :: "'r exchange \<Rightarrow> jsnum option \<Rightarrow> bot \<Rightarrow> jsnum option \<times> bot" where
  "ensureTicker x close5m b =
     (case close5m of
        Some c \<Rightarrow> if truthy_num c then (Some c, b) else
                    (case fetchTicker x b of (Inl e, b1) \<Rightarrow> (None, b1) | (Inr t, b1) \<Rightarrow> (Some (Num t), b1))
      | None \<Rightarrow> (case fetchTicker x b of (Inl e, b1) \<Rightarrow> (None, b1) | (Inr t, b1) \<Rightarrow> (Some (Num t), b1)))"

text \<open>
  \<^verbatim>\<open>#loadBalances(force)\<close> at clock reading \<open>now\<close>: the cached snapshot while it is
  younger than 30 s, else one balance request; a failed request falls back to the last
  snapshot or to zero balances.
\<close>

definition loadBalances ::
  "'r exchange \<Rightarrow> bool \<Rightarrow> real \<Rightarrow> engine \<Rightarrow> bot \<Rightarrow> balances \<times> engine \<times> bot" where
  "loadBalances x force now e b =
     (case (if \<not> force \<and> js_lt (fsub (Num now) (Num (lastBalanceTs e))) (Num 30000)
            then lastBalances e else None) of
        Some cached \<Rightarrow> (cached, e, b)
      | None \<Rightarrow>
          (let b1 = b\<lparr>rest_log := rest_log b @ [GetBalances]\<rparr>
           in case x_balances x of
                Inl message \<Rightarrow>
                  ((case lastBalances e of Some l \<Rightarrow> l | None \<Rightarrow> \<lparr>quote = 0, base = 0\<rparr>), e, b1)
              | Inr parsed \<Rightarrow>
                  (parsed,
                   e\<lparr>dailyStartingBalance :=
                        (if dailyStartingBalance e = None \<or> dailyStartingBalance e = Some 0
                         then Some (quote parsed) else dailyStartingBalance e),
                      lastBalances := Some parsed, lastBalanceTs := now\<rparr>,
                   b1)))"

text \<open>
  \<^verbatim>\<open>#computeNotional(sizePct)\<close> on the quote balance it loaded; \<open>None\<close> is null. The
  two quotients and the two products are doubles.
\<close>

definition computeNotional :: "riskConfig \<Rightarrow> real \<Rightarrow> real \<Rightarrow> jsnum option" where
  "computeNotional cfg quoteBalance sizePct =
     (if quoteBalance \<le> 0 then None
      else let tradeCap = fmul (Num quoteBalance) (fdiv (Num (maxTradeRiskPct cfg)) (Num 100));
               desired = fmul (Num quoteBalance) (fdiv (Num sizePct) (Num 100))
           in Some (Math_min tradeCap desired))"

text \<open>
  The entry of a decision: its type and \<^verbatim>\<open>Number(entry.offset_bps)\<close>.
  \<^verbatim>\<open>#deriveEntryPrice(lastPrice, entry)\<close> answers null, a number, or, through
  \<^verbatim>\<open>applyPricePrecision\<close> with precision enforced, a string; \<^verbatim>\<open>formatWithPrecision\<close>
  throws when the adjusted price has overflowed.
\<close>

record entry =
  e_type :: string
  e_offset_bps :: jsnum

datatype entry_price = EntryNull | EntryNum jsnum | EntryStr string | EntryThrows

definition deriveEntryPrice :: "bot \<Rightarrow> jsnum \<Rightarrow> entry option \<Rightarrow> entry_price" where
  "deriveEntryPrice b lastPrice ent =
     (case lastPrice of
        Num lp \<Rightarrow>
          if lp \<le> 0 then EntryNull
          else (case ent of
                  None \<Rightarrow> EntryNum (Num lp)
                | Some en \<Rightarrow>
                    if e_type en \<noteq> ''limit'' then EntryNum (Num lp)
                    else (case e_offset_bps en of
                            Num offset \<Rightarrow>
                              (let adjusted =
                                     fmul (Num lp) (fadd (Num 1) (fdiv (Num offset) (Num 10000)))
                               in if js_le adjusted (Num 0) then EntryNum (Num lp)
                                  else if \<not> enforcePrecision b then EntryNum adjusted
                                  else (case adjusted of
                                          Num a \<Rightarrow> EntryStr (formatWithPrecision a (pricePrecision b))
                                        | _ \<Rightarrow> EntryThrows))
                          | _ \<Rightarrow> EntryNum (Num lp)))
      | _ \<Rightarrow> EntryNull)"

datatype 'r exec_result =
    ExecError string | ExecIgnored string | ExecDryRun payload | ExecSubmitted 'r
  | ExecThrown bot_error | ExecInvalidNumeric

text \<open>The order \<^verbatim>\<open>#openLong\<close> places: a limit buy for a limit entry, else a market buy.\<close>

definition place_buy ::
  "'r exchange \<Rightarrow> entry option \<Rightarrow> real \<Rightarrow> real \<Rightarrow> bot \<Rightarrow> (bot_error + 'r submit_result) \<times> bot" where
  "place_buy x ent entryPrice quantity b =
     (if (case ent of Some en \<Rightarrow> e_type en = ''limit'' | None \<Rightarrow> False)
      then limitBuy x (Some (Num entryPrice)) (Some (Num quantity)) [(''timeinforce'', PStr ''GTC'')] b
      else marketBuy x (Some (Num quantity)) [] b)"

text \<open>What \<^verbatim>\<open>#openLong\<close> does with the gateway's answer.\<close>

definition settle_buy ::
  "bot_error + 'r submit_result \<Rightarrow> real \<Rightarrow> real \<Rightarrow> bool \<Rightarrow> real \<Rightarrow> engine \<Rightarrow> 'r exec_result \<times> engine" where
  "settle_buy response quantity entryPrice is_additive now e =
     (case response of
        Inl err \<Rightarrow> (ExecThrown err, e)
      | Inr (DryRunResult p) \<Rightarrow>
          (ExecDryRun p, applyFill ''buy'' (Num quantity) (Num entryPrice) True now e)
      | Inr (Response r) \<Rightarrow>
          (ExecSubmitted r,
           if \<not> is_additive then applyFill ''buy'' (Num quantity) (Num entryPrice) True now e else e))"

text \<open>
  \<^verbatim>\<open>#openLong(decision, context, options)\<close>, called for OPEN_LONG (\<open>is_additive\<close> off, the source's options.additive) and
  ADD (\<open>is_additive\<close> on). \<open>sizePctN\<close> is \<^verbatim>\<open>Number(decision.size_pct)\<close>; \<open>now\<close> and \<open>now'\<close>
  are the clock readings when the balances are loaded and when the fill is applied. The
  quantity is the quotient of the notional and the entry price as a double.
\<close>

definition sizePct_of :: "riskConfig \<Rightarrow> jsnum \<Rightarrow> real" where
  "sizePct_of cfg sizePctN = (case sizePctN of Num s \<Rightarrow> s | _ \<Rightarrow> defaultSizePct cfg)"

definition openLong ::
  "'r exchange \<Rightarrow> jsnum \<Rightarrow> entry option \<Rightarrow> jsnum option \<Rightarrow> bool \<Rightarrow> real \<Rightarrow> real \<Rightarrow> engine \<times> bot
     \<Rightarrow> 'r exec_result \<times> engine \<times> bot" where
  "openLong x sizePctN ent close5m is_additive now now' = (\<lambda>(e, b).
     case ensureTicker x close5m b of
       (None, b1) \<Rightarrow> (ExecError ''Ticker unavailable'', e, b1)
     | (Some lastTrade, b1) \<Rightarrow>
         (let sizePct = sizePct_of (riskCfg e) sizePctN in
          if sizePct \<le> 0 then (ExecIgnored ''size_pct <= 0'', e, b1)
          else
            case deriveEntryPrice b1 lastTrade ent of
              EntryThrows \<Rightarrow> (ExecInvalidNumeric, e, b1)
            | EntryNum (Num entryPrice) \<Rightarrow>
                if entryPrice \<le> 0 then (ExecError ''Invalid entry price'', e, b1)
                else
                  (case loadBalances x False now e b1 of (bal, e1, b2) \<Rightarrow>
                     (case computeNotional (riskCfg e1) (quote bal) sizePct of
                        Some (Num notional) \<Rightarrow>
                          if notional < minNotional (riskCfg e1)
                          then (ExecError ''Notional below minimum'', e1, b2)
                          else
                            (case fdiv (Num notional) (Num entryPrice) of
                               Num quantity \<Rightarrow>
                                 if quantity \<le> 0 then (ExecError ''Invalid quantity'', e1, b2)
                                 else
                                   (case place_buy x ent entryPrice quantity b2 of (response, b3) \<Rightarrow>
                                      (case settle_buy response quantity entryPrice is_additive now' e1 of
                                         (res, e2) \<Rightarrow> (res, e2, b3)))
                             | _ \<Rightarrow> (ExecError ''Invalid quantity'', e1, b2))
                      | _ \<Rightarrow> (ExecError ''Notional below minimum'', e1, b2)))
            | _ \<Rightarrow> (ExecError ''Invalid entry price'', e, b1)))"

text \<open>\<^verbatim>\<open>obj.key\<close> on a payload.\<close>

definition obj_get :: "payload \<Rightarrow> string \<Rightarrow> pval option" where
  "obj_get p k = map_of p k"

text \<open>
  The number a decimal numeral denotes: the digits before the point, and the digits
  after it as a fraction.
\<close>

definition digit_val :: "char \<Rightarrow> nat" where
  "digit_val c = (case find (\<lambda>d. digit_char d = c) [0..<10] of Some d \<Rightarrow> d | None \<Rightarrow> 0)"

definition digits_val :: "string \<Rightarrow> nat" where
  "digits_val s = foldl (\<lambda>a c. 10 * a + digit_val c) 0 s"

definition decimal_value :: "string \<Rightarrow> real" where
  "decimal_value s =
     (let whole = takeWhile (\<lambda>c. c \<noteq> CHR ''.'') s;
          frac = drop (length whole + 1) s
      in real (digits_val whole) + real (digits_val frac) / 10 ^ length frac)"

definition fraction_digits :: "string \<Rightarrow> nat" where
  "fraction_digits s = length (drop (length (takeWhile (\<lambda>c. c \<noteq> CHR ''.'') s) + 1) s)"

text \<open>Strings of decimal digits.\<close>

definition is_digit :: "char \<Rightarrow> bool" where
  "is_digit c = (c \<in> set ''0123456789'')"

definition is_digits :: "string \<Rightarrow> bool" where
  "is_digits s = (\<forall>c \<in> set s. is_digit c)"

text \<open>
  A live bot whose pair takes volumes to one decimal with a minimum of 1, an engine whose
  trade cap is half the balance, and two exchanges: with a balance of 62 the cap gives a
  notional of 31, at a price of 32 a volume of 0.96875; with a balance of 94 the notional
  is 47 and the volume 1.46875. All these numbers are doubles.
\<close>

definition coarse_info :: pair_info where
  "coarse_info =
     \<lparr>altname = Some ''XDGUSD'', wsname = Some ''XDG/USD'', pi_base = Some ''XXDG'', pi_quote = Some ''ZUSD'',
      pair_decimals = Some 2, lot_decimals = Some 1, ordermin = Some (Num 1)\<rparr>"

definition coarse_bot :: bot where
  "coarse_bot =
     \<lparr>dryRun = False, enforcePrecision = True, restPair = ''XDGUSD'', wsPair = ''XDG/USD'',
      pairInfo = Some coarse_info, rest_log = [], events = []\<rparr>"

definition half_risk :: riskConfig where
  "half_risk = default_riskConfig\<lparr>maxTradeRiskPct := 50\<rparr>"

definition exchange_with :: "real \<Rightarrow> nat exchange" where
  "exchange_with balance =
     \<lparr>x_tradablePairs = Inr [(''XDGUSD'', coarse_info)], x_addOrder = (\<lambda>p. Inr 1),
      x_ticker = Inr (Some 32), x_balances = Inr \<lparr>quote = balance, base = 0\<rparr>\<rparr>"

text \<open>The collecting phase never touches the pending set, the last emission or the debounce interval.\<close>

definition same_gate :: "event_engine \<Rightarrow> event_engine \<Rightarrow> bool" where
  "same_gate a b = (pendingReasonSet a = pendingReasonSet b \<and> lastEmitTs a = lastEmitTs b
                    \<and> debounceMs a = debounceMs b)"


section \<open>Verification: double arithmetic\<close>

lemma pow2_pos [simp]: "0 < pow2 k"
  by (simp add: pow2_def)

lemma pow2_nonneg [simp]: "0 \<le> pow2 k"
  by (simp add: pow2_def)

lemma pow2_neq0 [simp]: "pow2 k \<noteq> 0"
  by (simp add: pow2_def)

lemma pow2_0 [simp]: "pow2 0 = 1"
  by (simp add: pow2_def)

lemma pow2_1 [simp]: "pow2 1 = 2"
  by (simp add: pow2_def)

lemma pow2_not_le0 [simp]: "\<not> pow2 k \<le> 0"
  by (simp add: not_le)

lemma pow2_add: "pow2 (a + b) = pow2 a * pow2 b"
  by (simp add: pow2_def power_int_add)

lemma pow2_diff: "pow2 (a - b) = pow2 a / pow2 b"
  by (simp add: pow2_def power_int_diff)

lemma pow2_nat: "pow2 (int n) = 2 ^ n"
  by (simp add: pow2_def)

lemma pow2_neg_nat: "pow2 (- int n) = 1 / 2 ^ n"
  by (simp add: pow2_def power_int_minus field_simps)

lemma pow2_nonneg_int: "0 \<le> k \<Longrightarrow> pow2 k = of_int (2 ^ nat k)"
  by (simp add: pow2_def power_int_def)

lemma pow2_numeral: "pow2 (numeral n) = 2 ^ numeral n" "pow2 (- numeral n) = 1 / 2 ^ numeral n"
  by (simp_all add: pow2_def field_simps)

lemma pow2_less_iff [simp]: "pow2 m < pow2 n \<longleftrightarrow> m < n"
proof
  assume l: "pow2 m < pow2 n"
  show "m < n"
  proof (rule ccontr)
    assume "\<not> m < n"
    then have "n \<le> m" by simp
    from power_int_increasing [OF this, of "2::real"] l show False by (simp add: pow2_def)
  qed
next
  assume "m < n"
  then have "(2::real) powi m < 2 powi n" by (rule power_int_strict_increasing) simp
  then show "pow2 m < pow2 n" by (simp add: pow2_def)
qed

lemma pow2_le_iff [simp]: "pow2 m \<le> pow2 n \<longleftrightarrow> m \<le> n"
  using pow2_less_iff [of n m] by (simp only: not_less [symmetric])

lemma flog2p_bounds: "1 \<le> x \<Longrightarrow> 2 ^ flog2p x \<le> x \<and> x < 2 ^ (flog2p x + 1)"
proof (induction x rule: flog2p.induct)
  case (1 x)
  show ?case
  proof (cases "x < 2")
    case True
    then show ?thesis using 1(2) by (simp add: flog2p.simps)
  next
    case False
    then have "1 \<le> x / 2" by simp
    from 1(1) [OF False this] show ?thesis using False by (simp add: flog2p.simps [of x])
  qed
qed

lemma flog2n_bounds: "0 < x \<Longrightarrow> x < 1 \<Longrightarrow> 1 \<le> x * 2 ^ flog2n x \<and> x * 2 ^ flog2n x < 2"
proof (induction x rule: flog2n.induct)
  case (1 x)
  show ?case
  proof (cases "2 * x < 1")
    case True
    have c: "\<not> (x \<le> 0 \<or> 1 \<le> x)" using 1(2,3) by simp
    from 1(1) [OF c _ True] 1(2) show ?thesis using c by (simp add: flog2n.simps [of x] mult.assoc)
  next
    case False
    then have "flog2n (2 * x) = 0" by (simp add: flog2n.simps)
    then have "flog2n x = 1" using 1(2,3) by (simp add: flog2n.simps [of x])
    then show ?thesis using False 1(3) by simp
  qed
qed

lemma flog2_bounds:
  assumes "x \<noteq> 0"
  shows "pow2 (flog2 x) \<le> \<bar>x\<bar>" and "\<bar>x\<bar> < pow2 (flog2 x + 1)"
proof -
  have "pow2 (flog2 x) \<le> \<bar>x\<bar> \<and> \<bar>x\<bar> < pow2 (flog2 x + 1)"
  proof (cases "1 \<le> \<bar>x\<bar>")
    case True
    from flog2p_bounds [OF True] show ?thesis
      using True by (simp add: flog2_def pow2_add pow2_nat)
  next
    case False
    then have x: "0 < \<bar>x\<bar>" "\<bar>x\<bar> < 1" using assms by simp_all
    note b = flog2n_bounds [OF x]
    have p: "pow2 (- int (flog2n \<bar>x\<bar>) + 1) = 2 / 2 ^ flog2n \<bar>x\<bar>"
      by (simp only: pow2_add pow2_neg_nat) simp
    have "\<bar>x\<bar> < 2 / 2 ^ flog2n \<bar>x\<bar>" using b by (simp add: field_simps)
    moreover have "1 / 2 ^ flog2n \<bar>x\<bar> \<le> \<bar>x\<bar>" using b by (simp add: field_simps)
    ultimately show ?thesis using False
      unfolding flog2_def by (simp only: p pow2_neg_nat if_False)
  qed
  then show "pow2 (flog2 x) \<le> \<bar>x\<bar>" and "\<bar>x\<bar> < pow2 (flog2 x + 1)" by simp_all
qed

lemma flog2_eqI:
  assumes "pow2 k \<le> \<bar>x\<bar>" and "\<bar>x\<bar> < pow2 (k + 1)"
  shows "flog2 x = k"
proof -
  have "0 < pow2 k" by simp
  then have "0 < \<bar>x\<bar>" using assms(1) by linarith
  then have nz: "x \<noteq> 0" by simp
  note b = flog2_bounds [OF nz]
  have "pow2 k < pow2 (flog2 x + 1)" using assms(1) b(2) by linarith
  then have 1: "k < flog2 x + 1" by simp
  have "pow2 (flog2 x) < pow2 (k + 1)" using assms(2) b(1) by linarith
  then have 2: "flog2 x < k + 1" by simp
  from 1 2 show ?thesis by simp
qed

lemma rne_of_int [simp]: "rne (of_int n) = n"
  by (simp add: rne_def)

lemma rne_0 [simp]: "rne 0 = 0"
  by (simp add: rne_def)

lemma rne_error: "\<bar>of_int (rne y) - y\<bar> \<le> 1 / 2"
  unfolding rne_def Let_def by (simp; linarith)

lemma rne_nonneg: "0 \<le> y \<Longrightarrow> 0 \<le> rne y"
  unfolding rne_def Let_def by (simp; linarith)

lemma rne_ge_one: "1 \<le> y \<Longrightarrow> 1 \<le> rne y"
  unfolding rne_def Let_def by (simp; linarith)

lemma rne_nonpos: "y \<le> 0 \<Longrightarrow> rne y \<le> 0"
  unfolding rne_def Let_def by (simp; linarith)

lemma rne_small: "\<bar>y\<bar> \<le> 1 / 2 \<Longrightarrow> rne y = 0"
proof -
  assume a: "\<bar>y\<bar> \<le> 1 / 2"
  consider "y < 0" | "0 \<le> y" "y < 1 / 2" | "y = 1 / 2" using a by linarith
  then show ?thesis
  proof cases
    case 1
    then have "\<lfloor>y\<rfloor> = - 1" using a by linarith
    then show ?thesis using a 1 by (auto simp: rne_def Let_def)
  next
    case 2
    then have "\<lfloor>y\<rfloor> = 0" by linarith
    then show ?thesis using 2 by (simp add: rne_def)
  next
    case 3
    show ?thesis unfolding 3 by (simp add: rne_def)
  qed
qed

lemma fl_unfold:
  "fl x = (if x = 0 then Num 0
           else if pow2 1024 \<le> \<bar>fl_value x\<bar> then (if 0 < x then PosInf else NegInf)
           else Num (fl_value x))"
  by (simp add: fl_def ulp_exp_def fl_value_def Let_def)

lemma fl_zero [simp]: "fl 0 = Num 0"
  by (simp add: fl_def)

lemma fl_value_error: "\<bar>fl_value x - x\<bar> \<le> pow2 (ulp_exp x) / 2"
proof -
  let ?e = "ulp_exp x"
  have "fl_value x - x = (of_int (rne (x / pow2 ?e)) - x / pow2 ?e) * pow2 ?e"
    by (simp add: fl_value_def left_diff_distrib)
  then have "\<bar>fl_value x - x\<bar> = \<bar>of_int (rne (x / pow2 ?e)) - x / pow2 ?e\<bar> * pow2 ?e"
    by (simp only: abs_mult) simp
  also have "\<dots> \<le> (1 / 2) * pow2 ?e"
    using rne_error [of "x / pow2 ?e"] by (intro mult_right_mono) simp_all
  finally show ?thesis by simp
qed

lemma fl_value_exact:
  assumes m: "\<bar>m\<bar> < 2 ^ 53" and e: "- 1074 \<le> e"
  shows "fl_value (of_int m * pow2 e) = of_int m * pow2 e"
proof (cases "m = 0")
  case True
  then show ?thesis by (simp add: fl_value_def)
next
  case False
  let ?x = "real_of_int m * pow2 e"
  have nz: "?x \<noteq> 0" using False by simp
  have "\<bar>?x\<bar> = \<bar>real_of_int m\<bar> * pow2 e" by (simp add: abs_mult)
  also have "\<dots> < 2 ^ 53 * pow2 e"
    using m by (intro mult_strict_right_mono) (simp_all add: of_int_abs [symmetric] del: of_int_abs)
  also have "\<dots> = pow2 (53 + e)" by (simp only: pow2_add) (simp add: pow2_def)
  finally have "pow2 (flog2 ?x) < pow2 (53 + e)"
    using flog2_bounds(1) [OF nz] by linarith
  then have "flog2 ?x - 52 \<le> e" by simp
  then have le: "ulp_exp ?x \<le> e" using e by (simp add: ulp_exp_def)
  have "?x / pow2 (ulp_exp ?x) = of_int m * pow2 (e - ulp_exp ?x)"
    by (simp add: pow2_diff)
  also have "\<dots> = of_int (m * 2 ^ nat (e - ulp_exp ?x))"
    using le by (simp add: pow2_nonneg_int)
  finally have "fl_value ?x = of_int (m * 2 ^ nat (e - ulp_exp ?x)) * pow2 (ulp_exp ?x)"
    by (simp only: fl_value_def rne_of_int)
  also have "\<dots> = of_int m * (pow2 (e - ulp_exp ?x) * pow2 (ulp_exp ?x))"
    using le by (simp add: pow2_nonneg_int)
  also have "\<dots> = ?x" by (simp add: pow2_diff)
  finally show ?thesis .
qed

lemma fl_exact:
  assumes m: "\<bar>m\<bar> < 2 ^ 53" and e: "- 1074 \<le> e" and b: "\<bar>of_int m * pow2 e\<bar> < pow2 1024"
  shows "fl (of_int m * pow2 e) = Num (of_int m * pow2 e)"
  using b by (simp add: fl_unfold fl_value_exact [OF m e])

lemma fl_of_int: "\<bar>m\<bar> < 2 ^ 53 \<Longrightarrow> fl (of_int m) = Num (of_int m)"
proof -
  assume m: "\<bar>m\<bar> < 2 ^ 53"
  then have "\<bar>real_of_int m\<bar> < 2 ^ 53" by (simp add: of_int_abs [symmetric] del: of_int_abs)
  also have "(2::real) ^ 53 = pow2 53" by (simp add: pow2_def)
  also have "pow2 53 < pow2 1024" by simp
  finally have "\<bar>real_of_int m * pow2 0\<bar> < pow2 1024" by simp
  from fl_exact [OF m _ this] show ?thesis by simp
qed

lemma fl_pow2: "- 1074 \<le> k \<Longrightarrow> k < 1024 \<Longrightarrow> fl (pow2 k) = Num (pow2 k)"
  using fl_exact [of 1 k] by simp

lemma fl_pow2_overflow: "fl (pow2 1024) = PosInf"
  using fl_value_exact [of 1 1024] by (simp add: fl_unfold)

lemma fl_underflow: "\<bar>x\<bar> \<le> pow2 (- 1075) \<Longrightarrow> fl x = Num 0"
proof (cases "x = 0")
  case True
  then show ?thesis by simp
next
  case False
  assume a: "\<bar>x\<bar> \<le> pow2 (- 1075)"
  have "pow2 (flog2 x) \<le> pow2 (- 1075)" using flog2_bounds(1) [OF False] a by linarith
  then have "flog2 x \<le> - 1075" by simp
  then have u: "ulp_exp x = - 1074" by (simp add: ulp_exp_def)
  have "\<bar>x / pow2 (- 1074)\<bar> = \<bar>x\<bar> / pow2 (- 1074)" by (simp add: abs_divide)
  also have "\<dots> \<le> pow2 (- 1075) / pow2 (- 1074)" using a by (intro divide_right_mono) simp_all
  also have "\<dots> = pow2 (- 1)" by (simp add: pow2_diff [symmetric])
  also have "\<dots> = 1 / 2" by (simp add: pow2_def)
  finally have "rne (x / pow2 (- 1074)) = 0" by (rule rne_small)
  then show ?thesis using False by (simp add: fl_unfold fl_value_def u)
qed

lemma fl_nonneg: "0 \<le> x \<Longrightarrow> fl x = PosInf \<or> (\<exists>r. fl x = Num r \<and> 0 \<le> r)"
proof -
  assume x: "0 \<le> x"
  then have "0 \<le> rne (x / pow2 (ulp_exp x))" by (intro rne_nonneg) simp
  then have "0 \<le> fl_value x" by (simp add: fl_value_def)
  then show ?thesis using x by (simp add: fl_unfold)
qed

lemma fl_eval:
  assumes "pow2 k \<le> \<bar>x\<bar>" and "\<bar>x\<bar> < pow2 (k + 1)"
  shows "fl x = (let e = max (k - 52) (- 1074);
                     r = of_int (rne (x / pow2 e)) * pow2 e
                 in if pow2 1024 \<le> \<bar>r\<bar> then (if 0 < x then PosInf else NegInf) else Num r)"
proof -
  have "0 < pow2 k" by simp
  then have "x \<noteq> 0" using assms(1) by auto
  then show ?thesis by (simp add: fl_def flog2_eqI [OF assms])
qed

lemma fl_numeral [simp]:
  "numeral n < (2::int) ^ 53 \<Longrightarrow> fl (numeral n) = Num (numeral n)"
  using fl_of_int [of "numeral n"] by simp

lemma fl_neg_numeral [simp]:
  "numeral n < (2::int) ^ 53 \<Longrightarrow> fl (- numeral n) = Num (- numeral n)"
  using fl_of_int [of "- numeral n"] by simp

lemma fl_one [simp]: "fl 1 = Num 1"
  using fl_of_int [of 1] by simp

lemma fl_neg_one [simp]: "fl (- 1) = Num (- 1)"
  using fl_of_int [of "- 1"] by simp

lemma fl_dyadic:
  "\<bar>m\<bar> < 2 ^ 53 \<Longrightarrow> k \<le> 1074 \<Longrightarrow> fl (of_int m / 2 ^ k) = Num (of_int m / 2 ^ k)"
proof -
  assume m: "\<bar>m\<bar> < 2 ^ 53" and k: "k \<le> 1074"
  have "\<bar>real_of_int m * pow2 (- int k)\<bar> = \<bar>real_of_int m\<bar> * pow2 (- int k)"
    by (simp add: abs_mult)
  also have "\<dots> \<le> \<bar>real_of_int m\<bar> * 1"
    using pow2_le_iff [of "- int k" 0] by (intro mult_left_mono) simp_all
  also have "\<dots> < pow2 53"
    using m by (simp add: pow2_numeral of_int_abs [symmetric] del: of_int_abs)
  also have "pow2 53 < pow2 1024" by simp
  finally have "\<bar>real_of_int m * pow2 (- int k)\<bar> < pow2 1024" .
  from fl_exact [OF m _ this] k show ?thesis by (simp add: pow2_neg_nat)
qed

lemma ulp_exp_normal: "pow2 (- 1022) \<le> \<bar>x\<bar> \<Longrightarrow> ulp_exp x = flog2 x - 52"
proof -
  assume a: "pow2 (- 1022) \<le> \<bar>x\<bar>"
  have "0 < pow2 (- 1022)" by simp
  then have "x \<noteq> 0" using a by auto
  from flog2_bounds(2) [OF this] a have "pow2 (- 1022) < pow2 (flog2 x + 1)" by linarith
  then have "- 1022 < flog2 x + 1" by simp
  then show ?thesis by (simp add: ulp_exp_def)
qed

lemma pow2_half: "pow2 (k - 53) = pow2 (k - 52) / 2"
  using pow2_diff [of "k - 52" 1] by simp

lemma pow2_53: "pow2 (k - 53) = pow2 k / 2 ^ 53"
  using pow2_diff [of k 53] by (simp add: pow2_numeral)

lemma fl_value_rel_error:
  assumes "pow2 (- 1022) \<le> \<bar>x\<bar>"
  shows "\<bar>fl_value x - x\<bar> \<le> \<bar>x\<bar> / 2 ^ 53"
proof -
  have "0 < pow2 (- 1022)" by simp
  then have nz: "x \<noteq> 0" using assms by auto
  have "\<bar>fl_value x - x\<bar> \<le> pow2 (flog2 x - 52) / 2"
    using fl_value_error [of x] by (simp add: ulp_exp_normal [OF assms])
  also have "\<dots> = pow2 (flog2 x) / 2 ^ 53" by (simp add: pow2_half [symmetric] pow2_53)
  also have "\<dots> \<le> \<bar>x\<bar> / 2 ^ 53" using flog2_bounds(1) [OF nz] by (simp add: divide_right_mono)
  finally show ?thesis .
qed

lemma fl_value_0 [simp]: "fl_value 0 = 0"
  by (simp add: fl_value_def)

lemma fl_value_abs_error: "\<bar>fl_value x - x\<bar> \<le> \<bar>x\<bar> / 2 ^ 53 + pow2 (- 1075)"
proof (cases "pow2 (- 1022) \<le> \<bar>x\<bar>")
  case True
  from fl_value_rel_error [OF this] show ?thesis
    using pow2_nonneg [of "- 1075"] by linarith
next
  case False
  show ?thesis
  proof (cases "x = 0")
    case True
    then show ?thesis by simp
  next
    case nz: False
    from flog2_bounds(1) [OF nz] False have "pow2 (flog2 x) < pow2 (- 1022)" by linarith
    then have "flog2 x < - 1022" by simp
    then have "ulp_exp x = - 1074" by (simp add: ulp_exp_def)
    then have "\<bar>fl_value x - x\<bar> \<le> pow2 (- 1074) / 2" using fl_value_error [of x] by simp
    also have "\<dots> = pow2 (- 1075)" using pow2_diff [of "- 1074" 1] by simp
    also have "\<dots> \<le> \<bar>x\<bar> / 2 ^ 53 + pow2 (- 1075)" by simp
    finally show ?thesis .
  qed
qed

lemma fl_value_nonneg: "0 \<le> x \<Longrightarrow> 0 \<le> fl_value x"
  by (simp add: fl_value_def rne_nonneg)

lemma fl_finite:
  assumes "\<bar>x\<bar> \<le> pow2 1023"
  shows "fl x = Num (fl_value x)"
proof -
  have "\<bar>fl_value x\<bar> \<le> \<bar>x\<bar> + \<bar>fl_value x - x\<bar>" by linarith
  also have "\<dots> \<le> \<bar>x\<bar> + (\<bar>x\<bar> / 2 ^ 53 + pow2 (- 1075))"
    using fl_value_abs_error [of x] by linarith
  also have "\<dots> \<le> pow2 1023 + (pow2 1023 / 2 ^ 53 + pow2 (- 1075))"
    using assms by (intro add_mono divide_right_mono) simp_all
  also have "\<dots> < pow2 1023 + (pow2 1022 + pow2 1022)"
  proof -
    have "pow2 1023 / 2 ^ 53 = pow2 970" using pow2_53 [of 1023] by simp
    moreover have "pow2 970 < pow2 1022" "pow2 (- 1075) < pow2 1022" by simp_all
    ultimately show ?thesis by linarith
  qed
  also have "\<dots> = pow2 1024" using pow2_add [of 1 1022] pow2_add [of 1 1023] by simp
  finally have "\<not> pow2 1024 \<le> \<bar>fl_value x\<bar>" by simp
  then show ?thesis by (simp add: fl_unfold)
qed

section \<open>Verification: the position ledger\<close>

lemmas engine_defs =
  apply1_def applyFill_def fill_buy_def fill_sell_def Let_def ExecutionEngine_new_def
  default_riskConfig_def initial_position_def recalculateDailyPnL_def maybeApplyPause_def
  slice_last_def realized_of_def fsub_def

lemma tiny_value: "fl (pow2 (- 540) * pow2 (- 540)) = Num 0"
proof -
  have "pow2 (- 540) * pow2 (- 540) = pow2 (- 1080)" by (simp add: pow2_add [symmetric])
  moreover have "\<bar>pow2 (- 1080)\<bar> \<le> pow2 (- 1075)" by simp
  ultimately show ?thesis by (simp only: fl_underflow)
qed

lemma tiny_buy_eval:
  "pos (apply1 tiny_buy (ExecutionEngine_new cfg)) =
     \<lparr>side = LONG, size_pos = Num (pow2 (- 540)), averagePrice = Num 0, openedAt = Some 1000,
      unrealizedR = 0, barsOpen5m = 0\<rparr>"
  by (simp add: tiny_buy_def engine_defs tiny_value fl_pow2)

lemma huge_values:
  "fl (pow2 1023 * pow2 (- 1000)) = Num (pow2 23)"
  "fl (pow2 23 / pow2 1023) = Num (pow2 (- 1000))"
  "fl (pow2 (- 1000) * pow2 1023) = Num (pow2 23)"
  "fl (2 * pow2 1023) = PosInf"
  "fl (2 * pow2 23) = Num (pow2 24)"
proof -
  have a: "pow2 1023 * pow2 (- 1000) = pow2 23" "pow2 (- 1000) * pow2 1023 = pow2 23"
    "pow2 23 / pow2 1023 = pow2 (- 1000)"
    by (simp_all add: pow2_add [symmetric] pow2_diff [symmetric])
  have b: "2 * pow2 1023 = pow2 1024" "2 * pow2 23 = pow2 24"
    using pow2_add [of 1 1023] pow2_add [of 1 23] by simp_all
  show "fl (pow2 1023 * pow2 (- 1000)) = Num (pow2 23)"
    "fl (pow2 23 / pow2 1023) = Num (pow2 (- 1000))"
    "fl (pow2 (- 1000) * pow2 1023) = Num (pow2 23)"
    "fl (2 * pow2 1023) = PosInf"
    "fl (2 * pow2 23) = Num (pow2 24)"
    by (simp_all only: a b fl_pow2_overflow) (simp_all add: fl_pow2)
qed

lemma huge_buy_eval:
  "pos (applyFills [huge_buy, huge_buy] (ExecutionEngine_new cfg)) =
     \<lparr>side = LONG, size_pos = PosInf, averagePrice = Num 0, openedAt = Some 1000,
      unrealizedR = 0, barsOpen5m = 0\<rparr>"
  by (simp add: huge_buy_def engine_defs huge_values fl_pow2)

text \<open>
  Claim C8 does not hold of the code. \<^verbatim>\<open>handleFill\<close> and \<^verbatim>\<open>#applyFill\<close> let every
  finite positive quantity and price through. A buy of \<open>2^-540\<close> at a price of \<open>2^-540\<close>
  has a value that underflows to zero, and leaves the ledger long, with a positive size
  and an average price of zero. Two buys of \<open>2^1023\<close> overflow the size to infinity, and
  the average price is zero again. In both ledgers \<open>size = 0 \<longleftrightarrow> avg_price = 0\<close> is false.
\<close>

theorem position_invariant_lost:
  "pos (applyFills [tiny_buy] (ExecutionEngine_new cfg)) =
     \<lparr>side = LONG, size_pos = Num (pow2 (- 540)), averagePrice = Num 0, openedAt = Some 1000,
      unrealizedR = 0, barsOpen5m = 0\<rparr>
   \<and> \<not> position_invariant (pos (applyFills [tiny_buy] (ExecutionEngine_new cfg)))
   \<and> pos (applyFills [huge_buy, huge_buy] (ExecutionEngine_new cfg)) =
     \<lparr>side = LONG, size_pos = PosInf, averagePrice = Num 0, openedAt = Some 1000,
      unrealizedR = 0, barsOpen5m = 0\<rparr>
   \<and> \<not> position_invariant (pos (applyFills [huge_buy, huge_buy] (ExecutionEngine_new cfg)))"
proof -
  have t: "pos (applyFills [tiny_buy] (ExecutionEngine_new cfg)) =
     \<lparr>side = LONG, size_pos = Num (pow2 (- 540)), averagePrice = Num 0, openedAt = Some 1000,
      unrealizedR = 0, barsOpen5m = 0\<rparr>"
    using tiny_buy_eval [of cfg] by simp
  have h: "pos (applyFills [huge_buy, huge_buy] (ExecutionEngine_new cfg)) =
     \<lparr>side = LONG, size_pos = PosInf, averagePrice = Num 0, openedAt = Some 1000,
      unrealizedR = 0, barsOpen5m = 0\<rparr>"
    by (rule huge_buy_eval)
  have nt: "\<not> position_invariant (pos (applyFills [tiny_buy] (ExecutionEngine_new cfg)))"
    unfolding t by (simp add: position_invariant_def)
  have nh: "\<not> position_invariant (pos (applyFills [huge_buy, huge_buy] (ExecutionEngine_new cfg)))"
    unfolding h by (simp add: position_invariant_def)
  show ?thesis by (rule conjI [OF t conjI [OF nt conjI [OF h nh]]])
qed

section \<open>Verification: the loss-streak cooldown\<close>

lemma count_true_slice_last: "count_true (slice_last n xs) \<le> count_true xs"
proof -
  have "filter (\<lambda>b. b) xs =
        filter (\<lambda>b. b) (take (length xs - n) xs) @ filter (\<lambda>b. b) (drop (length xs - n) xs)"
    by (metis append_take_drop_id filter_append)
  then show ?thesis
    by (simp add: count_true_def slice_last_def)
qed

lemma count_true_snoc: "count_true (w @ [b]) = count_true w + (if b then 1 else 0)"
  by (simp add: count_true_def)

lemma recalc_fields [simp]:
  "pauseUntil (recalculateDailyPnL e) = pauseUntil e"
  "lossCountWindow (recalculateDailyPnL e) = lossCountWindow e"
  "riskCfg (recalculateDailyPnL e) = riskCfg e"
  by (simp_all add: recalculateDailyPnL_def Let_def split: option.splits)

lemma fill_sell_riskCfg [simp]: "riskCfg (fill_sell q p now e) = riskCfg e"
  by (simp add: fill_sell_def maybeApplyPause_def Let_def)

lemma fill_sell_step:
  "pauseUntil (fill_sell q p now e) =
     (if real (count_true (slice_last 5 (lossCountWindow e @ [js_lt (realized_of q p e) (Num 0)])))
           \<ge> pauseAfterLosses (riskCfg e)
      then fadd (Num now) (fmul (Num (pauseMinutes (riskCfg e))) (Num 60000)) else pauseUntil e)"
  "lossCountWindow (fill_sell q p now e) =
     (if real (count_true (slice_last 5 (lossCountWindow e @ [js_lt (realized_of q p e) (Num 0)])))
           \<ge> pauseAfterLosses (riskCfg e)
      then [] else slice_last 5 (lossCountWindow e @ [js_lt (realized_of q p e) (Num 0)]))"
  by (simp_all add: fill_sell_def maybeApplyPause_def Let_def count_true_def)

lemma apply1_riskCfg [simp]: "riskCfg (apply1 f e) = riskCfg e"
  by (simp add: apply1_def applyFill_def fill_buy_def Let_def split: jsnum.splits)

lemma apply1_sell:
  "valid_sell f q p \<Longrightarrow> apply1 f e = recalculateDailyPnL (fill_sell q p (f_now f) e)"
  "valid_sell f q p \<Longrightarrow> is_losing_sell f e = js_lt (realized_of q p e) (Num 0)"
  by (simp_all add: valid_sell_def apply1_def applyFill_def is_losing_sell_def)

lemma apply1_other:
  "\<not> (\<exists>q p. valid_sell f q p) \<Longrightarrow> pauseUntil (apply1 f e) = pauseUntil e"
  "\<not> (\<exists>q p. valid_sell f q p) \<Longrightarrow> lossCountWindow (apply1 f e) = lossCountWindow e"
  by (cases "f_quantity f"; cases "f_price f";
      simp add: valid_sell_def apply1_def applyFill_def fill_buy_def Let_def)+

lemma apply1_no_pause:
  assumes "real (count_true (lossCountWindow e) + (if is_losing_sell f e then 1 else 0))
             < pauseAfterLosses (riskCfg e)"
  shows "pauseUntil (apply1 f e) = pauseUntil e \<and>
         count_true (lossCountWindow (apply1 f e))
           \<le> count_true (lossCountWindow e) + (if is_losing_sell f e then 1 else 0)"
proof (cases "\<exists>q p. valid_sell f q p")
  case True
  then obtain q p where v: "valid_sell f q p" by blast
  note sell = apply1_sell [OF v, of e]
  let ?w = "slice_last 5 (lossCountWindow e @ [js_lt (realized_of q p e) (Num 0)])"
  have le: "count_true ?w \<le> count_true (lossCountWindow e) + (if is_losing_sell f e then 1 else 0)"
    using count_true_slice_last [of 5 "lossCountWindow e @ [js_lt (realized_of q p e) (Num 0)]"]
    by (simp add: count_true_snoc sell(2))
  with assms have "\<not> real (count_true ?w) \<ge> pauseAfterLosses (riskCfg e)"
    by linarith
  then show ?thesis
    using le by (simp add: sell(1) fill_sell_step)
next
  case False
  then show ?thesis by (simp add: apply1_other)
qed

lemma applyFills_no_pause:
  "real (count_true (lossCountWindow e) + losing_sells fs e) < pauseAfterLosses (riskCfg e)
   \<Longrightarrow> pauseUntil (applyFills fs e) = pauseUntil e"
proof (induction fs arbitrary: e)
  case Nil
  then show ?case by simp
next
  case (Cons f fs)
  have lt: "real (count_true (lossCountWindow e) + (if is_losing_sell f e then 1 else 0))
              < pauseAfterLosses (riskCfg e)"
    using Cons.prems by (simp split: if_splits)
  note st = apply1_no_pause [OF lt]
  have "real (count_true (lossCountWindow (apply1 f e)) + losing_sells fs (apply1 f e))
          < pauseAfterLosses (riskCfg (apply1 f e))"
    using Cons.prems st by (simp split: if_splits)
  from Cons.IH [OF this] st show ?case by simp
qed

lemma scenario_open_eval:
  "scenario_open =
     \<lparr>riskCfg = default_riskConfig,
      pos = \<lparr>side = LONG, size_pos = Num 100, averagePrice = Num 3, openedAt = Some 3000,
             unrealizedR = 0, barsOpen5m = 0\<rparr>,
      realizedPnlQuote = Num (- 100), dailyStartingBalance = None, dailyPnlPct = Num 0,
      lossCountWindow = [True], pauseUntil = Num 0, lastBalances = None, lastBalanceTs = 0\<rparr>"
  by (simp add: scenario_open_def engine_defs)

lemma scenario_paused_eval:
  "scenario_paused =
     \<lparr>riskCfg = default_riskConfig, pos = initial_position, realizedPnlQuote = Num (- 200),
      dailyStartingBalance = None, dailyPnlPct = Num 0, lossCountWindow = [],
      pauseUntil = Num 1804000, lastBalances = None, lastBalanceTs = 0\<rparr>"
  by (simp add: scenario_paused_def scenario_open_eval engine_defs)

lemma scenario_next_losing_sells: "losing_sells scenario_next scenario_paused = 1"
  by (simp add: scenario_next_def is_losing_sell_def scenario_paused_eval engine_defs)

text \<open>
  Claim C10. A sell fill (finite positive quantity and price) appends its outcome to the
  window and keeps the last five. When the losses in that window reach
  \<open>pauseAfterLosses\<close>, \<open>pauseUntil\<close> becomes \<open>now + pauseMinutes * 60000\<close> (the sum and the
  product as doubles) and the window is emptied; otherwise \<open>pauseUntil\<close> is untouched
  and the window is kept. From an emptied window, no sequence of fills with fewer than
  \<open>pauseAfterLosses\<close> losing sells moves \<open>pauseUntil\<close> again: a full new streak is required.
\<close>

theorem loss_streak_cooldown:
  "(q > 0 \<and> p > 0 \<longrightarrow>
      (let w = slice_last 5 (lossCountWindow e @ [js_lt (realized_of q p e) (Num 0)]);
           e' = applyFill ''sell'' (Num q) (Num p) af now e
       in if real (count_true w) \<ge> pauseAfterLosses (riskCfg e)
          then pauseUntil e' = fadd (Num now) (fmul (Num (pauseMinutes (riskCfg e))) (Num 60000))
               \<and> lossCountWindow e' = []
          else pauseUntil e' = pauseUntil e \<and> lossCountWindow e' = w))
   \<and> (lossCountWindow e = [] \<and> real (losing_sells fs e) < pauseAfterLosses (riskCfg e)
        \<longrightarrow> pauseUntil (applyFills fs e) = pauseUntil e)"
proof -
  have "applyFill ''sell'' (Num q) (Num p) af now e = recalculateDailyPnL (fill_sell q p now e)"
    if "q > 0" "p > 0"
    using that by (simp add: applyFill_def)
  moreover have "lossCountWindow e = [] \<and> real (losing_sells fs e) < pauseAfterLosses (riskCfg e)
              \<longrightarrow> pauseUntil (applyFills fs e) = pauseUntil e"
    using applyFills_no_pause [of e fs] by (simp add: count_true_def)
  ultimately show ?thesis
    by (simp add: Let_def fill_sell_step)
qed

theorem loss_streak_cooldown_witness:
  "pauseUntil (applyFill ''sell'' (Num 100) (Num 2) True 4000 scenario_open)
     = Num (4000 + 30 * 60000)
   \<and> lossCountWindow (applyFill ''sell'' (Num 100) (Num 2) True 4000 scenario_open) = []
   \<and> lossCountWindow scenario_paused = []
   \<and> losing_sells scenario_next scenario_paused = 1
   \<and> pauseUntil (applyFills scenario_next scenario_paused) = pauseUntil scenario_paused"
  using loss_streak_cooldown [of 100 2 scenario_open True 4000 "[]"]
        loss_streak_cooldown [of 1 1 scenario_paused True 0 scenario_next]
        scenario_next_losing_sells
  by (simp add: Let_def scenario_open_eval scenario_paused_eval count_true_def slice_last_def
      realized_of_def default_riskConfig_def fsub_def)

section \<open>Verification: the confluence score\<close>


lemma score_add_term [simp]: "score (add_term d t c) = score c + d"
  and components_add_term [simp]: "components (add_term d t c) = components c @ [t]"
  by (simp_all add: add_term_def)

lemma score15: "score (confluence15 t c) = score c + ma_term 2 (maStack t) + above_term (macdHistogram t) 0 + band_term (rsi t) 55 45"
  by (simp add: confluence15_def Let_def ma_term_def above_term_def band_term_def)

lemma score5: "score (confluence5 t c) = score c + band_term (priceZ20 t) (12 / 10) (- (12 / 10)) + above_term (volumeZScore t) (15 / 10)"
  by (simp add: confluence5_def Let_def above_term_def band_term_def)

lemma score1h: "score (confluence1h t c) = score c + ma_term 1 (maStack t)"
  by (simp add: confluence1h_def ma_term_def)

lemma tags_ok_add: "tags_ok c \<Longrightarrow> tag_weight t = d \<Longrightarrow> tags_ok (add_term d t c)"
  by (simp add: tags_ok_def)

lemma tw: "tag_weight ''TrendBull(15m)'' = 2" "tag_weight ''TrendBear(15m)'' = - 2"
  "tag_weight ''MACD>0(15m)'' = 1" "tag_weight ''RSI>55(15m)'' = 1" "tag_weight ''RSI<45(15m)'' = - 1"
  "tag_weight ''PriceZ>1(5m)'' = 1" "tag_weight ''PriceZ<-1(5m)'' = - 1" "tag_weight ''VolumeSpike(5m)'' = 1"
  "tag_weight ''TrendBull(1h)'' = 1" "tag_weight ''TrendBear(1h)'' = - 1"
  by (simp_all add: tag_weight_def)

lemma ok15: "tags_ok c \<Longrightarrow> tags_ok (confluence15 t c)"
  by (simp add: confluence15_def Let_def tags_ok_add tw)

lemma ok5: "tags_ok c \<Longrightarrow> tags_ok (confluence5 t c)"
  by (simp add: confluence5_def Let_def tags_ok_add tw)

lemma ok1h: "tags_ok c \<Longrightarrow> tags_ok (confluence1h t c)"
  by (simp add: confluence1h_def Let_def tags_ok_add tw)

lemma ok_all: "tags_ok (computeConfluence tfs)"
  by (simp add: computeConfluence_def Let_def ok15 ok5 ok1h tags_ok_def[of "\<lparr>score = 0, components = []\<rparr>"] split: option.splits)

lemma len15: "length (components (confluence15 t c)) = length (components c) + contributes (ma_term 2 (maStack t)) + contributes (above_term (macdHistogram t) 0) + contributes (band_term (rsi t) 55 45)"
  by (simp add: confluence15_def Let_def ma_term_def above_term_def band_term_def contributes_def)

lemma len5: "length (components (confluence5 t c)) = length (components c) + contributes (band_term (priceZ20 t) (12 / 10) (- (12 / 10))) + contributes (above_term (volumeZScore t) (15 / 10))"
  by (simp add: confluence5_def Let_def above_term_def band_term_def contributes_def)

lemma len1h: "length (components (confluence1h t c)) = length (components c) + contributes (ma_term 1 (maStack t))"
  by (simp add: confluence1h_def ma_term_def contributes_def)

text \<open>
  Claim C4, as amended. The score is the signed sum of: the 15m MA stack (\<open>+2\<close> bull,
  \<open>-2\<close> bear), \<open>+1\<close> for a positive 15m MACD histogram (a negative one adds nothing),
  the 15m RSI band (\<open>+1\<close> above 55, \<open>-1\<close> below 45), the 5m price z-score band
  (\<open>+1\<close> above 1.2, \<open>-1\<close> below -1.2), \<open>+1\<close> for a 5m volume z-score above 1.5, and
  the 1h MA stack (\<open>+1\<close> bull, \<open>-1\<close> bear); a missing timeframe adds nothing. The
  components list holds one tag per non-zero term, and the score is the sum of the
  terms its tags stand for.
\<close>

theorem confluence_score_formula:
  "score (computeConfluence tfs) =
     (case tfs ''15m'' of None \<Rightarrow> 0
      | Some t \<Rightarrow> ma_term 2 (maStack t) + above_term (macdHistogram t) 0 + band_term (rsi t) 55 45)
   + (case tfs ''5m'' of None \<Rightarrow> 0
      | Some t \<Rightarrow> band_term (priceZ20 t) (12 / 10) (- (12 / 10)) + above_term (volumeZScore t) (15 / 10))
   + (case tfs ''1h'' of None \<Rightarrow> 0 | Some t \<Rightarrow> ma_term 1 (maStack t))
   \<and> length (components (computeConfluence tfs)) =
     (case tfs ''15m'' of None \<Rightarrow> 0
      | Some t \<Rightarrow> contributes (ma_term 2 (maStack t)) + contributes (above_term (macdHistogram t) 0)
                  + contributes (band_term (rsi t) 55 45))
   + (case tfs ''5m'' of None \<Rightarrow> 0
      | Some t \<Rightarrow> contributes (band_term (priceZ20 t) (12 / 10) (- (12 / 10)))
                  + contributes (above_term (volumeZScore t) (15 / 10)))
   + (case tfs ''1h'' of None \<Rightarrow> 0 | Some t \<Rightarrow> contributes (ma_term 1 (maStack t)))
   \<and> score (computeConfluence tfs) = sum_list (map tag_weight (components (computeConfluence tfs)))"
  using ok_all [of tfs]
  by (simp add: computeConfluence_def Let_def score15 score5 score1h len15 len5 len1h tags_ok_def
      split: option.splits)

theorem confluence_score_formula_witness:
  "score (computeConfluence bullish_example) = 4
   \<and> components (computeConfluence bullish_example)
       = [''TrendBull(15m)'', ''MACD>0(15m)'', ''RSI>55(15m)'', ''PriceZ<-1(5m)'', ''VolumeSpike(5m)'']"
  using confluence_score_formula [of bullish_example]
  by (simp add: bullish_example_def computeConfluence_def confluence15_def confluence5_def Let_def
      ma_term_def above_term_def band_term_def)

text \<open>
  The claim as stated fails: with a negative 15m MACD histogram and nothing else
  contributing, the code scores 0 where the stated sum gives \<open>-1\<close>.
\<close>

theorem confluence_macd_counterexample:
  "score (computeConfluence bearish_macd_only) = 0 \<and> spec_confluence_score bearish_macd_only = - 1"
  by (simp add: computeConfluence_def bearish_macd_only_def confluence15_def Let_def spec_confluence_score_def
      ma_term_def spec_sign_term_def band_term_def)

section \<open>Verification: the retry policy\<close>

lemma makeRequest_cases:
  "makeRequest net st =
     (let n = n_attempts st; s0 = st\<lparr>n_requests := n_requests st + 1\<rparr> in
      case net n of
        Inr r \<Rightarrow> (Resolved r, s0\<lparr>n_attempts := n + 1\<rparr>)
      | Inl e1 \<Rightarrow>
         (case net (n + 1) of
            Inr r \<Rightarrow> (Resolved r, s0\<lparr>n_attempts := n + 2, sleeps := sleeps st @ [250]\<rparr>)
          | Inl e2 \<Rightarrow>
             (case net (n + 2) of
                Inr r \<Rightarrow> (Resolved r, s0\<lparr>n_attempts := n + 3, sleeps := sleeps st @ [250, 500]\<rparr>)
              | Inl e3 \<Rightarrow> (Rejected e3, s0\<lparr>n_attempts := n + 3, sleeps := sleeps st @ [250, 500]\<rparr>))))"
  by (simp add: makeRequest_def makeRequest_from.simps maxRetries_def backoffMs_def Let_def
      split: sum.splits)

lemma makeRequest_policy:
  "case makeRequest net st of (out, st') \<Rightarrow>
     (let k = n_attempts st' - n_attempts st in
        1 \<le> k \<and> k \<le> 3
        \<and> sleeps st' = sleeps st @ map (\<lambda>a. 250 * a) [1..<k]
        \<and> (\<forall>j<k - 1. isl (net (n_attempts st + j)))
        \<and> out = (case net (n_attempts st + k - 1) of Inr r \<Rightarrow> Resolved r | Inl e \<Rightarrow> Rejected e)
        \<and> (\<forall>e. out = Rejected e \<longrightarrow> k = 3))"
proof -
  have u: "[Suc 0..<2] = [1::nat]" "[Suc 0..<3] = [1::nat, 2]"
    by (simp_all add: upt_conv_Cons numeral_2_eq_2 numeral_3_eq_3)
  have l: "\<And>j::nat. j < 2 \<longleftrightarrow> j = 0 \<or> j = 1" by auto
  show ?thesis
    by (cases "net (n_attempts st)"; cases "net (n_attempts st + 1)"; cases "net (n_attempts st + 2)")
       (auto simp: makeRequest_cases Let_def u l)
qed

lemma makeRequest_bounds:
  "makeRequest net st = (out, st1) \<Longrightarrow>
     n_requests st1 = n_requests st + 1 \<and> n_attempts st < n_attempts st1
     \<and> n_attempts st1 \<le> n_attempts st + 3"
  unfolding makeRequest_cases Let_def
  by (cases "net (n_attempts st)"; cases "net (n_attempts st + 1)"; cases "net (n_attempts st + 2)")
     auto

lemma makeRequest_defined: "makeRequest net st = (out, st1) \<Longrightarrow> out \<noteq> ReturnedUndefined"
  unfolding makeRequest_cases Let_def
  by (cases "net (n_attempts st)"; cases "net (n_attempts st + 1)"; cases "net (n_attempts st + 2)")
     auto

lemma getOpenOrders_from_bounds:
  "1 \<le> attempt \<Longrightarrow> attempt \<le> 5 \<Longrightarrow> getOpenOrders_from net attempt st = (out, st') \<Longrightarrow>
     n_requests st < n_requests st' \<and> n_requests st' + attempt \<le> n_requests st + 6
     \<and> n_attempts st' + 3 * attempt \<le> n_attempts st + 18"
proof (induction net attempt st rule: getOpenOrders_from.induct)
  case (1 net attempt st)
  obtain o1 st1 where mr: "makeRequest net st = (o1, st1)" by (cases "makeRequest net st")
  note b = makeRequest_bounds [OF mr]
  show ?case
  proof (cases "\<exists>message. o1 = Rejected message \<and> \<not> (attempt = maxAttempts \<or> \<not> retryable message)")
    case True
    then obtain message where m: "o1 = Rejected message" "attempt \<noteq> maxAttempts" "retryable message"
      by blast
    let ?st2 = "st1\<lparr>sleeps := sleeps st1 @ [baseDelay * attempt]\<rparr>"
    have rec: "getOpenOrders_from net (attempt + 1) ?st2 = (out, st')"
      using "1.prems" mr m by (simp add: getOpenOrders_from.simps [of net attempt st] maxAttempts_def)
    have le: "attempt + 1 \<le> 5" using "1.prems" m by (simp add: maxAttempts_def)
    have "n_requests ?st2 < n_requests st' \<and> n_requests st' + (attempt + 1) \<le> n_requests ?st2 + 6
          \<and> n_attempts st' + 3 * (attempt + 1) \<le> n_attempts ?st2 + 18"
      using "1.IH" [of o1 st1 message] "1.prems" m mr rec le
      by (simp add: maxAttempts_def)
    then show ?thesis using b by simp
  next
    case False
    then have "st' = st1"
      using "1.prems" mr
      by (cases o1) (auto simp: getOpenOrders_from.simps [of net attempt st] maxAttempts_def split: if_splits)
    then show ?thesis using b "1.prems" by simp
  qed
qed

lemma retry_openOrders_bounds:
  "case getOpenOrders net st of (out, st') \<Rightarrow>
        1 \<le> n_requests st' - n_requests st \<and> n_requests st' - n_requests st \<le> 5
        \<and> n_attempts st' - n_attempts st \<le> 15"
proof -
  obtain out st' where g: "getOpenOrders_from net 1 st = (out, st')"
    by (cases "getOpenOrders_from net 1 st")
  from getOpenOrders_from_bounds [OF _ _ g] have
    "n_requests st < n_requests st'" "n_requests st' + 1 \<le> n_requests st + 6"
    "n_attempts st' + 3 \<le> n_attempts st + 18"
    by simp_all
  then show ?thesis
    unfolding getOpenOrders_def g by auto
qed

lemma retry_openOrders_step:
  "1 \<le> attempt \<and> attempt \<le> 5 \<longrightarrow>
        (case makeRequest net st of
           (Resolved r, st1) \<Rightarrow> getOpenOrders_from net attempt st = (Resolved r, st1)
         | (Rejected message, st1) \<Rightarrow>
             if retryable message \<and> attempt < 5
             then getOpenOrders_from net attempt st
                  = getOpenOrders_from net (attempt + 1) (st1\<lparr>sleeps := sleeps st1 @ [250 * attempt]\<rparr>)
             else getOpenOrders_from net attempt st
                  = (Rejected (''Failed to fetch open orders: '' @ message), st1)
         | (ReturnedUndefined, st1) \<Rightarrow> False)"
proof
  assume r: "1 \<le> attempt \<and> attempt \<le> 5"
  obtain o1 st1 where mr: "makeRequest net st = (o1, st1)" by (cases "makeRequest net st")
  have nu: "o1 \<noteq> ReturnedUndefined"
    using makeRequest_defined [OF mr] .
  have le: "attempt \<le> maxAttempts" using r by (simp add: maxAttempts_def)
  have un: "getOpenOrders_from net attempt st =
     (case (o1, st1) of
           (Resolved r, st1) \<Rightarrow> (Resolved r, st1)
         | (ReturnedUndefined, st1) \<Rightarrow> (ReturnedUndefined, st1)
         | (Rejected message, st1) \<Rightarrow>
             if attempt = maxAttempts \<or> \<not> retryable message
             then (Rejected (''Failed to fetch open orders: '' @ message), st1)
             else getOpenOrders_from net (attempt + 1)
                    (st1\<lparr>sleeps := sleeps st1 @ [baseDelay * attempt]\<rparr>))"
    by (subst getOpenOrders_from.simps) (simp add: le mr)
  show "case makeRequest net st of
           (Resolved r, st1) \<Rightarrow> getOpenOrders_from net attempt st = (Resolved r, st1)
         | (Rejected message, st1) \<Rightarrow>
             if retryable message \<and> attempt < 5
             then getOpenOrders_from net attempt st
                  = getOpenOrders_from net (attempt + 1) (st1\<lparr>sleeps := sleeps st1 @ [250 * attempt]\<rparr>)
             else getOpenOrders_from net attempt st
                  = (Rejected (''Failed to fetch open orders: '' @ message), st1)
         | (ReturnedUndefined, st1) \<Rightarrow> False"
    unfolding mr un using r nu
    by (cases o1) (auto simp: maxAttempts_def baseDelay_def)
qed


lemma retryable_examples:
  "retryable ''EAPI:Invalid nonce''" "\<not> retryable ''EGeneral:Permission denied''"
  by (simp_all add: retryable_def)


section \<open>Verification: the order book state\<close>

lemma applyLevel_key:
  "level_key (Some l) = Some k \<Longrightarrow> applyLevel m (Some l) k = level_entry l"
  by (auto simp: level_key_def applyLevel_def level_entry_def Let_def split: jsnum.splits)

lemma applyLevel_other: "level_key lv \<noteq> Some k \<Longrightarrow> applyLevel m lv k = m k"
  by (auto simp: level_key_def applyLevel_def Let_def split: option.splits jsnum.splits)

lemma foldl_applyLevel_other:
  "\<forall>lv \<in> set ls. level_key lv \<noteq> Some k \<Longrightarrow> foldl applyLevel m ls k = m k"
  by (induction ls arbitrary: m) (simp_all add: applyLevel_other)

lemma applyLevels_last_wins:
  assumes "level_key (Some l) = Some k" and "\<forall>lv \<in> set after. level_key lv \<noteq> Some k"
  shows "applyLevels m (Some (before @ [Some l] @ after)) k = level_entry l"
  using assms by (simp add: applyLevels_def foldl_applyLevel_other applyLevel_key)

lemma onBookEvent_sides:
  assumes "bookStates symbol = Some state"
  shows "map_option bids (onBookEvent symbol event bookStates symbol)
           = Some (applyLevels (if ev_type event = ''snapshot'' then Map.empty else bids state) (ev_bids event))"
    and "map_option asks (onBookEvent symbol event bookStates symbol)
           = Some (applyLevels (if ev_type event = ''snapshot'' then Map.empty else asks state) (ev_asks event))"
  using assms by (simp_all add: onBookEvent_def Let_def)

text \<open>
  Claim C3. Applying a level with a finite price: a quantity that is zero, negative (or
  not finite) removes the price key from the side; a finite positive quantity leaves the
  key present with exactly that price and quantity; no other key changes. Over a level
  list the last level written to a key decides it. A snapshot event applies its levels
  to emptied sides, any other event to the sides as they were; events are applied in
  the order received.
\<close>

theorem book_level_application:
  "(raw_price l = Num p \<and> (\<forall>q. raw_qty l = Num q \<longrightarrow> q \<le> 0)
      \<longrightarrow> applyLevel m (Some l) (toFixed p 12) = None)
   \<and> (raw_price l = Num p \<and> raw_qty l = Num q \<and> q > 0
      \<longrightarrow> applyLevel m (Some l) (toFixed p 12) = Some \<lparr>lv_price = p, lv_qty = q\<rparr>)
   \<and> (level_key lv \<noteq> Some k \<longrightarrow> applyLevel m lv k = m k)
   \<and> (level_key (Some l) = Some k \<and> (\<forall>x \<in> set after. level_key x \<noteq> Some k)
      \<longrightarrow> applyLevels m (Some (before @ [Some l] @ after)) k = level_entry l)
   \<and> (bookStates symbol = Some state \<and> ev_type event = ''snapshot''
      \<longrightarrow> map_option bids (onBookEvent symbol event bookStates symbol)
            = Some (applyLevels Map.empty (ev_bids event))
        \<and> map_option asks (onBookEvent symbol event bookStates symbol)
            = Some (applyLevels Map.empty (ev_asks event)))
   \<and> (bookStates symbol = Some state \<and> ev_type event \<noteq> ''snapshot''
      \<longrightarrow> map_option bids (onBookEvent symbol event bookStates symbol)
            = Some (applyLevels (bids state) (ev_bids event))
        \<and> map_option asks (onBookEvent symbol event bookStates symbol)
            = Some (applyLevels (asks state) (ev_asks event)))
   \<and> onBookEvents symbol (es @ [event]) bookStates
        = onBookEvent symbol event (onBookEvents symbol es bookStates)"
proof -
  have 1: "raw_price l = Num p \<and> (\<forall>q. raw_qty l = Num q \<longrightarrow> q \<le> 0)
      \<longrightarrow> applyLevel m (Some l) (toFixed p 12) = None"
    by (auto simp: applyLevel_def Let_def split: jsnum.splits)
  have 2: "raw_price l = Num p \<and> raw_qty l = Num q \<and> q > 0
      \<longrightarrow> applyLevel m (Some l) (toFixed p 12) = Some \<lparr>lv_price = p, lv_qty = q\<rparr>"
    by (auto simp: applyLevel_def Let_def)
  have 3: "level_key lv \<noteq> Some k \<longrightarrow> applyLevel m lv k = m k"
    by (simp add: applyLevel_other)
  have 4: "level_key (Some l) = Some k \<and> (\<forall>x \<in> set after. level_key x \<noteq> Some k)
      \<longrightarrow> applyLevels m (Some (before @ [Some l] @ after)) k = level_entry l"
    using applyLevels_last_wins by blast
  have 5: "bookStates symbol = Some state \<and> ev_type event = ''snapshot''
      \<longrightarrow> map_option bids (onBookEvent symbol event bookStates symbol)
            = Some (applyLevels Map.empty (ev_bids event))
        \<and> map_option asks (onBookEvent symbol event bookStates symbol)
            = Some (applyLevels Map.empty (ev_asks event))"
    by (simp add: onBookEvent_sides)
  have 6: "bookStates symbol = Some state \<and> ev_type event \<noteq> ''snapshot''
      \<longrightarrow> map_option bids (onBookEvent symbol event bookStates symbol)
            = Some (applyLevels (bids state) (ev_bids event))
        \<and> map_option asks (onBookEvent symbol event bookStates symbol)
            = Some (applyLevels (asks state) (ev_asks event))"
    by (simp add: onBookEvent_sides)
  have 7: "onBookEvents symbol (es @ [event]) bookStates
        = onBookEvent symbol event (onBookEvents symbol es bookStates)"
    by (induction es arbitrary: bookStates) simp_all
  show ?thesis
    by (rule conjI [OF 1 conjI [OF 2 conjI [OF 3 conjI [OF 4 conjI [OF 5 conjI [OF 6 7]]]]]])
qed

lemma example_keys:
  "toFixed (1 / 10) 12 = ''0.100000000000''" "toFixed (11 / 100) 12 = ''0.110000000000''"
  "toFixed (9 / 100) 12 = ''0.090000000000''" "toFixed (13 / 100) 12 = ''0.130000000000''"
  unfolding toFixed_def Let_def by (simp_all add: digits.simps digit_char_def)

theorem book_level_application_witness:
  "map_option bids (onBookEvent ''DOGE/USD'' example_snapshot example_books ''DOGE/USD'')
     = Some [''0.090000000000'' \<mapsto> \<lparr>lv_price = 9 / 100, lv_qty = 40\<rparr>]
   \<and> map_option asks (onBookEvent ''DOGE/USD'' example_snapshot example_books ''DOGE/USD'')
     = Some [''0.130000000000'' \<mapsto> \<lparr>lv_price = 13 / 100, lv_qty = 25\<rparr>]
   \<and> map_option bids (onBookEvents ''DOGE/USD'' [example_snapshot, example_update] example_books ''DOGE/USD'')
     = Some [''0.110000000000'' \<mapsto> \<lparr>lv_price = 11 / 100, lv_qty = 70\<rparr>]"
proof -
  have s: "example_books ''DOGE/USD'' = Some \<lparr>bids = [toFixed (1 / 10) 12 \<mapsto> \<lparr>lv_price = 1 / 10, lv_qty = 500\<rparr>],
                        asks = Map.empty, last_price = None\<rparr>"
    by (simp add: example_books_def)
  have t: "ev_type example_snapshot = ''snapshot''" by (simp add: example_snapshot_def)
  note a = book_level_application [where bookStates = example_books and symbol = "''DOGE/USD''"
      and event = example_snapshot and es = "[]"
      and l = "\<lparr>raw_price = Num (9 / 100), raw_qty = Num 0\<rparr>" and p = "9 / 100" and q = 0
      and lv = None]
  from a s t have b: "map_option bids (onBookEvent ''DOGE/USD'' example_snapshot example_books ''DOGE/USD'')
            = Some (applyLevels Map.empty (ev_bids example_snapshot))"
     "map_option asks (onBookEvent ''DOGE/USD'' example_snapshot example_books ''DOGE/USD'')
            = Some (applyLevels Map.empty (ev_asks example_snapshot))"
    by blast+
  have c: "applyLevels Map.empty (ev_bids example_snapshot) = [''0.090000000000'' \<mapsto> \<lparr>lv_price = 9 / 100, lv_qty = 40\<rparr>]"
    "applyLevels Map.empty (ev_asks example_snapshot) = [''0.130000000000'' \<mapsto> \<lparr>lv_price = 13 / 100, lv_qty = 25\<rparr>]"
    by (simp_all add: example_snapshot_def applyLevels_def applyLevel_def Let_def example_keys)
  have d: "map_option bids (onBookEvents ''DOGE/USD'' [example_snapshot, example_update] example_books ''DOGE/USD'')
     = Some [''0.110000000000'' \<mapsto> \<lparr>lv_price = 11 / 100, lv_qty = 70\<rparr>]"
    by (simp add: onBookEvent_def s Let_def example_snapshot_def example_update_def applyLevels_def
        applyLevel_def example_keys fun_upd_twist)
  from b c d show ?thesis by simp
qed

section \<open>Verification: the event engine\<close>

lemma add_all_set: "set (add_all s xs) = set s \<union> set xs"
  unfolding add_all_def by (induction xs arbitrary: s) (auto simp: set_add_def)

lemma add_all_prefix: "prefix s (add_all s xs)"
  unfolding add_all_def
proof (induction xs arbitrary: s)
  case Nil
  show ?case by simp
next
  case (Cons x xs)
  have "prefix s (set_add s x)" by (simp add: set_add_def)
  then show ?case using Cons [of "set_add s x"] by (auto intro: prefix_order.trans)
qed

lemma distinct_set_add: "distinct s \<Longrightarrow> distinct (set_add s x)"
  by (simp add: set_add_def)

lemma distinct_add_all: "distinct s \<Longrightarrow> distinct (add_all s xs)"
  unfolding add_all_def by (induction xs arbitrary: s) (simp_all add: distinct_set_add)

lemma same_gate_refl [simp]: "same_gate a a"
  by (simp add: same_gate_def)

lemma same_gate_trans: "same_gate a b \<Longrightarrow> same_gate b c \<Longrightarrow> same_gate a c"
  by (simp add: same_gate_def)

lemma evaluateTrend_gate: "same_gate st (snd (evaluateTrend snap (r, st)))"
  by (simp add: evaluateTrend_def same_gate_def Let_def split: option.splits)

lemma evaluateVolatility_gate: "same_gate st (snd (evaluateVolatility snap (r, st)))"
  by (simp add: evaluateVolatility_def same_gate_def Let_def split: option.splits)

lemma evaluateConfluence_gate: "same_gate st (snd (evaluateConfluence snap (r, st)))"
  by (simp add: evaluateConfluence_def same_gate_def Let_def split: option.splits jsnum.splits)

lemma evaluateLiquidity_gate: "same_gate st (snd (evaluateLiquidity snap (r, st)))"
  by (simp add: evaluateLiquidity_def same_gate_def Let_def)

lemma evaluateRisk_gate: "same_gate st (snd (evaluateRisk snap (r, st)))"
  by (simp add: evaluateRisk_def same_gate_def Let_def split: option.splits prod.splits)

lemma collect_reasons_gate: "same_gate st (snd (collect_reasons snap trig st))"
proof -
  obtain r1 s1 where 1: "evaluateTrend snap ([], st) = (r1, s1)" by (cases "evaluateTrend snap ([], st)")
  obtain r2 s2 where 2: "evaluateVolatility snap (r1, s1) = (r2, s2)" by (cases "evaluateVolatility snap (r1, s1)")
  obtain r3 s3 where 3: "evaluateConfluence snap (r2, s2) = (r3, s3)" by (cases "evaluateConfluence snap (r2, s2)")
  obtain r4 s4 where 4: "evaluateLiquidity snap (r3, s3) = (r4, s4)" by (cases "evaluateLiquidity snap (r3, s3)")
  obtain r5 s5 where 5: "evaluateRisk snap (r4, s4) = (r5, s5)" by (cases "evaluateRisk snap (r4, s4)")
  have "same_gate st s1" using evaluateTrend_gate [of st snap "[]"] 1 by simp
  moreover have "same_gate s1 s2" using evaluateVolatility_gate [of s1 snap r1] 2 by simp
  moreover have "same_gate s2 s3" using evaluateConfluence_gate [of s2 snap r2] 3 by simp
  moreover have "same_gate s3 s4" using evaluateLiquidity_gate [of s3 snap r3] 4 by simp
  moreover have "same_gate s4 s5" using evaluateRisk_gate [of s4 snap r4] 5 by simp
  ultimately have "same_gate st s5" by (blast intro: same_gate_trans)
  then show ?thesis by (simp add: collect_reasons_def 1 2 3 4 5)
qed

lemma detect_step:
  "case detect (Some snap) trig now st of (emitted, st') \<Rightarrow>
     (let ts = detect_timestamp snap now;
          acc = add_all (pendingReasonSet st) (fst (collect_reasons snap trig st))
      in if acc \<noteq> [] \<and> (\<not> truthy_num (lastEmitTs st) \<or> js_ge (js_sub ts (lastEmitTs st)) (debounceMs st))
         then emitted = acc \<and> pendingReasonSet st' = [] \<and> lastEmitTs st' = ts
         else emitted = [] \<and> pendingReasonSet st' = acc \<and> lastEmitTs st' = lastEmitTs st)
     \<and> debounceMs st' = debounceMs st"
proof -
  obtain rs st1 where c: "collect_reasons snap trig st = (rs, st1)" by (cases "collect_reasons snap trig st")
  have g: "same_gate st st1" using collect_reasons_gate [of st snap trig] c by simp
  show ?thesis
    using g by (auto simp: detect_def c Let_def maybeEmit_def same_gate_def)
qed

lemma or_else_truthy: "b \<noteq> Num 0 \<Longrightarrow> b \<noteq> NaN \<Longrightarrow> truthy_num (or_else a b)"
  by (cases b) (auto simp: or_else_def split: option.splits)

lemma detect_timestamp_truthy: "now \<noteq> 0 \<Longrightarrow> truthy_num (detect_timestamp snap now)"
  by (simp add: detect_timestamp_def or_else_truthy)

lemma js_ge_trans:
  "js_ge (js_sub b a) d \<Longrightarrow> js_ge (js_sub c b) d \<Longrightarrow> 0 \<le> d \<Longrightarrow> js_ge (js_sub c a) d"
  by (cases a; cases b; cases c) auto

lemma detect_all_spaced:
  assumes "\<forall>c \<in> set calls. dc_now c \<noteq> 0" and "0 \<le> debounceMs st" and "distinct (pendingReasonSet st)"
  shows "sorted_wrt (apart (debounceMs st)) (fst (detect_all calls st))
         \<and> (\<forall>e \<in> set (fst (detect_all calls st)). distinct (snd e) \<and> snd e \<noteq> [])
         \<and> (truthy_num (lastEmitTs st) \<longrightarrow>
              (\<forall>e \<in> set (fst (detect_all calls st)). js_ge (js_sub (fst e) (lastEmitTs st)) (debounceMs st)))"
  using assms
proof (induction calls arbitrary: st)
  case Nil
  then show ?case by simp
next
  case (Cons c cs)
  obtain emitted st1 where d: "detect (dc_snapshot c) (dc_triggered c) (dc_now c) st = (emitted, st1)"
    by (cases "detect (dc_snapshot c) (dc_triggered c) (dc_now c) st")
  obtain log st2 where r: "detect_all cs st1 = (log, st2)" by (cases "detect_all cs st1")
  show ?case
  proof (cases "dc_snapshot c")
    case None
    then have e: "st1 = st" "emitted = []" using d by (simp_all add: detect_def)
    from Cons.IH [of st] Cons.prems
    show ?thesis using None d r e by simp
  next
    case (Some snap)
    let ?ts = "detect_timestamp snap (dc_now c)"
    let ?acc = "add_all (pendingReasonSet st) (fst (collect_reasons snap (dc_triggered c) st))"
    note step = detect_step [where snap = snap and trig = "dc_triggered c" and now = "dc_now c" and st = st,
        unfolded d [unfolded Some] Let_def, simplified]
    have dm: "debounceMs st1 = debounceMs st" using step by simp
    have dacc: "distinct ?acc" using Cons.prems(3) by (rule distinct_add_all)
    have tt: "truthy_num ?ts" using Cons.prems(1) by (simp add: detect_timestamp_truthy)
    show ?thesis
    proof (cases "emitted = []")
      case True
      then have same: "lastEmitTs st1 = lastEmitTs st" "distinct (pendingReasonSet st1)"
        using step dacc by (auto split: if_splits)
      from Cons.IH [of st1] Cons.prems dm same r
      show ?thesis using d Some True by simp
    next
      case False
      then have em: "emitted = ?acc" "pendingReasonSet st1 = []" "lastEmitTs st1 = ?ts"
        and gate: "\<not> truthy_num (lastEmitTs st) \<or> js_ge (js_sub ?ts (lastEmitTs st)) (debounceMs st)"
        using step by (auto split: if_splits)
      from Cons.IH [of st1] Cons.prems dm em r tt
      have ih: "sorted_wrt (apart (debounceMs st)) log"
          "\<forall>e \<in> set log. distinct (snd e) \<and> snd e \<noteq> []"
          "\<forall>e \<in> set log. js_ge (js_sub (fst e) ?ts) (debounceMs st)"
        by simp_all
      have "truthy_num (lastEmitTs st) \<longrightarrow>
              (\<forall>e \<in> set log. js_ge (js_sub (fst e) (lastEmitTs st)) (debounceMs st))"
        using gate ih(3) js_ge_trans [OF _ _ Cons.prems(2)] by blast
      moreover have "\<forall>e \<in> set log. apart (debounceMs st) (?ts, emitted) e"
        using ih(3) by (simp add: apart_def)
      ultimately show ?thesis
        using d Some False r ih gate em dacc by simp
    qed
  qed
qed

text \<open>
  Claim C7. One \<^verbatim>\<open>detect\<close> call adds the reasons it collects to the pending set:
  the set then holds the reasons pending before, in their order, and the collected ones,
  and nothing else. When
  the set is not empty and the gate is open (no emission yet, or the debounce interval
  has passed since the last one) it returns the whole set, empties it and records the
  time, otherwise it returns nothing and keeps the set. Over any sequence of calls from
  a new engine (clock readings non-zero, debounce interval not negative), any two
  emissions are at least the debounce interval apart, and no emission repeats a
  reason: within one window there is at most one emission and no reason twice.
\<close>

theorem debounced_emission:
  "(case detect (Some snap) trig now st of (emitted, st') \<Rightarrow>
      (let ts = detect_timestamp snap now;
           acc = add_all (pendingReasonSet st) (fst (collect_reasons snap trig st))
       in if acc \<noteq> [] \<and> (\<not> truthy_num (lastEmitTs st) \<or> js_ge (js_sub ts (lastEmitTs st)) (debounceMs st))
          then emitted = acc \<and> pendingReasonSet st' = [] \<and> lastEmitTs st' = ts
          else emitted = [] \<and> pendingReasonSet st' = acc \<and> lastEmitTs st' = lastEmitTs st))
   \<and> set (add_all (pendingReasonSet st) (fst (collect_reasons snap trig st)))
       = set (pendingReasonSet st) \<union> set (fst (collect_reasons snap trig st))
   \<and> prefix (pendingReasonSet st) (add_all (pendingReasonSet st) (fst (collect_reasons snap trig st)))
   \<and> ((\<forall>c \<in> set calls. dc_now c \<noteq> 0) \<and> 0 \<le> debounceMs (EventEngine_new dms th) \<longrightarrow>
        sorted_wrt (apart (debounceMs (EventEngine_new dms th)))
          (fst (detect_all calls (EventEngine_new dms th)))
        \<and> (\<forall>e \<in> set (fst (detect_all calls (EventEngine_new dms th))). distinct (snd e)))"
proof -
  have A: "case detect (Some snap) trig now st of (emitted, st') \<Rightarrow>
      (let ts = detect_timestamp snap now;
           acc = add_all (pendingReasonSet st) (fst (collect_reasons snap trig st))
       in if acc \<noteq> [] \<and> (\<not> truthy_num (lastEmitTs st) \<or> js_ge (js_sub ts (lastEmitTs st)) (debounceMs st))
          then emitted = acc \<and> pendingReasonSet st' = [] \<and> lastEmitTs st' = ts
          else emitted = [] \<and> pendingReasonSet st' = acc \<and> lastEmitTs st' = lastEmitTs st)"
    using detect_step [where snap = snap and trig = trig and now = now and st = st]
    by (simp add: Let_def split: prod.splits)
  have B: "(\<forall>c \<in> set calls. dc_now c \<noteq> 0) \<and> 0 \<le> debounceMs (EventEngine_new dms th) \<longrightarrow>
        sorted_wrt (apart (debounceMs (EventEngine_new dms th)))
          (fst (detect_all calls (EventEngine_new dms th)))
        \<and> (\<forall>e \<in> set (fst (detect_all calls (EventEngine_new dms th))). distinct (snd e))"
  proof
    assume h: "(\<forall>c \<in> set calls. dc_now c \<noteq> 0) \<and> 0 \<le> debounceMs (EventEngine_new dms th)"
    have "distinct (pendingReasonSet (EventEngine_new dms th))" by (simp add: EventEngine_new_def)
    from detect_all_spaced [OF _ _ this, of calls] h
    show "sorted_wrt (apart (debounceMs (EventEngine_new dms th)))
          (fst (detect_all calls (EventEngine_new dms th)))
        \<and> (\<forall>e \<in> set (fst (detect_all calls (EventEngine_new dms th))). distinct (snd e))"
      by blast
  qed
  show ?thesis by (rule conjI [OF A conjI [OF add_all_set conjI [OF add_all_prefix B]]])
qed

lemmas detect_defs =
  detect_def detect_timestamp_def collect_reasons_def evaluateTrend_def evaluateVolatility_def
  evaluateConfluence_def evaluateLiquidity_def evaluateRisk_def maybeEmit_def add_all_def
  set_add_def or_else_def truthy_str_def finite_or_null_def Let_def

lemma example_calls_log:
  "fst (detect_all example_calls (EventEngine_new None default_thresholds))
     = [(Num 1000000, [VolatilityRegimeHigh]), (Num 1060000, [LiquiditySweepLow])]"
  by (simp add: example_calls_def quiet_snapshot_def EventEngine_new_def default_thresholds_def
      no_liquidity_def detect_defs)

theorem debounced_emission_witness:
  "fst (detect_all example_calls (EventEngine_new None default_thresholds))
     = [(Num 1000000, [VolatilityRegimeHigh]), (Num 1060000, [LiquiditySweepLow])]
   \<and> sorted_wrt (apart 60000) [(Num 1000000, [VolatilityRegimeHigh]), (Num 1060000, [LiquiditySweepLow])]"
  using debounced_emission [where calls = example_calls and dms = None and th = default_thresholds]
        example_calls_log
  by (simp add: example_calls_def EventEngine_new_def)

section \<open>Verification: the first evaluation\<close>

lemma or_else_finite: "finite_or_falsy a \<Longrightarrow> isFinite b \<Longrightarrow> isFinite (or_else a b)"
  by (auto simp: finite_or_falsy_def or_else_def split: option.splits)

lemma updateBucket_fresh: "isFinite ts \<Longrightarrow> snd (updateBucket None ts minutes)"
  by (cases ts) (simp_all add: updateBucket_def Let_def)

lemma updateBucket_nonfinite: "\<not> isFinite ts \<Longrightarrow> updateBucket b ts minutes = (b, False)"
  by (cases ts) (simp_all add: updateBucket_def)

text \<open>
  Claim C9, as amended. On a new engine the first \<^verbatim>\<open>shouldEvaluate\<close> returns true
  whenever the timestamp it extracts is finite, the null buckets counting as changed;
  that timestamp is finite whenever each timestamp field is absent, falsy or finite (the
  clock is the fallback). When the extracted timestamp is not finite and the threshold
  flag is off, the call returns false and leaves the buckets null.
\<close>

theorem first_shouldEvaluate:
  "(isFinite (extractTimestamp pd now) \<longrightarrow>
      fst (shouldEvaluate pd trig now (EventEngine_new dms th)))
   \<and> (finite_or_falsy (channelTimestampUnix pd) \<and> finite_or_falsy (timestampUnix pd)
        \<and> finite_or_falsy (intervalBeginUnix pd) \<longrightarrow> isFinite (extractTimestamp pd now))
   \<and> (\<not> isFinite (extractTimestamp pd now) \<and> \<not> trig \<longrightarrow>
        \<not> fst (shouldEvaluate pd trig now (EventEngine_new dms th))
        \<and> lastBucket5m (snd (shouldEvaluate pd trig now (EventEngine_new dms th))) = None
        \<and> lastBucket15m (snd (shouldEvaluate pd trig now (EventEngine_new dms th))) = None
        \<and> lastBucket60m (snd (shouldEvaluate pd trig now (EventEngine_new dms th))) = None)"
proof -
  have 1: "isFinite (extractTimestamp pd now) \<longrightarrow>
      fst (shouldEvaluate pd trig now (EventEngine_new dms th))"
  proof
    assume f: "isFinite (extractTimestamp pd now)"
    then obtain t where t: "extractTimestamp pd now = Num t" by (cases "extractTimestamp pd now") simp_all
    show "fst (shouldEvaluate pd trig now (EventEngine_new dms th))"
      by (simp add: shouldEvaluate_def t updateBucket_def EventEngine_new_def Let_def)
  qed
  have 2: "finite_or_falsy (channelTimestampUnix pd) \<and> finite_or_falsy (timestampUnix pd)
        \<and> finite_or_falsy (intervalBeginUnix pd) \<longrightarrow> isFinite (extractTimestamp pd now)"
    by (simp add: extractTimestamp_def or_else_finite)
  have 3: "\<not> isFinite (extractTimestamp pd now) \<and> \<not> trig \<longrightarrow>
        \<not> fst (shouldEvaluate pd trig now (EventEngine_new dms th))
        \<and> lastBucket5m (snd (shouldEvaluate pd trig now (EventEngine_new dms th))) = None
        \<and> lastBucket15m (snd (shouldEvaluate pd trig now (EventEngine_new dms th))) = None
        \<and> lastBucket60m (snd (shouldEvaluate pd trig now (EventEngine_new dms th))) = None"
    by (simp add: shouldEvaluate_def updateBucket_nonfinite EventEngine_new_def Let_def)
  show ?thesis by (rule conjI [OF 1 conjI [OF 2 3]])
qed

theorem first_shouldEvaluate_witness:
  "isFinite (extractTimestamp no_timestamps 1700000000123)
   \<and> fst (shouldEvaluate no_timestamps False 1700000000123 (EventEngine_new None default_thresholds))"
  using first_shouldEvaluate [where pd = no_timestamps and now = 1700000000123 and trig = False
      and dms = None and th = default_thresholds]
  by (simp add: no_timestamps_def finite_or_falsy_def)

text \<open>
  The claim as stated fails: a price update whose timestamp is \<open>Infinity\<close> (truthy, not
  finite) makes the first call on a new engine return false.
\<close>

theorem first_shouldEvaluate_counterexample:
  "fst (shouldEvaluate infinite_timestamp False 1700000000123
          (EventEngine_new None default_thresholds)) = False"
  by (simp add: shouldEvaluate_def infinite_timestamp_def extractTimestamp_def or_else_def
      updateBucket_def EventEngine_new_def Let_def)

section \<open>Verification: the normalised decision\<close>

lemma hold_allowed: "''HOLD'' \<in> set allowed_actions"
  by (simp add: allowed_actions_def)

lemma finite_number_or_null_ok: "finite_or_null_val (finite_number_or_null numstr strnum v)"
  by (simp add: finite_number_or_null_def)

text \<open>
  Claim C5, as amended. The action of the normalised decision is always in the allowed
  set. A raw decision that is not an object, or whose action, converted to a string and
  upper-cased, is outside the allowed set, yields a HOLD decision. Otherwise the action
  is that upper-cased string; \<open>size_pct\<close>, \<open>stop_atr\<close> and \<open>tp_atr\<close> are finite numbers or
  null; \<open>entry\<close> is the raw entry unchanged when truthy and null otherwise (its type is not
  inspected); \<open>followups\<close> is the raw array unchanged when it is an array (its elements are
  not inspected) and the empty array otherwise.
\<close>

theorem normalised_decision:
  "d_action (normaliseDecision numstr strnum dec source) \<in> set allowed_actions
   \<and> (\<not> is_object dec \<or> action_of numstr dec \<notin> set allowed_actions
        \<longrightarrow> d_action (normaliseDecision numstr strnum dec source) = ''HOLD'')
   \<and> (is_object dec \<and> action_of numstr dec \<in> set allowed_actions \<longrightarrow>
        d_action (normaliseDecision numstr strnum dec source) = action_of numstr dec
        \<and> finite_or_null_val (d_size_pct (normaliseDecision numstr strnum dec source))
        \<and> finite_or_null_val (d_stop_atr (normaliseDecision numstr strnum dec source))
        \<and> finite_or_null_val (d_tp_atr (normaliseDecision numstr strnum dec source))
        \<and> d_entry (normaliseDecision numstr strnum dec source)
            = (if truthy (get_prop dec ''entry'') then get_prop dec ''entry'' else JNull)
        \<and> d_followups (normaliseDecision numstr strnum dec source)
            = (if isArray (get_prop dec ''followups'') then get_prop dec ''followups'' else JArray []))"
proof (cases "is_object dec \<and> action_of numstr dec \<in> set allowed_actions")
  case True
  then have t: "truthy dec" by (cases dec) simp_all
  show ?thesis
    using True t
    by (simp add: normaliseDecision_def action_of_def Let_def finite_number_or_null_ok)
next
  case False
  then have "normaliseDecision numstr strnum dec source = defaultDecision (''Invalid '' @ source)
    \<or> normaliseDecision numstr strnum dec source
        = defaultDecision (''Unsupported action \"'' @ js_String numstr (get_prop dec ''action'') @ ''\"'')"
    by (auto simp: normaliseDecision_def action_of_def Let_def)
  then show ?thesis
    using False by (auto simp: defaultDecision_def hold_allowed)
qed

lemma action_of_examples:
  "action_of numstr mock_decision = ''OPEN_LONG''"
  "action_of numstr lowercase_decision = ''OPEN_LONG''"
  "action_of numstr stop_entry_decision = ''OPEN_LONG''"
  by (simp_all add: action_of_def mock_decision_def lowercase_decision_def stop_entry_decision_def
      toUpperCase_def upper_char_def)

theorem normalised_decision_witness:
  "is_object mock_decision
   \<and> action_of (\<lambda>n. []) mock_decision \<in> set allowed_actions
   \<and> d_action (normaliseDecision (\<lambda>n. []) (\<lambda>s. NaN) mock_decision ''Mock decision'') = ''OPEN_LONG''
   \<and> d_size_pct (normaliseDecision (\<lambda>n. []) (\<lambda>s. NaN) mock_decision ''Mock decision'') = JNumber (Num 25)
   \<and> d_entry (normaliseDecision (\<lambda>n. []) (\<lambda>s. NaN) mock_decision ''Mock decision'')
       = JObject [(''type'', JString ''limit''), (''offset_bps'', JNumber (Num (- 5)))]"
  using normalised_decision [where numstr = "\<lambda>n. []" and strnum = "\<lambda>s. NaN" and dec = mock_decision
      and source = "''Mock decision''"]
  by (simp add: action_of_examples allowed_actions_def)
     (simp add: mock_decision_def normaliseDecision_def Let_def finite_number_or_null_def js_Number_def
        toUpperCase_def upper_char_def allowed_actions_def)

text \<open>
  The claim as stated fails on three counts: an entry of type \<open>stop\<close> is returned as it
  came, a follow-up list holding a number is returned as it came, and the lower-case
  action \<open>open_long\<close>, which is not in the allowed set, yields \<open>OPEN_LONG\<close>, not \<open>HOLD\<close>.
\<close>

theorem normalised_decision_counterexample:
  "get_prop (d_entry (normaliseDecision (\<lambda>n. []) (\<lambda>s. NaN) stop_entry_decision ''LLM decision'')) ''type''
     = JString ''stop''
   \<and> d_followups (normaliseDecision (\<lambda>n. []) (\<lambda>s. NaN) stop_entry_decision ''LLM decision'')
     = JArray [JNumber (Num 1)]
   \<and> \<not> is_string_list (d_followups (normaliseDecision (\<lambda>n. []) (\<lambda>s. NaN) stop_entry_decision ''LLM decision''))
   \<and> get_prop lowercase_decision ''action'' = JString ''open_long''
   \<and> ''open_long'' \<notin> set allowed_actions
   \<and> d_action (normaliseDecision (\<lambda>n. []) (\<lambda>s. NaN) lowercase_decision ''LLM decision'') = ''OPEN_LONG''"
  by (simp add: stop_entry_decision_def lowercase_decision_def normaliseDecision_def Let_def
      toUpperCase_def upper_char_def allowed_actions_def)

section \<open>Verification: dry-run order submission\<close>

lemma ensurePairMetadata_keeps:
  "ensurePairMetadata x b = (r, bm) \<Longrightarrow>
     dryRun bm = dryRun b \<and> enforcePrecision bm = enforcePrecision b \<and> restPair bm = restPair b
     \<and> events bm = events b \<and> addOrder_calls bm = addOrder_calls b"
  by (auto simp: ensurePairMetadata_def addOrder_calls_def Let_def
      split: if_splits sum.splits option.splits prod.splits)

text \<open>
  Claim C1. With the \<open>dryRun\<close> option on, \<^verbatim>\<open>_submitOrder\<close> (and so \<^verbatim>\<open>marketBuy\<close>,
  \<^verbatim>\<open>marketSell\<close>, \<^verbatim>\<open>limitBuy\<close>, \<^verbatim>\<open>limitSell\<close>) never calls AddOrder, whatever it is
  given; every value it returns is the dry-run object carrying the constructed payload,
  the one announced in the \<open>order:submitted\<close> event; and it does return it whenever the
  order type and side are given, the pair metadata is available and the volume and
  price pass their checks (otherwise it throws, again without an AddOrder request).
\<close>

theorem dry_run_never_submits:
  "dryRun b \<longrightarrow>
     (case submitOrder x ty ot price volume params b of (res, b') \<Rightarrow>
        addOrder_calls b' = addOrder_calls b
        \<and> (\<forall>v. res = Inr v \<longrightarrow>
             (\<exists>p. v = DryRunResult p
                  \<and> build_payload (snd (ensurePairMetadata x b)) ty ot price volume params = Inr p
                  \<and> events b' = events b @ [OrderSubmitted p True]))
        \<and> (\<forall>p. ty \<noteq> [] \<and> ot \<noteq> [] \<and> fst (ensurePairMetadata x b) = None
                \<and> build_payload (snd (ensurePairMetadata x b)) ty ot price volume params = Inr p
              \<longrightarrow> res = Inr (DryRunResult p)))"
proof
  assume d: "dryRun b"
  obtain r bm where e: "ensurePairMetadata x b = (r, bm)" by (cases "ensurePairMetadata x b")
  note k = ensurePairMetadata_keeps [OF e]
  show "case submitOrder x ty ot price volume params b of (res, b') \<Rightarrow>
        addOrder_calls b' = addOrder_calls b
        \<and> (\<forall>v. res = Inr v \<longrightarrow>
             (\<exists>p. v = DryRunResult p
                  \<and> build_payload (snd (ensurePairMetadata x b)) ty ot price volume params = Inr p
                  \<and> events b' = events b @ [OrderSubmitted p True]))
        \<and> (\<forall>p. ty \<noteq> [] \<and> ot \<noteq> [] \<and> fst (ensurePairMetadata x b) = None
                \<and> build_payload (snd (ensurePairMetadata x b)) ty ot price volume params = Inr p
              \<longrightarrow> res = Inr (DryRunResult p))"
  proof (cases "ty \<noteq> [] \<and> ot \<noteq> []")
    case False
    then show ?thesis by (auto simp: submitOrder_def)
  next
    case True
    show ?thesis
    proof (cases r)
      case (Some err)
      then show ?thesis using True k by (simp add: submitOrder_def e)
    next
      case None
      show ?thesis
      proof (cases "build_payload bm ty ot price volume params")
        case (Inl err)
        then show ?thesis using True None k by (simp add: submitOrder_def e)
      next
        case (Inr p)
        then show ?thesis using True None k d by (simp add: submitOrder_def e addOrder_calls_def)
      qed
    qed
  qed
qed

lemma strip_zeros_examples:
  "strip_zeros ''123.45670000'' = ''123.4567''" "strip_zeros ''100.00000000'' = ''100''"
  "strip_zeros ''10'' = ''1''"
  by (simp_all add: strip_zeros_def)

lemma fl_example: "fl (1234567 / 10000) = Num (8687492939318611 / 70368744177664)"
  by (subst fl_eval [where k = 6]) (simp_all add: pow2_numeral rne_def Let_def)

lemma format_example: "formatWithPrecision (1234567 / 10000) 8 = ''123.4567''"
proof -
  have "formatWithPrecision (1234567 / 10000) 8
          = strip_zeros (toFixed (8687492939318611 / 70368744177664) 8)"
    unfolding formatWithPrecision_def Let_def
    by (simp add: Math_round_def fl_example toFixed_num_def)
  also have "toFixed (8687492939318611 / 70368744177664) 8 = ''123.45670000''"
    unfolding toFixed_def Let_def by (simp add: digits.simps digit_char_def)
  finally show ?thesis by (simp add: strip_zeros_def)
qed

lemma doge_cached: "ensurePairMetadata x doge_bot = (None, doge_bot)"
  by (simp add: ensurePairMetadata_def doge_bot_def doge_info_def matchesStoredPairInfo_def
      upper_opt_def toUpperCase_def upper_char_def)

lemma doge_payload:
  "build_payload doge_bot ''buy'' ''market'' None (Some (Num (1234567 / 10000))) []
     = Inr [(''pair'', PStr ''XDGUSD''), (''type'', PStr ''buy''), (''ordertype'', PStr ''market''),
            (''volume'', PStr ''123.4567'')]"
  by (simp add: build_payload_def with_volume_def with_price_def doge_bot_def doge_info_def
      initial_payload_def obj_spread_def normaliseVolume_def minimumVolume_def
      applyVolumePrecision_def volumePrecision_def format_example)

theorem dry_run_never_submits_witness:
  "dryRun doge_bot
   \<and> fst (marketBuy open_exchange (Some (Num (1234567 / 10000))) [] doge_bot)
     = Inr (DryRunResult [(''pair'', PStr ''XDGUSD''), (''type'', PStr ''buy''),
                          (''ordertype'', PStr ''market''), (''volume'', PStr ''123.4567'')])
   \<and> addOrder_calls (snd (marketBuy open_exchange (Some (Num (1234567 / 10000))) [] doge_bot)) = []"
proof -
  have d: "dryRun doge_bot" by (simp add: doge_bot_def)
  have a: "addOrder_calls doge_bot = []" by (simp add: addOrder_calls_def doge_bot_def)
  obtain res b' where r: "submitOrder open_exchange ''buy'' ''market'' None (Some (Num (1234567 / 10000))) [] doge_bot = (res, b')"
    by (cases "submitOrder open_exchange ''buy'' ''market'' None (Some (Num (1234567 / 10000))) [] doge_bot")
  from dry_run_never_submits [where b = doge_bot and x = open_exchange and ty = "''buy''" and ot = "''market''"
      and price = None and volume = "Some (Num (1234567 / 10000))" and params = "[]"] d
  have "addOrder_calls b' = addOrder_calls doge_bot"
    and "\<forall>p. build_payload doge_bot ''buy'' ''market'' None (Some (Num (1234567 / 10000))) [] = Inr p
          \<longrightarrow> res = Inr (DryRunResult p)"
    by (simp_all add: r doge_cached)
  then show ?thesis
    using d a doge_payload by (simp add: marketBuy_def r)
qed

section \<open>Verification: decimal numerals\<close>

lemma digit_char_cases: "d < 10 \<Longrightarrow> d = 0 \<or> d = 1 \<or> d = 2 \<or> d = 3 \<or> d = 4 \<or> d = 5 \<or> d = 6 \<or> d = 7 \<or> d = 8 \<or> d = (9::nat)"
  by arith

lemma upt10: "[0..<10] = [0, 1, 2, 3, 4, 5, 6, 7, 8, 9::nat]"
  by (simp add: upt_conv_Cons)

lemma digit_val_char:
  assumes "d < 10"
  shows "digit_val (digit_char d) = d"
  using digit_char_cases [OF assms] by (elim disjE) (simp_all add: digit_val_def digit_char_def upt10)

lemma digit_char_in:
  assumes "d < 10"
  shows "is_digit (digit_char d)"
  using digit_char_cases [OF assms] by (elim disjE) (simp_all add: digit_char_def is_digit_def)

lemma is_digit_zero [simp]: "is_digit (CHR ''0'')"
  by (simp add: is_digit_def)

lemma is_digit_not_point: "is_digit c \<Longrightarrow> c \<noteq> CHR ''.''"
  by (auto simp: is_digit_def)

lemma digit_val_zero [simp]: "digit_val (CHR ''0'') = 0"
  using digit_val_char [of 0] by (simp add: digit_char_def)

lemma foldl_digits: "foldl (\<lambda>a c. 10 * a + digit_val c) a ys
                      = a * 10 ^ length ys + foldl (\<lambda>a c. 10 * a + digit_val c) 0 ys"
proof (induction ys arbitrary: a)
  case Nil
  then show ?case by simp
next
  case (Cons y ys)
  show ?case
    using Cons.IH [of "10 * a + digit_val y"] Cons.IH [of "digit_val y"]
    by (simp add: algebra_simps)
qed

lemma digits_val_Nil [simp]: "digits_val [] = 0"
  by (simp add: digits_val_def)

lemma digits_val_append: "digits_val (xs @ ys) = digits_val xs * 10 ^ length ys + digits_val ys"
  using foldl_digits [of "digits_val xs" ys] by (simp add: digits_val_def)

lemma digits_val_single [simp]: "digits_val [c] = digit_val c"
  by (simp add: digits_val_def)

lemma digits_val_Cons: "digits_val (c # xs) = digit_val c * 10 ^ length xs + digits_val xs"
  using digits_val_append [of "[c]" xs] by simp

lemma digits_val_zeros [simp]: "digits_val (replicate k (CHR ''0'')) = 0"
  by (induction k) (simp_all add: digits_val_Cons)

lemma digits_val_digits: "digits_val (digits n) = n"
proof (induction n rule: digits.induct)
  case (1 n)
  show ?case
  proof (cases "n < 10")
    case True
    then show ?thesis by (simp add: digits.simps [of n] digit_val_char)
  next
    case False
    from 1 [OF False] show ?thesis
      using False by (simp add: digits.simps [of n] digits_val_append digit_val_char)
  qed
qed

lemma is_digits_digits: "is_digits (digits n)"
proof (induction n rule: digits.induct)
  case (1 n)
  show ?case
  proof (cases "n < 10")
    case True
    then show ?thesis using digit_char_in [of n] by (simp add: digits.simps [of n] is_digits_def)
  next
    case False
    from 1 [OF False] show ?thesis
      using False digit_char_in [of "n mod 10"] by (simp add: digits.simps [of n] is_digits_def)
  qed
qed

lemma is_digits_append [simp]: "is_digits (xs @ ys) = (is_digits xs \<and> is_digits ys)"
  by (auto simp: is_digits_def)

lemma is_digits_zeros [simp]: "is_digits (replicate k (CHR ''0''))"
  by (simp add: is_digits_def)

lemma is_digits_take: "is_digits s \<Longrightarrow> is_digits (take k s)"
  unfolding is_digits_def using set_take_subset [of k s] by blast

lemma is_digits_drop: "is_digits s \<Longrightarrow> is_digits (drop k s)"
  unfolding is_digits_def using set_drop_subset [of k s] by blast

lemma is_digits_no_point: "is_digits s \<Longrightarrow> \<forall>c \<in> set s. c \<noteq> CHR ''.''"
  unfolding is_digits_def using is_digit_not_point by blast

lemma takeWhile_point: "is_digits w \<Longrightarrow> takeWhile (\<lambda>c. c \<noteq> CHR ''.'') (w @ CHR ''.'' # fr) = w"
  using is_digits_no_point [of w] by (simp add: takeWhile_append1 takeWhile_tail)

lemma decimal_value_point:
  "is_digits w \<Longrightarrow> decimal_value (w @ CHR ''.'' # fr) = real (digits_val w) + real (digits_val fr) / 10 ^ length fr"
  by (simp add: decimal_value_def takeWhile_point)

lemma fraction_digits_point: "is_digits w \<Longrightarrow> fraction_digits (w @ CHR ''.'' # fr) = length fr"
  by (simp add: fraction_digits_def takeWhile_point)

lemma takeWhile_whole: "is_digits w \<Longrightarrow> takeWhile (\<lambda>c. c \<noteq> CHR ''.'') w = w"
  using is_digits_no_point [of w] by (intro takeWhile_eq_all_conv [THEN iffD2]) simp

lemma decimal_value_whole: "is_digits w \<Longrightarrow> decimal_value w = real (digits_val w)"
  unfolding decimal_value_def Let_def by (simp only: takeWhile_whole) simp

lemma fraction_digits_whole: "is_digits w \<Longrightarrow> fraction_digits w = 0"
  unfolding fraction_digits_def by (simp only: takeWhile_whole) simp

lemma toFixed_shape:
  assumes "0 \<le> x" and "1 \<le> f"
  shows "\<exists>w fr. toFixed x f = w @ CHR ''.'' # fr \<and> is_digits w \<and> is_digits fr \<and> length fr = f
               \<and> digits_val (w @ fr) = nat \<lfloor>x * 10 ^ f + 1 / 2\<rfloor>"
proof -
  define n where "n = nat \<lfloor>\<bar>x\<bar> * 10 ^ f + 1 / 2\<rfloor>"
  define m where "m = digits n"
  define m' where "m' = (if f \<noteq> 0 \<and> length m \<le> f then replicate (f + 1 - length m) (CHR ''0'') @ m else m)"
  have k: "f < length m'" using assms(2) by (simp add: m'_def)
  have d: "is_digits m'" by (simp add: m'_def m_def is_digits_digits)
  have v: "digits_val m' = n"
    by (simp add: m'_def m_def digits_val_append digits_val_digits)
  have t: "toFixed x f = take (length m' - f) m' @ CHR ''.'' # drop (length m' - f) m'"
    using assms unfolding toFixed_def Let_def n_def [symmetric] m_def [symmetric] m'_def [symmetric]
    by simp
  have "length (drop (length m' - f) m') = f" using k by simp
  moreover have "digits_val (take (length m' - f) m' @ drop (length m' - f) m') = nat \<lfloor>x * 10 ^ f + 1 / 2\<rfloor>"
    using v assms(1) by (simp add: n_def)
  ultimately show ?thesis
    using t is_digits_take [OF d] is_digits_drop [OF d] by blast
qed

lemma trailing_zeros:
  "\<exists>fr' j. fr = fr' @ replicate j (CHR ''0'') \<and> (fr' = [] \<or> last fr' \<noteq> CHR ''0'')"
proof (induction fr rule: rev_induct)
  case Nil
  show ?case by (rule exI [of _ "[]"], rule exI [of _ 0]) simp
next
  case (snoc c fr)
  then obtain fr' j where f: "fr = fr' @ replicate j (CHR ''0'')" "fr' = [] \<or> last fr' \<noteq> CHR ''0''"
    by blast
  show ?case
  proof (cases "c = CHR ''0''")
    case True
    have "fr @ [c] = fr' @ replicate (Suc j) (CHR ''0'')"
      using f(1) True by (simp add: replicate_append_same)
    then show ?thesis using f(2) by blast
  next
    case False
    have "fr @ [c] = (fr @ [c]) @ replicate 0 (CHR ''0'')" by simp
    moreover have "last (fr @ [c]) \<noteq> CHR ''0''" using False by simp
    ultimately show ?thesis by blast
  qed
qed

lemma dropWhile_zeros:
  "dropWhile (\<lambda>c. c = CHR ''0'') (replicate j (CHR ''0'') @ t) = dropWhile (\<lambda>c. c = CHR ''0'') t"
  by (induction j) simp_all

lemma strip_zeros_point:
  assumes w: "is_digits w" and fr: "is_digits fr'" and l: "fr' = [] \<or> last fr' \<noteq> CHR ''0''"
  shows "strip_zeros (w @ CHR ''.'' # fr' @ replicate j (CHR ''0''))
           = (if j = 0 then w @ CHR ''.'' # fr' else if fr' = [] then w else w @ CHR ''.'' # fr')"
proof -
  let ?s = "w @ CHR ''.'' # fr' @ replicate j (CHR ''0'')"
  let ?P = "\<lambda>c. c = CHR ''0''"
  have r: "rev ?s = replicate j (CHR ''0'') @ rev fr' @ CHR ''.'' # rev w" by simp
  have d: "dropWhile ?P (rev fr' @ CHR ''.'' # rev w) = rev fr' @ CHR ''.'' # rev w"
  proof (cases "fr' = []")
    case True
    then show ?thesis by simp
  next
    case False
    then have e: "rev fr' = last fr' # rev (butlast fr')"
      by (metis append_butlast_last_id rev.simps(2) rev_append rev_rev_ident append_Cons append_Nil)
    have "dropWhile ?P (last fr' # (rev (butlast fr') @ CHR ''.'' # rev w))
            = last fr' # (rev (butlast fr') @ CHR ''.'' # rev w)"
      using l False by simp
    then show ?thesis by (simp only: e append_Cons)
  qed
  have dw: "dropWhile ?P (rev ?s) = rev fr' @ CHR ''.'' # rev w"
    unfolding r by (simp only: dropWhile_zeros d)
  show ?thesis
  proof (cases "j = 0")
    case True
    then show ?thesis unfolding strip_zeros_def Let_def dw by simp
  next
    case j: False
    show ?thesis
    proof (cases "fr' = []")
      case True
      then show ?thesis using j unfolding strip_zeros_def Let_def dw by simp
    next
      case False
      then have h: "rev fr' = last fr' # rev (butlast fr')"
        by (metis append_butlast_last_id rev.simps(2) rev_append rev_rev_ident append_Cons append_Nil)
      have "is_digit (last fr')" using fr False unfolding is_digits_def by simp
      then have np: "last fr' \<noteq> CHR ''.''" by (rule is_digit_not_point)
      have c: "(case rev fr' @ CHR ''.'' # rev w of [] \<Rightarrow> rev fr' @ CHR ''.'' # rev w
                     | c # r' \<Rightarrow> if c = CHR ''.'' then r' else rev fr' @ CHR ''.'' # rev w)
                  = rev fr' @ CHR ''.'' # rev w"
        unfolding h using np by simp
      show ?thesis using j False unfolding strip_zeros_def Let_def dw c by simp
    qed
  qed
qed

lemma strip_zeros_value:
  assumes w: "is_digits w" and fr: "is_digits fr"
  shows "decimal_value (strip_zeros (w @ CHR ''.'' # fr)) = decimal_value (w @ CHR ''.'' # fr)"
    and "fraction_digits (strip_zeros (w @ CHR ''.'' # fr)) \<le> length fr"
proof -
  obtain fr' j where f: "fr = fr' @ replicate j (CHR ''0'')" "fr' = [] \<or> last fr' \<noteq> CHR ''0''"
    using trailing_zeros by blast
  have d': "is_digits fr'" using fr f(1) by simp
  note s = strip_zeros_point [OF w d' f(2), of j]
  have v: "decimal_value (w @ CHR ''.'' # fr)
             = real (digits_val w) + real (digits_val fr') / 10 ^ length fr'"
    by (simp add: decimal_value_point [OF w] f(1) digits_val_append power_add)
  show "decimal_value (strip_zeros (w @ CHR ''.'' # fr)) = decimal_value (w @ CHR ''.'' # fr)"
    unfolding v unfolding f(1) s
    by (simp add: decimal_value_point [OF w] decimal_value_whole [OF w])
  show "fraction_digits (strip_zeros (w @ CHR ''.'' # fr)) \<le> length fr"
    unfolding f(1) s by (simp add: fraction_digits_point [OF w] fraction_digits_whole [OF w])
qed

lemma format_value:
  assumes "0 \<le> x" and "1 \<le> f"
  shows "decimal_value (strip_zeros (toFixed x f)) = real (nat \<lfloor>x * 10 ^ f + 1 / 2\<rfloor>) / 10 ^ f"
    and "fraction_digits (strip_zeros (toFixed x f)) \<le> f"
proof -
  obtain w fr where t: "toFixed x f = w @ CHR ''.'' # fr" "is_digits w" "is_digits fr" "length fr = f"
      "digits_val (w @ fr) = nat \<lfloor>x * 10 ^ f + 1 / 2\<rfloor>"
    using toFixed_shape [OF assms] by blast
  have "decimal_value (w @ CHR ''.'' # fr) = real (digits_val (w @ fr)) / 10 ^ f"
    by (simp add: decimal_value_point [OF t(2)] digits_val_append t(4) add_divide_distrib)
  then show "decimal_value (strip_zeros (toFixed x f)) = real (nat \<lfloor>x * 10 ^ f + 1 / 2\<rfloor>) / 10 ^ f"
    by (simp add: t(1) strip_zeros_value(1) [OF t(2,3)] t(5))
  show "fraction_digits (strip_zeros (toFixed x f)) \<le> f"
    using strip_zeros_value(2) [OF t(2,3)] by (simp add: t(1) t(4))
qed

lemma pow10_exact:
  assumes "d \<le> 22"
  shows "fl (10 ^ d) = Num (10 ^ d)"
proof -
  have "(5::int) ^ d \<le> 5 ^ 22" using assms by (intro power_increasing) simp_all
  also have "\<dots> < 2 ^ 53" by simp
  finally have m: "\<bar>(5::int) ^ d\<bar> < 2 ^ 53" by simp
  have e: "(10::real) ^ d = of_int (5 ^ d) * pow2 (int d)"
    using power_mult_distrib [of "5::real" 2 d] by (simp add: pow2_nat)
  have "\<bar>real_of_int (5 ^ d) * pow2 (int d)\<bar> = real_of_int (5 ^ d) * pow2 (int d)" by simp
  also have "\<dots> < 2 ^ 53 * pow2 (int d)"
    using m by (intro mult_strict_right_mono) (simp_all del: of_int_power)
  also have "\<dots> = pow2 (53 + int d)" by (simp only: pow2_add) (simp add: pow2_numeral)
  also have "\<dots> < pow2 1024" using assms by simp
  finally have b: "\<bar>real_of_int (5 ^ d) * pow2 (int d)\<bar> < pow2 1024" .
  from fl_exact [OF m _ b] show ?thesis by (simp add: e)
qed

lemma small_is_finite: "\<bar>x\<bar> \<le> 2 ^ 60 \<Longrightarrow> fl x = Num (fl_value x)"
proof -
  assume "\<bar>x\<bar> \<le> 2 ^ 60"
  also have "(2::real) ^ 60 = pow2 60" by (simp add: pow2_numeral)
  also have "pow2 60 \<le> pow2 1023" by simp
  finally show ?thesis by (rule fl_finite)
qed

lemma tiny_bound: "pow2 (- 1075) \<le> 1 / 8"
proof -
  have "pow2 (- 1075) \<le> pow2 (- 3)" by simp
  then show ?thesis by (simp add: pow2_numeral)
qed

lemma normal_bound: "1 \<le> m \<Longrightarrow> d \<le> 22 \<Longrightarrow> pow2 (- 1022) \<le> \<bar>real_of_int m / 10 ^ d\<bar>"
proof -
  assume m: "1 \<le> m" and d: "d \<le> 22"
  have "(10::real) ^ d \<le> 10 ^ 22" using d by (intro power_increasing) simp_all
  also have "\<dots> \<le> 2 ^ 74" by simp
  also have "\<dots> = pow2 74" by (simp add: pow2_numeral)
  finally have "1 / pow2 74 \<le> 1 / (10::real) ^ d" by (intro divide_left_mono) simp_all
  moreover have "pow2 (- 1022) \<le> pow2 (- 74)" by simp
  moreover have "pow2 (- 74) = 1 / pow2 74" using pow2_diff [of 0 74] by simp
  moreover have "1 / (10::real) ^ d \<le> real_of_int m / 10 ^ d" using m by (intro divide_right_mono) simp_all
  ultimately have "pow2 (- 1022) \<le> real_of_int m / 10 ^ d" by linarith
  moreover have "\<bar>real_of_int m / 10 ^ d\<bar> = real_of_int m / 10 ^ d" using m by simp
  ultimately show ?thesis by (simp only:)
qed

lemma quotient_digits:
  assumes m: "0 \<le> m" "m \<le> 2 ^ 50" and d: "d \<le> 22"
  shows "fl_value (real_of_int m / 10 ^ d) \<ge> 0"
    and "\<lfloor>fl_value (real_of_int m / 10 ^ d) * 10 ^ d + 1 / 2\<rfloor> = m"
proof -
  let ?z = "fl_value (real_of_int m / 10 ^ d)"
  show z: "0 \<le> ?z" using m(1) by (intro fl_value_nonneg) simp
  show "\<lfloor>?z * 10 ^ d + 1 / 2\<rfloor> = m"
  proof (cases "m = 0")
    case True
    then show ?thesis by simp
  next
    case False
    then have m1: "1 \<le> m" using m(1) by simp
    from fl_value_rel_error [OF normal_bound [OF m1 d]]
    have "\<bar>?z - real_of_int m / 10 ^ d\<bar> \<le> (real_of_int m / 10 ^ d) / 2 ^ 53" using m(1) by simp
    then have "\<bar>?z - real_of_int m / 10 ^ d\<bar> * 10 ^ d \<le> (real_of_int m / 10 ^ d) / 2 ^ 53 * 10 ^ d"
      by (intro mult_right_mono) simp_all
    moreover have "\<bar>?z - real_of_int m / 10 ^ d\<bar> * 10 ^ d = \<bar>?z * 10 ^ d - real_of_int m\<bar>"
    proof -
      have "?z * 10 ^ d - real_of_int m = (?z - real_of_int m / 10 ^ d) * 10 ^ d"
        by (simp add: left_diff_distrib)
      then show ?thesis by (simp only: abs_mult) simp
    qed
    moreover have "(real_of_int m / 10 ^ d) / 2 ^ 53 * 10 ^ d = real_of_int m / 2 ^ 53" by simp
    moreover have "real_of_int m / 2 ^ 53 \<le> 2 ^ 50 / 2 ^ 53"
      using m(2) by (intro divide_right_mono) (simp_all add: of_int_le_numeral_power_cancel_iff)
    ultimately have "\<bar>?z * 10 ^ d - real_of_int m\<bar> \<le> 1 / 8" by simp
    then show ?thesis by linarith
  qed
qed

lemma format_rounds:
  assumes q: "0 < q" and d: "1 \<le> d" "d \<le> 22" and r: "q * 10 ^ d < 10 ^ 15"
  shows "\<exists>y. fmul (Num q) (Num (10 ^ d)) = Num y
             \<and> \<bar>y - q * 10 ^ d\<bar> \<le> q * 10 ^ d / 2 ^ 53 + pow2 (- 1075)
             \<and> decimal_value (formatWithPrecision q d) = real_of_int (Math_round y) / 10 ^ d
             \<and> fraction_digits (formatWithPrecision q d) \<le> d"
proof -
  let ?x = "q * 10 ^ d"
  let ?y = "fl_value ?x"
  let ?m = "Math_round ?y"
  let ?z = "fl_value (real_of_int ?m / 10 ^ d)"
  have x: "0 < ?x" using q by simp
  have fx: "fl ?x = Num ?y" using x r by (intro small_is_finite) simp
  have e: "\<bar>?y - ?x\<bar> \<le> ?x / 2 ^ 53 + pow2 (- 1075)"
    using fl_value_abs_error [of ?x] x by simp
  have y0: "0 \<le> ?y" using x by (intro fl_value_nonneg) simp
  have "?x / 2 ^ 53 \<le> 10 ^ 15 / 2 ^ 53" using r by (intro divide_right_mono) simp_all
  then have "?x / 2 ^ 53 \<le> 1 / 8" by simp
  then have y1: "?y \<le> 10 ^ 15 + 1 / 4" using e r tiny_bound by linarith
  have m0: "0 \<le> ?m" using y0 unfolding Math_round_def by linarith
  have "?y \<le> 1000000000000000 + 1 / 4" using y1 by simp
  then have "?m \<le> 1000000000000001" unfolding Math_round_def by linarith
  then have m1: "?m \<le> 2 ^ 50" by simp
  have "\<bar>real_of_int ?m / 10 ^ d\<bar> \<le> real_of_int ?m"
  proof -
    have "real_of_int ?m / 10 ^ d \<le> real_of_int ?m / 1"
      using m0 by (intro divide_left_mono) simp_all
    then show ?thesis using m0 by simp
  qed
  also have "\<dots> \<le> 2 ^ 60" using m1 by (simp add: of_int_le_numeral_power_cancel_iff)
  finally have fz: "fl (real_of_int ?m / 10 ^ d) = Num ?z" by (rule small_is_finite)
  note qd = quotient_digits [OF m0 m1 d(2)]
  have f: "formatWithPrecision q d = strip_zeros (toFixed ?z d)"
    unfolding formatWithPrecision_def Let_def
    by (simp add: pow10_exact [OF d(2)] fx fz toFixed_num_def)
  have "decimal_value (formatWithPrecision q d) = real_of_int ?m / 10 ^ d"
    using format_value(1) [OF qd(1) d(1)] m0 by (simp add: f qd(2))
  moreover have "fraction_digits (formatWithPrecision q d) \<le> d"
    using format_value(2) [OF qd(1) d(1)] by (simp add: f)
  moreover have "fmul (Num q) (Num (10 ^ d)) = Num ?y" using fx by simp
  ultimately show ?thesis using e by blast
qed

section \<open>Verification: sizing an order\<close>

text \<open>
  Two computations in which the rounding of doubles decides the outcome. The double
  nearest to 2.675 is below it, yet its product with 100 rounds to 267.5, so two decimals
  print 2.68. With the default trade cap of 0.75 percent, a balance of 2716 and a price of
  20.37 (as a double) give a volume of exactly 1.
\<close>

lemma double_examples:
  "fl (2675 / 1000) = Num (3011782250804019 / 1125899906842624)"
  "fmul (Num (3011782250804019 / 1125899906842624)) (Num 100) = Num (535 / 2)"
  "formatWithPrecision (3011782250804019 / 1125899906842624) 2 = ''2.68''"
  "fl (2037 / 100) = Num (5733645275596063 / 281474976710656)"
  "fdiv (fmul (Num 2716) (fdiv (Num (maxTradeRiskPct default_riskConfig)) (Num 100)))
        (Num (5733645275596063 / 281474976710656)) = Num 1"
proof -
  show a: "fl (2675 / 1000) = Num (3011782250804019 / 1125899906842624)"
    by (subst fl_eval [where k = 1]) (simp_all add: pow2_numeral rne_def Let_def)
  show b: "fmul (Num (3011782250804019 / 1125899906842624)) (Num 100) = Num (535 / 2)"
    by simp (subst fl_eval [where k = 8], simp_all add: pow2_numeral rne_def Let_def)
  have c: "fl (67 / 25) = Num (6034823500676465 / 2251799813685248)"
    by (subst fl_eval [where k = 1]) (simp_all add: pow2_numeral rne_def Let_def)
  have "formatWithPrecision (3011782250804019 / 1125899906842624) 2
          = strip_zeros (toFixed (6034823500676465 / 2251799813685248) 2)"
    unfolding formatWithPrecision_def Let_def
    using b by (simp add: Math_round_def toFixed_num_def c)
  also have "toFixed (6034823500676465 / 2251799813685248) 2 = ''2.68''"
    unfolding toFixed_def Let_def by (simp add: digits.simps digit_char_def)
  finally show "formatWithPrecision (3011782250804019 / 1125899906842624) 2 = ''2.68''"
    by (simp add: strip_zeros_def)
  show d: "fl (2037 / 100) = Num (5733645275596063 / 281474976710656)"
    by (subst fl_eval [where k = 4]) (simp_all add: pow2_numeral rne_def Let_def)
  have e: "fl (3 / 400) = Num (1080863910568919 / 144115188075855872)"
    by (subst fl_eval [where k = "- 8"]) (simp_all add: pow2_numeral rne_def Let_def)
  have f: "fl (2716 * (1080863910568919 / 144115188075855872)) = Num (5733645275596063 / 281474976710656)"
    by (subst fl_eval [where k = 4]) (simp_all add: pow2_numeral rne_def Let_def)
  show "fdiv (fmul (Num 2716) (fdiv (Num (maxTradeRiskPct default_riskConfig)) (Num 100)))
        (Num (5733645275596063 / 281474976710656)) = Num 1"
    using f by (simp add: default_riskConfig_def e)
qed

lemma loadBalances_riskCfg: "loadBalances x force now e b = (bal, e1, b2) \<Longrightarrow> riskCfg e1 = riskCfg e"
  by (auto simp: loadBalances_def Let_def split: option.splits sum.splits if_splits)

lemma openLong_sizing:
  "ensureTicker x close5m b = (Some lastTrade, b1)
      \<and> sizePct_of (riskCfg e) sizePctN = s \<and> s > 0
      \<and> deriveEntryPrice b1 lastTrade ent = EntryNum (Num price) \<and> price > 0
      \<and> loadBalances x False now e b1 = (bal, e1, b2) \<and> quote bal > 0
    \<longrightarrow> openLong x sizePctN ent close5m is_add now now' (e, b) =
        (case Math_min (fmul (Num (quote bal)) (fdiv (Num (maxTradeRiskPct (riskCfg e))) (Num 100)))
                       (fmul (Num (quote bal)) (fdiv (Num s) (Num 100))) of
           Num notional \<Rightarrow>
             if notional < minNotional (riskCfg e) then (ExecError ''Notional below minimum'', e1, b2)
             else (case fdiv (Num notional) (Num price) of
                     Num quantity \<Rightarrow>
                       if quantity \<le> 0 then (ExecError ''Invalid quantity'', e1, b2)
                       else (case place_buy x ent price quantity b2 of (response, b3) \<Rightarrow>
                               (case settle_buy response quantity price is_add now' e1 of
                                  (res, e2) \<Rightarrow> (res, e2, b3)))
                   | _ \<Rightarrow> (ExecError ''Invalid quantity'', e1, b2))
         | _ \<Rightarrow> (ExecError ''Notional below minimum'', e1, b2))"
proof (intro impI, elim conjE)
  assume t: "ensureTicker x close5m b = (Some lastTrade, b1)"
    and s: "sizePct_of (riskCfg e) sizePctN = s" "s > 0"
    and p: "deriveEntryPrice b1 lastTrade ent = EntryNum (Num price)" "price > 0"
    and l: "loadBalances x False now e b1 = (bal, e1, b2)" "quote bal > 0"
  have r: "riskCfg e1 = riskCfg e" using l(1) by (rule loadBalances_riskCfg)
  have c: "computeNotional (riskCfg e) (quote bal) s
            = Some (Math_min (fmul (Num (quote bal)) (fdiv (Num (maxTradeRiskPct (riskCfg e))) (Num 100)))
                             (fmul (Num (quote bal)) (fdiv (Num s) (Num 100))))"
    using l(2) by (simp add: computeNotional_def Let_def)
  show "openLong x sizePctN ent close5m is_add now now' (e, b) =
        (case Math_min (fmul (Num (quote bal)) (fdiv (Num (maxTradeRiskPct (riskCfg e))) (Num 100)))
                       (fmul (Num (quote bal)) (fdiv (Num s) (Num 100))) of
           Num notional \<Rightarrow>
             if notional < minNotional (riskCfg e) then (ExecError ''Notional below minimum'', e1, b2)
             else (case fdiv (Num notional) (Num price) of
                     Num quantity \<Rightarrow>
                       if quantity \<le> 0 then (ExecError ''Invalid quantity'', e1, b2)
                       else (case place_buy x ent price quantity b2 of (response, b3) \<Rightarrow>
                               (case settle_buy response quantity price is_add now' e1 of
                                  (res, e2) \<Rightarrow> (res, e2, b3)))
                   | _ \<Rightarrow> (ExecError ''Invalid quantity'', e1, b2))
         | _ \<Rightarrow> (ExecError ''Notional below minimum'', e1, b2))"
    using s(2) p(2)
    by (simp add: openLong_def t s(1) p(1) l(1) r c Let_def split: jsnum.splits)
qed

lemma normaliseVolume_below:
  "0 < q \<and> enforcePrecision bm \<and> 0 < minimumVolume bm \<and> q < minimumVolume bm
    \<longrightarrow> normaliseVolume bm (Num q) = Inl (VolumeBelowMinimum q (minimumVolume bm))"
  by (simp add: normaliseVolume_def)

lemma normaliseVolume_accepted:
  "0 < q \<and> enforcePrecision bm \<and> \<not> (0 < minimumVolume bm \<and> q < minimumVolume bm)
    \<longrightarrow> (\<exists>s. normaliseVolume bm (Num q) = Inr (PStr s))"
  by (auto simp: normaliseVolume_def applyVolumePrecision_def)

lemma normaliseVolume_rounds:
  "0 < q \<and> enforcePrecision bm \<and> \<not> (0 < minimumVolume bm \<and> q < minimumVolume bm)
      \<and> 1 \<le> volumePrecision bm \<and> volumePrecision bm \<le> 22
      \<and> q * 10 ^ volumePrecision bm < 10 ^ 15
    \<longrightarrow> (\<exists>s y. normaliseVolume bm (Num q) = Inr (PStr s)
              \<and> fmul (Num q) (Num (10 ^ volumePrecision bm)) = Num y
              \<and> \<bar>y - q * 10 ^ volumePrecision bm\<bar>
                  \<le> q * 10 ^ volumePrecision bm / 2 ^ 53 + pow2 (- 1075)
              \<and> decimal_value s = real_of_int (Math_round y) / 10 ^ volumePrecision bm
              \<and> fraction_digits s \<le> volumePrecision bm)"
proof (intro impI, elim conjE)
  assume q: "0 < q" and e: "enforcePrecision bm"
    and m: "\<not> (0 < minimumVolume bm \<and> q < minimumVolume bm)"
    and d: "1 \<le> volumePrecision bm" "volumePrecision bm \<le> 22"
    and r: "q * 10 ^ volumePrecision bm < 10 ^ 15"
  have n: "normaliseVolume bm (Num q) = Inr (PStr (formatWithPrecision q (volumePrecision bm)))"
    using q e m by (auto simp: normaliseVolume_def applyVolumePrecision_def)
  from format_rounds [OF q d r] n
  show "\<exists>s y. normaliseVolume bm (Num q) = Inr (PStr s)
              \<and> fmul (Num q) (Num (10 ^ volumePrecision bm)) = Num y
              \<and> \<bar>y - q * 10 ^ volumePrecision bm\<bar>
                  \<le> q * 10 ^ volumePrecision bm / 2 ^ 53 + pow2 (- 1075)
              \<and> decimal_value s = real_of_int (Math_round y) / 10 ^ volumePrecision bm
              \<and> fraction_digits s \<le> volumePrecision bm"
    by blast
qed

lemma normaliseVolume_unenforced:
  "0 < q \<and> \<not> enforcePrecision bm \<longrightarrow> normaliseVolume bm (Num q) = Inr (PNum q)"
  by (simp add: normaliseVolume_def)

lemma obj_get_set_same: "obj_get (obj_set p k v) k = Some v"
  by (induction p) (auto simp: obj_get_def)

lemma obj_get_set_other: "k' \<noteq> k \<Longrightarrow> obj_get (obj_set p k' v) k = obj_get p k"
  by (induction p) (auto simp: obj_get_def)

lemma normalisePrice_positive: "0 < price \<Longrightarrow> \<exists>np. normalisePrice b (Num price) = Inr np"
  by (simp add: normalisePrice_def)

lemma build_payload_volume_error:
  "normaliseVolume bm v = Inl err \<Longrightarrow> build_payload bm ty ot pr (Some v) params = Inl err"
  by (simp add: build_payload_def with_volume_def)

lemma build_payload_volume_ok:
  assumes "normaliseVolume bm v = Inr nv" and "pr = None \<or> (\<exists>price. pr = Some (Num price) \<and> 0 < price)"
  shows "\<exists>p. build_payload bm ty ot pr (Some v) params = Inr p \<and> obj_get p ''volume'' = Some nv"
proof (cases pr)
  case None
  then show ?thesis using assms(1)
    by (simp add: build_payload_def with_volume_def with_price_def obj_get_set_same)
next
  case (Some a)
  then obtain price where a: "a = Num price" "0 < price" using assms(2) by auto
  obtain np where np: "normalisePrice bm (Num price) = Inr np"
    using normalisePrice_positive [OF a(2)] by blast
  show ?thesis using assms(1) Some a np
    by (simp add: build_payload_def with_volume_def with_price_def obj_get_set_same obj_get_set_other)
qed

lemma place_buy_submit:
  "place_buy x ent price q b = submitOrder x ''buy''
     (if (case ent of Some en \<Rightarrow> e_type en = ''limit'' | None \<Rightarrow> False) then ''limit'' else ''market'')
     (if (case ent of Some en \<Rightarrow> e_type en = ''limit'' | None \<Rightarrow> False) then Some (Num price) else None)
     (Some (Num q))
     (if (case ent of Some en \<Rightarrow> e_type en = ''limit'' | None \<Rightarrow> False) then [(''timeinforce'', PStr ''GTC'')] else [])
     b"
  by (simp add: place_buy_def limitBuy_def marketBuy_def)

lemma place_buy_rejected:
  "ensurePairMetadata x b2 = (None, bm) \<and> normaliseVolume bm (Num q) = Inl err
    \<longrightarrow> fst (place_buy x ent price q b2) = Inl err
        \<and> addOrder_calls (snd (place_buy x ent price q b2)) = addOrder_calls b2"
proof (intro impI, elim conjE)
  assume e: "ensurePairMetadata x b2 = (None, bm)" and n: "normaliseVolume bm (Num q) = Inl err"
  note k = ensurePairMetadata_keeps [OF e]
  show "fst (place_buy x ent price q b2) = Inl err
        \<and> addOrder_calls (snd (place_buy x ent price q b2)) = addOrder_calls b2"
    using k by (simp add: place_buy_submit submitOrder_def e build_payload_volume_error [OF n])
qed

lemma place_buy_accepted:
  "ensurePairMetadata x b2 = (None, bm) \<and> normaliseVolume bm (Num q) = Inr nv \<and> 0 < price
    \<longrightarrow> (\<exists>p. obj_get p ''volume'' = Some nv
             \<and> (if dryRun b2 then fst (place_buy x ent price q b2) = Inr (DryRunResult p)
                 else rest_log (snd (place_buy x ent price q b2)) = rest_log bm @ [AddOrder p]))"
proof (intro impI, elim conjE)
  assume e: "ensurePairMetadata x b2 = (None, bm)" and n: "normaliseVolume bm (Num q) = Inr nv"
    and pp: "0 < price"
  note k = ensurePairMetadata_keeps [OF e]
  let ?lim = "(case ent of Some en \<Rightarrow> e_type en = ''limit'' | None \<Rightarrow> False)"
  let ?ot = "if ?lim then ''limit'' else ''market''"
  let ?pr = "if ?lim then Some (Num price) else None"
  let ?params = "if ?lim then [(''timeinforce'', PStr ''GTC'')] else []"
  have "?pr = None \<or> (\<exists>price. ?pr = Some (Num price) \<and> 0 < price)" using pp by simp
  from build_payload_volume_ok [OF n this, of "''buy''" ?ot ?params]
  obtain p where p: "build_payload bm ''buy'' ?ot ?pr (Some (Num q)) ?params = Inr p"
      "obj_get p ''volume'' = Some nv"
    by blast
  have o: "?ot \<noteq> []" by simp
  have "if dryRun b2 then fst (place_buy x ent price q b2) = Inr (DryRunResult p)
        else rest_log (snd (place_buy x ent price q b2)) = rest_log bm @ [AddOrder p]"
    using k o unfolding place_buy_submit
    by (simp add: submitOrder_def e p(1) Let_def split: sum.splits)
  then show "\<exists>p. obj_get p ''volume'' = Some nv
             \<and> (if dryRun b2 then fst (place_buy x ent price q b2) = Inr (DryRunResult p)
                 else rest_log (snd (place_buy x ent price q b2)) = rest_log bm @ [AddOrder p])"
    using p(2) by blast
qed


lemma coarse_cached:
  "ensurePairMetadata x (coarse_bot\<lparr>enforcePrecision := ep, rest_log := l\<rparr>)
     = (None, coarse_bot\<lparr>enforcePrecision := ep, rest_log := l\<rparr>)"
  by (simp add: ensurePairMetadata_def coarse_bot_def coarse_info_def matchesStoredPairInfo_def
      upper_opt_def toUpperCase_def upper_char_def)

lemma fl_examples:
  "fl (1 / 2) = Num (1 / 2)" "fl (3 / 2) = Num (3 / 2)"
  "fl (31 / 32) = Num (31 / 32)" "fl (47 / 32) = Num (47 / 32)"
  "fl (155 / 16) = Num (155 / 16)" "fl (235 / 16) = Num (235 / 16)"
  using fl_dyadic [of 1 1] fl_dyadic [of 3 1] fl_dyadic [of 31 5] fl_dyadic [of 47 5]
    fl_dyadic [of 155 4] fl_dyadic [of 235 4]
  by simp_all

lemma coarse_limits:
  "volumePrecision (coarse_bot\<lparr>enforcePrecision := ep, rest_log := l\<rparr>) = 1"
  "minimumVolume (coarse_bot\<lparr>enforcePrecision := ep, rest_log := l\<rparr>) = 1"
  by (simp_all add: volumePrecision_def minimumVolume_def coarse_bot_def coarse_info_def)

lemma coarse_format:
  "formatWithPrecision (31 / 32) (Suc 0) = ''1''" "formatWithPrecision (47 / 32) (Suc 0) = ''1.5''"
  "formatWithPrecision 1 (Suc 0) = ''1''"
proof -
  have t: "toFixed 1 (Suc 0) = ''1.0''" "toFixed (3 / 2) (Suc 0) = ''1.5''"
    unfolding toFixed_def Let_def by (simp_all add: digits.simps digit_char_def)
  show "formatWithPrecision (31 / 32) (Suc 0) = ''1''" "formatWithPrecision (47 / 32) (Suc 0) = ''1.5''"
    "formatWithPrecision 1 (Suc 0) = ''1''"
    unfolding formatWithPrecision_def Let_def
    by (simp_all add: fl_examples Math_round_def toFixed_num_def t strip_zeros_def)
qed

lemma coarse_volumes:
  "normaliseVolume (coarse_bot\<lparr>enforcePrecision := True, rest_log := l\<rparr>) (Num (31 / 32))
     = Inl (VolumeBelowMinimum (31 / 32) 1)"
  "normaliseVolume (coarse_bot\<lparr>enforcePrecision := True, rest_log := l\<rparr>) (Num (47 / 32))
     = Inr (PStr ''1.5'')"
  "normaliseVolume (coarse_bot\<lparr>enforcePrecision := False, rest_log := l\<rparr>) (Num (31 / 32))
     = Inr (PNum (31 / 32))"
  "normaliseVolume (coarse_bot\<lparr>enforcePrecision := True, rest_log := l\<rparr>) (Num 1)
     = Inr (PStr ''1'')"
  by (simp_all add: normaliseVolume_def applyVolumePrecision_def coarse_limits coarse_format)

lemma coarse_balances:
  "loadBalances (exchange_with bal) False 1000 (ExecutionEngine_new half_risk)
       (coarse_bot\<lparr>enforcePrecision := ep\<rparr>)
     = (\<lparr>quote = bal, base = 0\<rparr>,
        (ExecutionEngine_new half_risk)
          \<lparr>dailyStartingBalance := Some bal, lastBalances := Some \<lparr>quote = bal, base = 0\<rparr>,
           lastBalanceTs := 1000\<rparr>,
        coarse_bot\<lparr>enforcePrecision := ep, rest_log := [GetBalances]\<rparr>)"
  by (simp add: loadBalances_def ExecutionEngine_new_def exchange_with_def coarse_bot_def Let_def)

lemma coarse_payload:
  "build_payload (coarse_bot\<lparr>enforcePrecision := ep, rest_log := l\<rparr>) ''buy'' ''market'' None (Some (Num q)) []
     = (case normaliseVolume (coarse_bot\<lparr>enforcePrecision := ep, rest_log := l\<rparr>) (Num q) of
          Inl err \<Rightarrow> Inl err
        | Inr nv \<Rightarrow> Inr [(''pair'', PStr ''XDGUSD''), (''type'', PStr ''buy''),
                          (''ordertype'', PStr ''market''), (''volume'', nv)])"
  by (simp add: build_payload_def with_volume_def with_price_def coarse_bot_def coarse_info_def
      initial_payload_def obj_spread_def split: sum.splits)

lemma coarse_place_buy:
  "normaliseVolume (coarse_bot\<lparr>enforcePrecision := ep, rest_log := l\<rparr>) (Num q) = Inr nv
   \<Longrightarrow> place_buy (exchange_with bal) None price q (coarse_bot\<lparr>enforcePrecision := ep, rest_log := l\<rparr>)
       = (Inr (Response 1),
          coarse_bot\<lparr>enforcePrecision := ep,
            rest_log := l @ [AddOrder [(''pair'', PStr ''XDGUSD''), (''type'', PStr ''buy''),
                                       (''ordertype'', PStr ''market''), (''volume'', nv)]],
            events := [OrderSubmitted [(''pair'', PStr ''XDGUSD''), (''type'', PStr ''buy''),
                                       (''ordertype'', PStr ''market''), (''volume'', nv)] False]\<rparr>)"
  by (simp add: place_buy_def marketBuy_def submitOrder_def coarse_cached coarse_payload Let_def)
    (simp add: coarse_bot_def exchange_with_def)

lemma coarse_place_buy_thrown:
  "normaliseVolume (coarse_bot\<lparr>enforcePrecision := ep, rest_log := l\<rparr>) (Num q) = Inl err
   \<Longrightarrow> place_buy (exchange_with bal) None price q (coarse_bot\<lparr>enforcePrecision := ep, rest_log := l\<rparr>)
       = (Inl err, coarse_bot\<lparr>enforcePrecision := ep, rest_log := l\<rparr>)"
  by (simp add: place_buy_def marketBuy_def submitOrder_def coarse_cached coarse_payload Let_def)

lemma half_risk_fields:
  "riskCfg (ExecutionEngine_new half_risk) = half_risk"
  "maxTradeRiskPct half_risk = 50" "minNotional half_risk = 20"
  by (simp_all add: ExecutionEngine_new_def half_risk_def default_riskConfig_def)

lemma coarse_sizing_below:
  "openLong (exchange_with 62) (Num 100) None (Some (Num 32)) is_add 1000 now'
           (ExecutionEngine_new half_risk, coarse_bot\<lparr>enforcePrecision := ep\<rparr>)
     = (case place_buy (exchange_with 62) None 32 (31 / 32)
               (coarse_bot\<lparr>enforcePrecision := ep, rest_log := [GetBalances]\<rparr>) of
          (response, b3) \<Rightarrow>
            (case settle_buy response (31 / 32) 32 is_add now'
                    ((ExecutionEngine_new half_risk)
                       \<lparr>dailyStartingBalance := Some 62,
                        lastBalances := Some \<lparr>quote = 62, base = 0\<rparr>, lastBalanceTs := 1000\<rparr>) of
               (res, e2) \<Rightarrow> (res, e2, b3)))"
proof -
  have t: "ensureTicker (exchange_with 62) (Some (Num 32)) (coarse_bot\<lparr>enforcePrecision := ep\<rparr>)
            = (Some (Num 32), coarse_bot\<lparr>enforcePrecision := ep\<rparr>)"
    by (simp add: ensureTicker_def)
  have d: "deriveEntryPrice (coarse_bot\<lparr>enforcePrecision := ep\<rparr>) (Num 32) None = EntryNum (Num 32)"
    by (simp add: deriveEntryPrice_def)
  have s: "sizePct_of half_risk (Num 100) = 100"
    by (simp add: sizePct_of_def)
  from openLong_sizing [where x = "exchange_with 62" and close5m = "Some (Num 32)"
      and b = "coarse_bot\<lparr>enforcePrecision := ep\<rparr>" and lastTrade = "Num 32"
      and ?b1.0 = "coarse_bot\<lparr>enforcePrecision := ep\<rparr>"
      and e = "ExecutionEngine_new half_risk" and sizePctN = "Num 100" and s = 100
      and ent = None and price = 32 and now = 1000
      and bal = "\<lparr>quote = 62, base = 0\<rparr>"
      and ?e1.0 = "(ExecutionEngine_new half_risk)
                       \<lparr>dailyStartingBalance := Some 62,
                        lastBalances := Some \<lparr>quote = 62, base = 0\<rparr>, lastBalanceTs := 1000\<rparr>"
      and ?b2.0 = "coarse_bot\<lparr>enforcePrecision := ep, rest_log := [GetBalances]\<rparr>"
      and is_add = is_add and now' = now']
  show ?thesis
    by (simp add: t d s coarse_balances half_risk_fields fl_examples)
qed

lemma coarse_sizing_above:
  "openLong (exchange_with 94) (Num 100) None (Some (Num 32)) is_add 1000 now'
           (ExecutionEngine_new half_risk, coarse_bot\<lparr>enforcePrecision := ep\<rparr>)
     = (case place_buy (exchange_with 94) None 32 (47 / 32)
               (coarse_bot\<lparr>enforcePrecision := ep, rest_log := [GetBalances]\<rparr>) of
          (response, b3) \<Rightarrow>
            (case settle_buy response (47 / 32) 32 is_add now'
                    ((ExecutionEngine_new half_risk)
                       \<lparr>dailyStartingBalance := Some 94,
                        lastBalances := Some \<lparr>quote = 94, base = 0\<rparr>, lastBalanceTs := 1000\<rparr>) of
               (res, e2) \<Rightarrow> (res, e2, b3)))"
proof -
  have t: "ensureTicker (exchange_with 94) (Some (Num 32)) (coarse_bot\<lparr>enforcePrecision := ep\<rparr>)
            = (Some (Num 32), coarse_bot\<lparr>enforcePrecision := ep\<rparr>)"
    by (simp add: ensureTicker_def)
  have d: "deriveEntryPrice (coarse_bot\<lparr>enforcePrecision := ep\<rparr>) (Num 32) None = EntryNum (Num 32)"
    by (simp add: deriveEntryPrice_def)
  have s: "sizePct_of half_risk (Num 100) = 100"
    by (simp add: sizePct_of_def)
  from openLong_sizing [where x = "exchange_with 94" and close5m = "Some (Num 32)"
      and b = "coarse_bot\<lparr>enforcePrecision := ep\<rparr>" and lastTrade = "Num 32"
      and ?b1.0 = "coarse_bot\<lparr>enforcePrecision := ep\<rparr>"
      and e = "ExecutionEngine_new half_risk" and sizePctN = "Num 100" and s = 100
      and ent = None and price = 32 and now = 1000
      and bal = "\<lparr>quote = 94, base = 0\<rparr>"
      and ?e1.0 = "(ExecutionEngine_new half_risk)
                       \<lparr>dailyStartingBalance := Some 94,
                        lastBalances := Some \<lparr>quote = 94, base = 0\<rparr>, lastBalanceTs := 1000\<rparr>"
      and ?b2.0 = "coarse_bot\<lparr>enforcePrecision := ep, rest_log := [GetBalances]\<rparr>"
      and is_add = is_add and now' = now']
  show ?thesis
    by (simp add: t d s coarse_balances half_risk_fields fl_examples)
qed




end
